theory Spec2Isabelle
  imports Main "HOL-Library.Word" "HOL-Library.Char_ord" "HOL-Library.List_Lexorder"
    "HOL-Library.Product_Lexorder" "HOL-Library.Multiset"
begin

section \<open>Data model of the DDL propagation code\<close>

text \<open>
  Shallow embedding of the DDL planning and execution functions of
  \<^verbatim>\<open>utility_hook.c\<close> and \<^verbatim>\<open>tablecmds.c\<close>. Object identifiers are 32-bit,
  shard identifiers 64-bit and attribute numbers 16-bit machine integers. A nullable
  \<^verbatim>\<open>char *\<close> is a \<open>string option\<close>, a nullable pointer to a struct an option of the
  record. \<^verbatim>\<open>ereport(ERROR, ...)\<close> ends the function with \<open>Inl\<close> of the report.
\<close>

type_synonym Oid = "32 word"
type_synonym uint64 = "64 word"
type_synonym AttrNumber = "16 word"

definition InvalidOid :: Oid where
  "InvalidOid = 0"

definition OidIsValid :: "Oid \<Rightarrow> bool" where
  "OidIsValid objectId = (objectId \<noteq> InvalidOid)"

definition INVALID_JOB_ID :: uint64 where
  "INVALID_JOB_ID = 0"

datatype LOCKMODE = NoLock | AccessShareLock | RowShareLock | RowExclusiveLock
  | ShareUpdateExclusiveLock | ShareLock | ShareRowExclusiveLock | ExclusiveLock
  | AccessExclusiveLock

text \<open>The distribution methods stored in \<^verbatim>\<open>pg_dist_partition.partmethod\<close>.\<close>

datatype PartitionMethodType = DISTRIBUTE_BY_APPEND | DISTRIBUTE_BY_HASH
  | DISTRIBUTE_BY_RANGE | DISTRIBUTE_BY_NONE

datatype RelKind = RELKIND_RELATION | RELKIND_INDEX | RELKIND_FOREIGN_TABLE
  | RELKIND_PARTITIONED_TABLE | RELKIND_OTHER

datatype MultiShardConnectionTypes = PARALLEL_CONNECTION | SEQUENTIAL_CONNECTION

datatype CommitProtocolType = COMMIT_PROTOCOL_BARE | COMMIT_PROTOCOL_1PC
  | COMMIT_PROTOCOL_2PC

datatype TaskType = DDL_TASK | VACUUM_ANALYZE_TASK | OTHER_TASK

datatype ReplicationModel = REPLICATION_MODEL_INVALID | REPLICATION_MODEL_COORDINATOR
  | REPLICATION_MODEL_STREAMING | REPLICATION_MODEL_2PC

record RangeVar =
  schemaname :: "string option"
  relname :: string

record Var =
  varattno :: AttrNumber

record ShardInterval =
  si_relationId :: Oid
  shardId :: uint64

record ShardPlacement =
  placementId :: uint64
  sp_shardId :: uint64
  nodeName :: string
  nodePort :: int

record RelationShard =
  rs_relationId :: Oid
  rs_shardId :: uint64

record Task =
  jobId :: uint64
  taskId :: "32 word"
  taskType :: TaskType
  queryString :: string
  replicationModel :: ReplicationModel
  anchorShardId :: uint64
  taskPlacementList :: "ShardPlacement list"
  relationShardList :: "RelationShard list"

record DDLJob =
  targetRelationId :: Oid
  concurrentIndexCmd :: bool
  executeSequentially :: bool
  commandString :: string
  taskList :: "Task list"

text \<open>
  The reports raised with \<^verbatim>\<open>ereport(ERROR, ...)\<close> by the functions below, one
  constructor per call site message. \<open>UndefinedTable\<close> is the report of
  \<^verbatim>\<open>RangeVarGetRelid\<close> called with \<^verbatim>\<open>missing_ok = false\<close> on a name that does not
  resolve and \<open>CouldNotOpenRelation\<close> the one of \<^verbatim>\<open>index_open\<close> on an invalid
  identifier; \<open>NullPointerDereference\<close>, \<open>InvalidNodeCast\<close> and \<open>OutOfBoundsRead\<close>
  stand for the crash of a dereference of \<^verbatim>\<open>NULL\<close>, of a cast of
  \<^verbatim>\<open>command->def\<close> to a node type it does not have and of a read past the end of
  an array; \<open>ForeignConstraintError\<close>, \<open>NotCoordinatorError\<close>,
  \<open>PartitionTableReplicatedError\<close> and \<open>WorkerError\<close> are raised by callees that
  are not part of these files.
\<close>

datatype Error =
    SerialPseudotypeError
  | InvolvingPartitionColumnError
  | DroppingPartitionColumnError
  | AddConstraintWithOtherSubcommandsError
  | ConstraintWithoutNameError
  | AttachPartitionWithOtherSubcommandsError
  | NonColocatedPartitionError
  | DetachPartitionWithOtherSubcommandsError
  | UnsupportedAlterTableCommandError
  | UnsupportedAlterIndexCommandError
  | ConstraintWithoutPartitionColumnError string
  | ForeignConstraintError
  | ParallelOperationInTransactionError "string option"
  | ConcurrentIndexCommandFailedError
  | UndefinedTable
  | NullPointerDereference
  | InvalidNodeCast
  | OutOfBoundsRead
  | CouldNotOpenRelation
  | NotCoordinatorError
  | PartitionTableReplicatedError
  | WorkerError

text \<open>The \<^verbatim>\<open>errhint\<close> text of a report, for the reports that carry one.\<close>

fun errhint :: "Error \<Rightarrow> string option" where
  "errhint AddConstraintWithOtherSubcommandsError =
     Some ''You can issue each subcommand separately''"
| "errhint AttachPartitionWithOtherSubcommandsError =
     Some ''You can issue each subcommand separately.''"
| "errhint DetachPartitionWithOtherSubcommandsError =
     Some ''You can issue each subcommand separately.''"
| "errhint (ParallelOperationInTransactionError relationName) =
     Some (''Try re-running the transaction with '' @ [CHR 0x22]
       @ ''SET LOCAL citus.multi_shard_modify_mode TO ''
       @ [CHR 0x27] @ ''sequential'' @ [CHR 0x27] @ '';'' @ [CHR 0x22])"
| "errhint ConcurrentIndexCommandFailedError =
     Some (''Use DROP INDEX CONCURRENTLY IF EXISTS to remove the ''
       @ ''invalid index, then retry the original command.'')"
| "errhint _ = None"

text \<open>
  The error taxonomy of the design: a validator rejection is an unsupported-command
  error, the sequential/parallel mismatch a conflicting-execution-mode error and the
  failure of a concurrent index command a partial-index failure.
\<close>

fun UnsupportedCommand :: "Error \<Rightarrow> bool" where
  "UnsupportedCommand SerialPseudotypeError = True"
| "UnsupportedCommand InvolvingPartitionColumnError = True"
| "UnsupportedCommand DroppingPartitionColumnError = True"
| "UnsupportedCommand AddConstraintWithOtherSubcommandsError = True"
| "UnsupportedCommand ConstraintWithoutNameError = True"
| "UnsupportedCommand AttachPartitionWithOtherSubcommandsError = True"
| "UnsupportedCommand NonColocatedPartitionError = True"
| "UnsupportedCommand DetachPartitionWithOtherSubcommandsError = True"
| "UnsupportedCommand UnsupportedAlterTableCommandError = True"
| "UnsupportedCommand UnsupportedAlterIndexCommandError = True"
| "UnsupportedCommand (ConstraintWithoutPartitionColumnError relationName) = True"
| "UnsupportedCommand ForeignConstraintError = True"
| "UnsupportedCommand _ = False"

fun ConflictingExecutionMode :: "Error \<Rightarrow> bool" where
  "ConflictingExecutionMode (ParallelOperationInTransactionError relationName) = True"
| "ConflictingExecutionMode _ = False"

text \<open>
  \<^verbatim>\<open>IndexInfo\<close>: the key attribute numbers of an index (the array read by
  \<^verbatim>\<open>IndexInfoAttributeNumberArray\<close>, of length \<^verbatim>\<open>ii_NumIndexAttrs\<close>), whether the
  index is unique, and the exclusion operators, \<^verbatim>\<open>NULL\<close> unless the index backs an
  exclusion constraint.
\<close>

record IndexInfo =
  ii_IndexAttrNumbers :: "AttrNumber list"
  ii_Unique :: bool
  ii_ExclusionOps :: "Oid list option"

text \<open>An open relation: its identifier, its name and the list of its indexes.\<close>

record Relation =
  rd_id :: Oid
  rd_relname :: string
  rd_indexlist :: "Oid list"

subsection \<open>The catalog and the metadata cache\<close>

text \<open>
  The functions of PostgreSQL and of the metadata cache that the code calls are fields
  of one record, so that every definition below is a function of the catalog contents.
  \<open>RangeVarRelid\<close> gives the relation a name resolves to, \<open>InvalidOid\<close> when there is
  none. A \<^verbatim>\<open>char *\<close> argument that may be \<^verbatim>\<open>NULL\<close> is passed on as it is.
  \<open>WORKER_APPLY_SHARD_DDL_COMMAND\<close> and
  \<open>WORKER_APPLY_INTER_SHARD_DDL_COMMAND\<close> are the two format macros, applied to
  their arguments.
\<close>

record Catalog =
  RangeVarRelid :: "RangeVar \<Rightarrow> Oid"
  get_rel_relkind :: "Oid \<Rightarrow> RelKind"
  IndexGetRelation :: "Oid \<Rightarrow> Oid"
  get_rel_namespace :: "Oid \<Rightarrow> Oid"
  get_namespace_name :: "Oid \<Rightarrow> string option"
  get_rel_name :: "Oid \<Rightarrow> string option"
  quote_literal_cstr :: "string option \<Rightarrow> string"
  SearchSysCacheAttName :: "Oid \<Rightarrow> string option \<Rightarrow> AttrNumber option"
  IsDistributedTable :: "Oid \<Rightarrow> bool"
  PartitionMethod :: "Oid \<Rightarrow> PartitionMethodType"
  DistPartitionKey :: "Oid \<Rightarrow> Var option"
  TablesColocated :: "Oid \<Rightarrow> Oid \<Rightarrow> bool"
  LoadShardIntervalList :: "Oid \<Rightarrow> ShardInterval list"
  FinalizedShardPlacementList :: "uint64 \<Rightarrow> ShardPlacement list"
  ConstraintIsAForeignKey :: "string option \<Rightarrow> Oid \<Rightarrow> bool"
  ConstraintIsAForeignKeyToReferenceTable :: "string option \<Rightarrow> Oid \<Rightarrow> bool"
  ColumnAppearsInForeignKeyToReferenceTable :: "string option \<Rightarrow> Oid \<Rightarrow> bool"
  TableReferenced :: "Oid \<Rightarrow> bool"
  IsTransactionBlock :: bool
  BuildIndexInfo :: "Oid \<Rightarrow> IndexInfo"
  OperatorImplementsEquality :: "Oid \<Rightarrow> bool"
  ErrorIfUnsupportedForeignConstraint ::
    "Relation \<Rightarrow> PartitionMethodType \<Rightarrow> Var option \<Rightarrow> 32 word \<Rightarrow> Error option"
  get_relname_relid :: "string option \<Rightarrow> Oid \<Rightarrow> Oid"
  fetch_search_path :: "Oid list"
  quote_identifier :: "string \<Rightarrow> string"
  WORKER_APPLY_SHARD_DDL_COMMAND :: "uint64 \<Rightarrow> string \<Rightarrow> string \<Rightarrow> string"
  WORKER_APPLY_INTER_SHARD_DDL_COMMAND ::
    "uint64 \<Rightarrow> string \<Rightarrow> uint64 \<Rightarrow> string \<Rightarrow> string \<Rightarrow> string"

subsection \<open>The cluster\<close>

record WorkerNode =
  workerName :: string
  workerPort :: int
  groupId :: int
  hasMetadata :: bool

datatype TargetWorkerSet = WORKERS_WITH_METADATA | OTHER_WORKERS | ALL_WORKERS

text \<open>
  The calls that reach a worker node or take a relation lock, in the order they are made.
\<close>

datatype ClusterEvent =
    SendCommandToWorkersCall TargetWorkerSet string
  | SendBareCommandListToWorkersCall TargetWorkerSet "string list"
  | ExecuteModifyTasksSequentiallyWithoutResultsCall "Task list"
  | ExecuteModifyTasksWithoutResultsCall "Task list"
  | BeginOrContinueCoordinatedTransactionCall
  | SendCommandToWorkerCall string int string
  | LockRelationOidCall Oid LOCKMODE

text \<open>
  What the code reads of the cluster: the node metadata, the format helpers, and which
  of the calls to the workers end with an error (\<open>workerCallFails\<close>).
\<close>

record Cluster =
  IsCoordinator :: bool
  ShouldSyncTableMetadata :: "Oid \<Rightarrow> bool"
  PartitionTableIsReplicated :: "Oid \<Rightarrow> bool"
  ActivePrimaryNodeList :: "WorkerNode list"
  GetLocalGroupId :: int
  generate_qualified_relation_name :: "Oid \<Rightarrow> string"
  LockModeToLockModeText :: "LOCKMODE \<Rightarrow> string"
  DISABLE_DDL_PROPAGATION :: string
  workerCallFails :: "ClusterEvent \<Rightarrow> bool"

text \<open>
  The calls on shard metadata whose order matters: the shard metadata lock and the
  lookups of the finalized placements of a shard.
\<close>

datatype MetadataEvent =
    LockShardListMetadataCall "uint64 list" LOCKMODE
  | FinalizedShardPlacementListCall uint64

text \<open>
  The backend-local variables the planning functions read and write:
  \<^verbatim>\<open>MultiShardConnectionType\<close>, what \<^verbatim>\<open>ParallelQueryExecutedInTransaction()\<close>
  returns, the static flag \<^verbatim>\<open>shouldInvalidateForeignKeyGraph\<close>, the commit protocol
  and its saved value, the logs of the shard metadata calls and of the calls to the
  cluster made so far, and the validity flag \<^verbatim>\<open>pg_index.indisvalid\<close> of the local
  indexes: the value on disk, and the updates the open transaction has made and not yet
  committed.
\<close>

record BackendState =
  MultiShardConnectionType :: MultiShardConnectionTypes
  ParallelQueryExecutedInTransaction :: bool
  shouldInvalidateForeignKeyGraph :: bool
  metadataLog :: "MetadataEvent list"
  MultiShardCommitProtocol :: CommitProtocolType
  SavedMultiShardCommitProtocol :: CommitProtocolType
  clusterLog :: "ClusterEvent list"
  indisvalid :: "Oid \<Rightarrow> bool"
  indisvalidPending :: "Oid \<rightharpoonup> bool"

definition logMetadataEvent :: "MetadataEvent \<Rightarrow> BackendState \<Rightarrow> BackendState" where
  "logMetadataEvent event st = st\<lparr>metadataLog := metadataLog st @ [event]\<rparr>"

definition RangeVarGetRelid :: "Catalog \<Rightarrow> RangeVar \<Rightarrow> bool \<Rightarrow> Error + Oid" where
  "RangeVarGetRelid cat rangeVar missing_ok =
     (let relationId = RangeVarRelid cat rangeVar
      in if \<not> OidIsValid relationId \<and> \<not> missing_ok then Inl UndefinedTable
         else Inr relationId)"

section \<open>Task list builders\<close>

text \<open>
  \<^verbatim>\<open>LockShardListMetadata(shardIntervalList, ShareLock)\<close>.
\<close>

definition LockShardListMetadata ::
  "ShardInterval list \<Rightarrow> LOCKMODE \<Rightarrow> BackendState \<Rightarrow> BackendState" where
  "LockShardListMetadata shardIntervalList lockMode st =
     logMetadataEvent (LockShardListMetadataCall (map shardId shardIntervalList) lockMode) st"

text \<open>
  The \<^verbatim>\<open>foreach\<close> loop of \<^verbatim>\<open>DDLTaskList\<close>: one task per shard interval, appended to
  the task list, the task id counted up from the value it is entered with.
\<close>

fun DDLTaskList_foreach ::
  "Catalog \<Rightarrow> string \<Rightarrow> string \<Rightarrow> ShardInterval list \<Rightarrow> 32 word \<Rightarrow> Task list
    \<Rightarrow> BackendState \<Rightarrow> Task list \<times> BackendState" where
  "DDLTaskList_foreach cat escapedSchemaName escapedCommandString [] nextTaskId tasks st =
     (tasks, st)"
| "DDLTaskList_foreach cat escapedSchemaName escapedCommandString (shardInterval # rest)
     nextTaskId tasks st =
     (let shardId' = shardId shardInterval;
          applyCommand = WORKER_APPLY_SHARD_DDL_COMMAND cat shardId' escapedSchemaName
                           escapedCommandString;
          st' = logMetadataEvent (FinalizedShardPlacementListCall shardId') st;
          task = \<lparr>jobId = INVALID_JOB_ID, taskId = nextTaskId, taskType = DDL_TASK,
                  queryString = applyCommand,
                  replicationModel = REPLICATION_MODEL_INVALID,
                  anchorShardId = shardId',
                  taskPlacementList = FinalizedShardPlacementList cat shardId',
                  relationShardList = []\<rparr>
      in DDLTaskList_foreach cat escapedSchemaName escapedCommandString rest
           (nextTaskId + 1) (tasks @ [task]) st')"

definition DDLTaskList ::
  "Catalog \<Rightarrow> Oid \<Rightarrow> string \<Rightarrow> BackendState \<Rightarrow> Task list \<times> BackendState" where
  "DDLTaskList cat relationId commandString' st =
     (let shardIntervalList = LoadShardIntervalList cat relationId;
          schemaId = get_rel_namespace cat relationId;
          schemaName = get_namespace_name cat schemaId;
          escapedSchemaName = quote_literal_cstr cat schemaName;
          escapedCommandString = quote_literal_cstr cat (Some commandString');
          st' = LockShardListMetadata shardIntervalList ShareLock st
      in DDLTaskList_foreach cat escapedSchemaName escapedCommandString shardIntervalList
           1 [] st')"

text \<open>
  The \<^verbatim>\<open>for\<close> loop of \<^verbatim>\<open>InterShardDDLTaskList\<close> that repeats the shard of a reference
  table until the right shard list is as long as the left one.
\<close>

function InterShardDDLTaskList_repeat ::
  "ShardInterval \<Rightarrow> int \<Rightarrow> int \<Rightarrow> ShardInterval list \<Rightarrow> ShardInterval list" where
  "InterShardDDLTaskList_repeat rightShardInterval shardCounter leftShardCount
     rightShardList =
     (if shardCounter < leftShardCount
      then InterShardDDLTaskList_repeat rightShardInterval (shardCounter + 1)
             leftShardCount (rightShardList @ [rightShardInterval])
      else rightShardList)"
  by pat_completeness auto
termination
  by (relation "measure (\<lambda>(r, shardCounter, leftShardCount, l).
        nat (leftShardCount - shardCounter))") auto

declare InterShardDDLTaskList_repeat.simps [simp del]

text \<open>The \<^verbatim>\<open>forboth\<close> loop: it ends with the shorter of the two lists.\<close>

fun InterShardDDLTaskList_forboth ::
  "Catalog \<Rightarrow> Oid \<Rightarrow> Oid \<Rightarrow> string \<Rightarrow> string \<Rightarrow> string \<Rightarrow> ShardInterval list
    \<Rightarrow> ShardInterval list \<Rightarrow> 32 word \<Rightarrow> Task list \<Rightarrow> BackendState
    \<Rightarrow> Task list \<times> BackendState" where
  "InterShardDDLTaskList_forboth cat leftRelationId rightRelationId escapedLeftSchemaName
     escapedRightSchemaName escapedCommandString (leftShardInterval # leftRest)
     (rightShardInterval # rightRest) nextTaskId tasks st =
     (let leftShardId = shardId leftShardInterval;
          rightShardId = shardId rightShardInterval;
          leftRelationShard = \<lparr>rs_relationId = leftRelationId, rs_shardId = leftShardId\<rparr>;
          rightRelationShard =
            \<lparr>rs_relationId = rightRelationId, rs_shardId = rightShardId\<rparr>;
          applyCommand = WORKER_APPLY_INTER_SHARD_DDL_COMMAND cat leftShardId
                           escapedLeftSchemaName rightShardId escapedRightSchemaName
                           escapedCommandString;
          st' = logMetadataEvent (FinalizedShardPlacementListCall leftShardId) st;
          task = \<lparr>jobId = INVALID_JOB_ID, taskId = nextTaskId, taskType = DDL_TASK,
                  queryString = applyCommand,
                  replicationModel = REPLICATION_MODEL_INVALID,
                  anchorShardId = leftShardId,
                  taskPlacementList = FinalizedShardPlacementList cat leftShardId,
                  relationShardList = [leftRelationShard, rightRelationShard]\<rparr>
      in InterShardDDLTaskList_forboth cat leftRelationId rightRelationId
           escapedLeftSchemaName escapedRightSchemaName escapedCommandString leftRest
           rightRest (nextTaskId + 1) (tasks @ [task]) st')"
| "InterShardDDLTaskList_forboth cat leftRelationId rightRelationId escapedLeftSchemaName
     escapedRightSchemaName escapedCommandString leftShardList rightShardList nextTaskId
     tasks st = (tasks, st)"

text \<open>
  \<^verbatim>\<open>InterShardDDLTaskList\<close>. \<^verbatim>\<open>linitial\<close> of an empty right shard list reads through
  a null list head.
\<close>

definition InterShardDDLTaskList ::
  "Catalog \<Rightarrow> Oid \<Rightarrow> Oid \<Rightarrow> string \<Rightarrow> BackendState
    \<Rightarrow> Error + (Task list \<times> BackendState)" where
  "InterShardDDLTaskList cat leftRelationId rightRelationId commandString' st =
     (let leftShardList = LoadShardIntervalList cat leftRelationId;
          escapedLeftSchemaName =
            quote_literal_cstr cat (get_namespace_name cat (get_rel_namespace cat leftRelationId));
          rightPartitionMethod = PartitionMethod cat rightRelationId;
          rightShardList = LoadShardIntervalList cat rightRelationId;
          escapedRightSchemaName =
            quote_literal_cstr cat (get_namespace_name cat (get_rel_namespace cat rightRelationId));
          escapedCommandString = quote_literal_cstr cat (Some commandString');
          extended =
            (if rightPartitionMethod = DISTRIBUTE_BY_NONE
             then (case rightShardList of
                     [] \<Rightarrow> Inl NullPointerDereference
                   | rightShardInterval # _ \<Rightarrow>
                       Inr (InterShardDDLTaskList_repeat rightShardInterval
                              (int (length rightShardList)) (int (length leftShardList))
                              rightShardList))
             else Inr rightShardList)
      in case extended of
           Inl e \<Rightarrow> Inl e
         | Inr rightShardList' \<Rightarrow>
             Inr (InterShardDDLTaskList_forboth cat leftRelationId rightRelationId
                    escapedLeftSchemaName escapedRightSchemaName escapedCommandString
                    leftShardList rightShardList' 1 []
                    (LockShardListMetadata leftShardList ShareLock st)))"

section \<open>Parse trees of the utility commands\<close>

datatype AlterTableType = AT_AddColumn | AT_DropColumn | AT_ColumnDefault
  | AT_AlterColumnType | AT_DropNotNull | AT_SetNotNull | AT_AddConstraint
  | AT_DropConstraint | AT_AttachPartition | AT_DetachPartition | AT_EnableTrigAll
  | AT_DisableTrigAll | AT_ReplicaIdentity | AT_SetRelOptions | AT_ResetRelOptions
  | AT_ReplaceRelOptions | AT_SetTableSpace | AT_OtherSubtype

datatype ConstrType = CONSTR_NULL | CONSTR_NOTNULL | CONSTR_DEFAULT | CONSTR_CHECK
  | CONSTR_PRIMARY | CONSTR_UNIQUE | CONSTR_EXCLUSION | CONSTR_FOREIGN

datatype ObjectType = OBJECT_TABLE | OBJECT_INDEX | OBJECT_OTHER

record Constraint =
  contype :: ConstrType
  conname :: "string option"
  pktable :: "RangeVar option"
  skip_validation :: bool

record TypeName =
  names :: "string list"
  pct_type :: bool

record ColumnDef =
  colname :: string
  typeName :: "TypeName option"
  constraints :: "Constraint list"

record PartitionCmd =
  pc_name :: RangeVar

text \<open>The node \<^verbatim>\<open>command->def\<close> points to, \<open>NullNode\<close> for \<^verbatim>\<open>NULL\<close>.\<close>

datatype Node = NullNode | ColumnDefNode ColumnDef | ConstraintNode Constraint
  | PartitionCmdNode PartitionCmd | OtherNode

record AlterTableCmd =
  subtype :: AlterTableType
  name :: "string option"
  cmd_def :: Node

record AlterTableStmt =
  relation :: "RangeVar option"
  cmds :: "AlterTableCmd list"
  relkind :: ObjectType
  missing_ok :: bool

record TruncateStmt =
  relations :: "RangeVar list"

record IndexStmt =
  idxname :: "string option"
  idx_relation :: RangeVar
  concurrent :: bool

datatype ParseTree = AlterTableStmtNode AlterTableStmt | IndexStmtNode IndexStmt
  | TruncateStmtNode TruncateStmt | OtherStmtNode

text \<open>The unchecked casts of \<^verbatim>\<open>command->def\<close>.\<close>

definition castConstraint :: "Node \<Rightarrow> Error + Constraint" where
  "castConstraint node =
     (case node of ConstraintNode constraint \<Rightarrow> Inr constraint
      | NullNode \<Rightarrow> Inl NullPointerDereference
      | _ \<Rightarrow> Inl InvalidNodeCast)"

definition castColumnDef :: "Node \<Rightarrow> Error + ColumnDef" where
  "castColumnDef node =
     (case node of ColumnDefNode columnDefinition \<Rightarrow> Inr columnDefinition
      | NullNode \<Rightarrow> Inl NullPointerDereference
      | _ \<Rightarrow> Inl InvalidNodeCast)"

definition castPartitionCmd :: "Node \<Rightarrow> Error + PartitionCmd" where
  "castPartitionCmd node =
     (case node of PartitionCmdNode partitionCommand \<Rightarrow> Inr partitionCommand
      | NullNode \<Rightarrow> Inl NullPointerDereference
      | _ \<Rightarrow> Inl InvalidNodeCast)"

text \<open>
  \<^verbatim>\<open>AlterTableLookupRelation\<close> of PostgreSQL: the relation the statement names, looked
  up with the statement's own \<^verbatim>\<open>missing_ok\<close>.
\<close>

definition AlterTableLookupRelation :: "Catalog \<Rightarrow> AlterTableStmt \<Rightarrow> Error + Oid" where
  "AlterTableLookupRelation cat alterTableStatement =
     (case relation alterTableStatement of
        None \<Rightarrow> Inl NullPointerDereference
      | Some rangeVar \<Rightarrow> RangeVarGetRelid cat rangeVar (missing_ok alterTableStatement))"

section \<open>Support validator for ALTER TABLE\<close>

definition AlterInvolvesPartitionColumn ::
  "Catalog \<Rightarrow> AlterTableStmt \<Rightarrow> AlterTableCmd \<Rightarrow> Error + bool" where
  "AlterInvolvesPartitionColumn cat alterTableStatement command =
     (let alterColumnName = name command
      in case AlterTableLookupRelation cat alterTableStatement of
           Inl e \<Rightarrow> Inl e
         | Inr relationId \<Rightarrow>
             if \<not> OidIsValid relationId then Inr False
             else (let partitionColumn = DistPartitionKey cat relationId
                   in case SearchSysCacheAttName cat relationId alterColumnName of
                        None \<Rightarrow> Inr False
                      | Some attnum \<Rightarrow>
                          (case partitionColumn of
                             None \<Rightarrow> Inr False
                           | Some partitionVar \<Rightarrow> Inr (attnum = varattno partitionVar))))"

definition MarkInvalidateForeignKeyGraph :: "BackendState \<Rightarrow> BackendState" where
  "MarkInvalidateForeignKeyGraph st = st\<lparr>shouldInvalidateForeignKeyGraph := True\<rparr>"

text \<open>
  How the body of the \<^verbatim>\<open>foreach\<close> loop of \<^verbatim>\<open>ErrorIfUnsupportedAlterTableStmt\<close> is
  left: by \<^verbatim>\<open>break\<close> out of the \<^verbatim>\<open>switch\<close>, on to the next sub-command, or by
  \<^verbatim>\<open>return\<close>.
\<close>

datatype CheckOutcome = CheckBreak BackendState | CheckReturn BackendState

definition IsSerialPseudotype :: "string \<Rightarrow> bool" where
  "IsSerialPseudotype typeName' =
     (typeName' = ''smallserial'' \<or> typeName' = ''serial2'' \<or> typeName' = ''serial''
      \<or> typeName' = ''serial4'' \<or> typeName' = ''bigserial'' \<or> typeName' = ''serial8'')"

text \<open>The \<^verbatim>\<open>switch\<close> on the sub-command type, for one sub-command.\<close>

definition ErrorIfUnsupportedAlterTableStmt_switch ::
  "Catalog \<Rightarrow> AlterTableStmt \<Rightarrow> AlterTableCmd \<Rightarrow> BackendState \<Rightarrow> Error + CheckOutcome" where
  "ErrorIfUnsupportedAlterTableStmt_switch cat alterTableStatement command st =
     (let commandList = cmds alterTableStatement;
          alterTableType = subtype command
      in if alterTableType = AT_AddColumn then
           (case cmd_def command of
              NullNode \<Rightarrow> Inl NullPointerDereference
            | ColumnDefNode column \<Rightarrow>
                (case typeName column of
                   None \<Rightarrow> Inr (CheckBreak st)
                 | Some columnType \<Rightarrow>
                     (case names columnType of
                        [typeName'] \<Rightarrow>
                          if \<not> pct_type columnType \<and> IsSerialPseudotype typeName'
                          then Inl SerialPseudotypeError
                          else Inr (CheckBreak st)
                      | _ \<Rightarrow> Inr (CheckBreak st)))
            | _ \<Rightarrow> Inr (CheckBreak st))
         else if alterTableType = AT_DropColumn \<or> alterTableType = AT_ColumnDefault
               \<or> alterTableType = AT_AlterColumnType \<or> alterTableType = AT_DropNotNull then
           (case AlterInvolvesPartitionColumn cat alterTableStatement command of
              Inl e \<Rightarrow> Inl e
            | Inr involvesPartitionColumn \<Rightarrow>
                if involvesPartitionColumn then Inl InvolvingPartitionColumnError
                else Inr (CheckBreak st))
         else if alterTableType = AT_AddConstraint then
           (if length commandList > 1 then Inl AddConstraintWithOtherSubcommandsError
            else (case castConstraint (cmd_def command) of
                    Inl e \<Rightarrow> Inl e
                  | Inr constraint \<Rightarrow>
                      if conname constraint = None then Inl ConstraintWithoutNameError
                      else Inr (CheckBreak st)))
         else if alterTableType = AT_AttachPartition then
           (case AlterTableLookupRelation cat alterTableStatement of
              Inl e \<Rightarrow> Inl e
            | Inr relationId \<Rightarrow>
                (case castPartitionCmd (cmd_def command) of
                   Inl e \<Rightarrow> Inl e
                 | Inr partitionCommand \<Rightarrow>
                     (case RangeVarGetRelid cat (pc_name partitionCommand) False of
                        Inl e \<Rightarrow> Inl e
                      | Inr partitionRelationId \<Rightarrow>
                          if length commandList > 1
                          then Inl AttachPartitionWithOtherSubcommandsError
                          else if IsDistributedTable cat partitionRelationId
                                \<and> \<not> TablesColocated cat relationId partitionRelationId
                          then Inl NonColocatedPartitionError
                          else Inr (CheckBreak st))))
         else if alterTableType = AT_DetachPartition then
           (if length commandList > 1 then Inl DetachPartitionWithOtherSubcommandsError
            else Inr (CheckBreak st))
         else if alterTableType = AT_DropConstraint then
           (case AlterTableLookupRelation cat alterTableStatement of
              Inl e \<Rightarrow> Inl e
            | Inr relationId \<Rightarrow>
                if \<not> OidIsValid relationId then Inr (CheckReturn st)
                else if ConstraintIsAForeignKey cat (name command) relationId
                then Inr (CheckBreak (MarkInvalidateForeignKeyGraph st))
                else Inr (CheckBreak st))
         else if alterTableType = AT_SetNotNull \<or> alterTableType = AT_EnableTrigAll
               \<or> alterTableType = AT_DisableTrigAll \<or> alterTableType = AT_ReplicaIdentity then
           Inr (CheckBreak st)
         else if alterTableType = AT_SetRelOptions \<or> alterTableType = AT_ResetRelOptions
               \<or> alterTableType = AT_ReplaceRelOptions then
           Inr (CheckBreak st)
         else Inl UnsupportedAlterTableCommandError)"

fun ErrorIfUnsupportedAlterTableStmt_foreach ::
  "Catalog \<Rightarrow> AlterTableStmt \<Rightarrow> AlterTableCmd list \<Rightarrow> BackendState \<Rightarrow> Error + BackendState" where
  "ErrorIfUnsupportedAlterTableStmt_foreach cat alterTableStatement [] st = Inr st"
| "ErrorIfUnsupportedAlterTableStmt_foreach cat alterTableStatement (command # rest) st =
     (case ErrorIfUnsupportedAlterTableStmt_switch cat alterTableStatement command st of
        Inl e \<Rightarrow> Inl e
      | Inr (CheckReturn st') \<Rightarrow> Inr st'
      | Inr (CheckBreak st') \<Rightarrow>
          ErrorIfUnsupportedAlterTableStmt_foreach cat alterTableStatement rest st')"

definition ErrorIfUnsupportedAlterTableStmt ::
  "Catalog \<Rightarrow> AlterTableStmt \<Rightarrow> BackendState \<Rightarrow> Error + BackendState" where
  "ErrorIfUnsupportedAlterTableStmt cat alterTableStatement st =
     ErrorIfUnsupportedAlterTableStmt_foreach cat alterTableStatement
       (cmds alterTableStatement) st"

fun ErrorIfUnsupportedAlterIndexStmt_foreach :: "AlterTableCmd list \<Rightarrow> Error + unit" where
  "ErrorIfUnsupportedAlterIndexStmt_foreach [] = Inr ()"
| "ErrorIfUnsupportedAlterIndexStmt_foreach (command # rest) =
     (if subtype command = AT_SetRelOptions \<or> subtype command = AT_ResetRelOptions
         \<or> subtype command = AT_ReplaceRelOptions
      then ErrorIfUnsupportedAlterIndexStmt_foreach rest
      else Inl UnsupportedAlterIndexCommandError)"

definition ErrorIfUnsupportedAlterIndexStmt :: "AlterTableStmt \<Rightarrow> Error + unit" where
  "ErrorIfUnsupportedAlterIndexStmt alterTableStatement =
     ErrorIfUnsupportedAlterIndexStmt_foreach (cmds alterTableStatement)"

section \<open>Execution mode\<close>

text \<open>
  Modelled from the spec: \<^verbatim>\<open>SetLocalMultiShardModifyModeToSequential\<close>, which is not
  part of these files, switches the transaction-scoped execution mode to sequential.
\<close>

definition SetLocalMultiShardModifyModeToSequential :: "BackendState \<Rightarrow> BackendState" where
  "SetLocalMultiShardModifyModeToSequential st =
     st\<lparr>MultiShardConnectionType := SEQUENTIAL_CONNECTION\<rparr>"

text \<open>
  The loop of \<^verbatim>\<open>SetupExecutionModeForAlterTable\<close> over the constraints of an added
  column: every foreign key is looked up, none ends the loop.
\<close>

fun SetupExecutionModeForAlterTable_columnConstraints ::
  "Catalog \<Rightarrow> Constraint list \<Rightarrow> bool \<Rightarrow> Error + bool" where
  "SetupExecutionModeForAlterTable_columnConstraints cat [] executeSequentially' =
     Inr executeSequentially'"
| "SetupExecutionModeForAlterTable_columnConstraints cat (constraint # rest)
     executeSequentially' =
     (if contype constraint = CONSTR_FOREIGN then
        (case pktable constraint of
           None \<Rightarrow> Inl NullPointerDereference
         | Some referenced \<Rightarrow>
             (case RangeVarGetRelid cat referenced False of
                Inl e \<Rightarrow> Inl e
              | Inr rightRelationId \<Rightarrow>
                  SetupExecutionModeForAlterTable_columnConstraints cat rest
                    (if IsDistributedTable cat rightRelationId
                        \<and> PartitionMethod cat rightRelationId = DISTRIBUTE_BY_NONE
                     then True else executeSequentially')))
      else SetupExecutionModeForAlterTable_columnConstraints cat rest executeSequentially')"

text \<open>
  The first part of \<^verbatim>\<open>SetupExecutionModeForAlterTable\<close>: the decision by sub-command
  type, with the switch of the transaction to sequential mode it may make.
\<close>

definition SetupExecutionModeForAlterTable_decide ::
  "Catalog \<Rightarrow> Oid \<Rightarrow> AlterTableCmd \<Rightarrow> BackendState \<Rightarrow> Error + (bool \<times> BackendState)" where
  "SetupExecutionModeForAlterTable_decide cat relationId command st =
     (let alterTableType = subtype command
      in if alterTableType = AT_DropConstraint then
           (let constraintName = name command
            in Inr (ConstraintIsAForeignKeyToReferenceTable cat constraintName relationId, st))
         else if alterTableType = AT_AddColumn then
           (case castColumnDef (cmd_def command) of
              Inl e \<Rightarrow> Inl e
            | Inr columnDefinition \<Rightarrow>
                (case SetupExecutionModeForAlterTable_columnConstraints cat
                        (constraints columnDefinition) False of
                   Inl e \<Rightarrow> Inl e
                 | Inr executeSequentially' \<Rightarrow> Inr (executeSequentially', st)))
         else if alterTableType = AT_DropColumn \<or> alterTableType = AT_AlterColumnType then
           (let affectedColumnName = name command
            in if ColumnAppearsInForeignKeyToReferenceTable cat affectedColumnName relationId
               then Inr (True,
                      if IsTransactionBlock cat \<and> alterTableType = AT_AlterColumnType
                      then SetLocalMultiShardModifyModeToSequential st else st)
               else Inr (False, st))
         else if alterTableType = AT_AddConstraint then
           (case castConstraint (cmd_def command) of
              Inl e \<Rightarrow> Inl e
            | Inr constraint \<Rightarrow>
                if contype constraint = CONSTR_FOREIGN then
                  (case pktable constraint of
                     None \<Rightarrow> Inl NullPointerDereference
                   | Some referenced \<Rightarrow>
                       (case RangeVarGetRelid cat referenced False of
                          Inl e \<Rightarrow> Inl e
                        | Inr rightRelationId \<Rightarrow>
                            Inr (IsDistributedTable cat rightRelationId
                                  \<and> PartitionMethod cat rightRelationId = DISTRIBUTE_BY_NONE,
                                 st)))
                else Inr (False, st))
         else Inr (False, st))"

definition SetupExecutionModeForAlterTable ::
  "Catalog \<Rightarrow> Oid \<Rightarrow> AlterTableCmd \<Rightarrow> BackendState \<Rightarrow> Error + (bool \<times> BackendState)" where
  "SetupExecutionModeForAlterTable cat relationId command st =
     (case SetupExecutionModeForAlterTable_decide cat relationId command st of
        Inl e \<Rightarrow> Inl e
      | Inr (executeSequentially', st') \<Rightarrow>
          if executeSequentially' \<and> IsDistributedTable cat relationId
             \<and> PartitionMethod cat relationId \<noteq> DISTRIBUTE_BY_NONE
             \<and> ParallelQueryExecutedInTransaction st'
          then Inl (ParallelOperationInTransactionError (get_rel_name cat relationId))
          else Inr (executeSequentially', st'))"

text \<open>
  The \<^verbatim>\<open>foreach\<close> loop of \<^verbatim>\<open>ExecuteTruncateStmtSequentialIfNecessary\<close>; the relation
  is looked up with \<^verbatim>\<open>failOK = false\<close>. The \<^verbatim>\<open>DEBUG1\<close> message is not modelled.
\<close>

fun ExecuteTruncateStmtSequentialIfNecessary_foreach ::
  "Catalog \<Rightarrow> RangeVar list \<Rightarrow> BackendState \<Rightarrow> Error + BackendState" where
  "ExecuteTruncateStmtSequentialIfNecessary_foreach cat [] st = Inr st"
| "ExecuteTruncateStmtSequentialIfNecessary_foreach cat (rangeVar # rest) st =
     (case RangeVarGetRelid cat rangeVar False of
        Inl e \<Rightarrow> Inl e
      | Inr relationId \<Rightarrow>
          if IsDistributedTable cat relationId
             \<and> PartitionMethod cat relationId = DISTRIBUTE_BY_NONE
             \<and> TableReferenced cat relationId
          then Inr (SetLocalMultiShardModifyModeToSequential st)
          else ExecuteTruncateStmtSequentialIfNecessary_foreach cat rest st)"

definition ExecuteTruncateStmtSequentialIfNecessary ::
  "Catalog \<Rightarrow> TruncateStmt \<Rightarrow> BackendState \<Rightarrow> Error + BackendState" where
  "ExecuteTruncateStmtSequentialIfNecessary cat command st =
     ExecuteTruncateStmtSequentialIfNecessary_foreach cat (relations command) st"

section \<open>Planning of ALTER TABLE\<close>

text \<open>
  The loop of \<^verbatim>\<open>PlanAlterTableStmt\<close> over the constraints of an added column: the first
  foreign key gives the right relation and gets \<^verbatim>\<open>skip_validation\<close>, then the loop
  ends.
\<close>

fun PlanAlterTableStmt_columnConstraints ::
  "Catalog \<Rightarrow> AlterTableStmt \<Rightarrow> Constraint list \<Rightarrow> Oid \<Rightarrow> Error + (Constraint list \<times> Oid)" where
  "PlanAlterTableStmt_columnConstraints cat alterTableStatement [] rightRelationId =
     Inr ([], rightRelationId)"
| "PlanAlterTableStmt_columnConstraints cat alterTableStatement (constraint # rest)
     rightRelationId =
     (if contype constraint = CONSTR_FOREIGN then
        (case pktable constraint of
           None \<Rightarrow> Inl NullPointerDereference
         | Some referenced \<Rightarrow>
             (case RangeVarGetRelid cat referenced (missing_ok alterTableStatement) of
                Inl e \<Rightarrow> Inl e
              | Inr rightRelationId' \<Rightarrow>
                  Inr (constraint\<lparr>skip_validation := True\<rparr> # rest, rightRelationId')))
      else (case PlanAlterTableStmt_columnConstraints cat alterTableStatement rest
                   rightRelationId of
              Inl e \<Rightarrow> Inl e
            | Inr (rest', rightRelationId') \<Rightarrow> Inr (constraint # rest', rightRelationId')))"

text \<open>
  One sub-command in the loop of \<^verbatim>\<open>PlanAlterTableStmt\<close>, up to the call of
  \<^verbatim>\<open>SetupExecutionModeForAlterTable\<close>: either the function returns \<^verbatim>\<open>NIL\<close>, or the
  loop goes on with the sub-command as modified and the right relation found so far.
\<close>

datatype PlanStep = PlanReturnNIL | PlanContinue AlterTableCmd Oid

definition PlanAlterTableStmt_resolve ::
  "Catalog \<Rightarrow> AlterTableStmt \<Rightarrow> AlterTableCmd \<Rightarrow> Oid \<Rightarrow> Error + PlanStep" where
  "PlanAlterTableStmt_resolve cat alterTableStatement command rightRelationId =
     (let alterTableType = subtype command
      in if alterTableType = AT_AddConstraint then
           (case castConstraint (cmd_def command) of
              Inl e \<Rightarrow> Inl e
            | Inr constraint \<Rightarrow>
                if contype constraint = CONSTR_FOREIGN then
                  (case pktable constraint of
                     None \<Rightarrow> Inl NullPointerDereference
                   | Some referenced \<Rightarrow>
                       (case RangeVarGetRelid cat referenced (missing_ok alterTableStatement) of
                          Inl e \<Rightarrow> Inl e
                        | Inr rightRelationId' \<Rightarrow>
                            Inr (PlanContinue
                                  (command\<lparr>cmd_def :=
                                     ConstraintNode (constraint\<lparr>skip_validation := True\<rparr>)\<rparr>)
                                  rightRelationId')))
                else Inr (PlanContinue command rightRelationId))
         else if alterTableType = AT_AddColumn then
           (case castColumnDef (cmd_def command) of
              Inl e \<Rightarrow> Inl e
            | Inr columnDefinition \<Rightarrow>
                (case PlanAlterTableStmt_columnConstraints cat alterTableStatement
                        (constraints columnDefinition) rightRelationId of
                   Inl e \<Rightarrow> Inl e
                 | Inr (columnConstraints, rightRelationId') \<Rightarrow>
                     Inr (PlanContinue
                           (command\<lparr>cmd_def :=
                              ColumnDefNode (columnDefinition\<lparr>constraints := columnConstraints\<rparr>)\<rparr>)
                           rightRelationId')))
         else if alterTableType = AT_AttachPartition then
           (case castPartitionCmd (cmd_def command) of
              Inl e \<Rightarrow> Inl e
            | Inr partitionCommand \<Rightarrow>
                (case RangeVarGetRelid cat (pc_name partitionCommand) False of
                   Inl e \<Rightarrow> Inl e
                 | Inr rightRelationId' \<Rightarrow>
                     if \<not> IsDistributedTable cat rightRelationId' then Inr PlanReturnNIL
                     else Inr (PlanContinue command rightRelationId')))
         else if alterTableType = AT_DetachPartition then
           (case castPartitionCmd (cmd_def command) of
              Inl e \<Rightarrow> Inl e
            | Inr partitionCommand \<Rightarrow>
                (case RangeVarGetRelid cat (pc_name partitionCommand) False of
                   Inl e \<Rightarrow> Inl e
                 | Inr rightRelationId' \<Rightarrow> Inr (PlanContinue command rightRelationId')))
         else Inr (PlanContinue command rightRelationId))"

text \<open>
  The \<^verbatim>\<open>foreach\<close> loop of \<^verbatim>\<open>PlanAlterTableStmt\<close>. It carries the sub-commands done
  so far, the right relation and the flag \<^verbatim>\<open>executeSequentially\<close>, and ends either by
  the \<^verbatim>\<open>return NIL\<close> of the loop body or at the end of the list.
\<close>

datatype PlanLoop =
    LoopReturnNIL "AlterTableCmd list" BackendState
  | LoopDone "AlterTableCmd list" Oid bool BackendState

fun PlanAlterTableStmt_foreach ::
  "Catalog \<Rightarrow> AlterTableStmt \<Rightarrow> Oid \<Rightarrow> AlterTableCmd list \<Rightarrow> AlterTableCmd list \<Rightarrow> Oid
    \<Rightarrow> bool \<Rightarrow> BackendState \<Rightarrow> Error + PlanLoop" where
  "PlanAlterTableStmt_foreach cat alterTableStatement leftRelationId [] processed
     rightRelationId executeSequentially' st =
     Inr (LoopDone processed rightRelationId executeSequentially' st)"
| "PlanAlterTableStmt_foreach cat alterTableStatement leftRelationId (command # rest) processed
     rightRelationId executeSequentially' st =
     (case PlanAlterTableStmt_resolve cat alterTableStatement command rightRelationId of
        Inl e \<Rightarrow> Inl e
      | Inr PlanReturnNIL \<Rightarrow> Inr (LoopReturnNIL (processed @ command # rest) st)
      | Inr (PlanContinue command' rightRelationId') \<Rightarrow>
          (case SetupExecutionModeForAlterTable cat leftRelationId command' st of
             Inl e \<Rightarrow> Inl e
           | Inr (sequential, st') \<Rightarrow>
               PlanAlterTableStmt_foreach cat alterTableStatement leftRelationId rest
                 (processed @ [command']) rightRelationId' (executeSequentially' \<or> sequential)
                 st'))"

text \<open>
  \<^verbatim>\<open>PlanAlterTableStmt\<close>: the list of jobs, the statement as modified and the backend
  state.
\<close>

definition PlanAlterTableStmt ::
  "Catalog \<Rightarrow> AlterTableStmt \<Rightarrow> string \<Rightarrow> BackendState
    \<Rightarrow> Error + (DDLJob list \<times> AlterTableStmt \<times> BackendState)" where
  "PlanAlterTableStmt cat alterTableStatement alterTableCommand st =
     (if relation alterTableStatement = None then Inr ([], alterTableStatement, st)
      else case AlterTableLookupRelation cat alterTableStatement of
        Inl e \<Rightarrow> Inl e
      | Inr lookedUpRelationId \<Rightarrow>
          if \<not> OidIsValid lookedUpRelationId then Inr ([], alterTableStatement, st)
          else
            (let leftRelationKind = get_rel_relkind cat lookedUpRelationId;
                 leftRelationId =
                   (if leftRelationKind = RELKIND_INDEX
                    then IndexGetRelation cat lookedUpRelationId else lookedUpRelationId)
             in if \<not> IsDistributedTable cat leftRelationId
                then Inr ([], alterTableStatement, st)
                else
                  (case (if leftRelationKind = RELKIND_INDEX
                         then (case ErrorIfUnsupportedAlterIndexStmt alterTableStatement of
                                 Inl e \<Rightarrow> Inl e | Inr u \<Rightarrow> Inr st)
                         else ErrorIfUnsupportedAlterTableStmt cat alterTableStatement st) of
                     Inl e \<Rightarrow> Inl e
                   | Inr st1 \<Rightarrow>
                       (case PlanAlterTableStmt_foreach cat alterTableStatement leftRelationId
                               (cmds alterTableStatement) [] InvalidOid False st1 of
                          Inl e \<Rightarrow> Inl e
                        | Inr (LoopReturnNIL commandList st2) \<Rightarrow>
                            Inr ([], alterTableStatement\<lparr>cmds := commandList\<rparr>, st2)
                        | Inr (LoopDone commandList rightRelationId executeSequentially' st2) \<Rightarrow>
                            (let ddlJob = \<lparr>targetRelationId = leftRelationId,
                                           concurrentIndexCmd = False,
                                           executeSequentially = executeSequentially',
                                           commandString = alterTableCommand,
                                           taskList = []\<rparr>;
                                 planned = alterTableStatement\<lparr>cmds := commandList\<rparr>
                             in if rightRelationId \<noteq> 0 then
                                  (if \<not> IsDistributedTable cat rightRelationId
                                   then Inr ([ddlJob\<lparr>taskList := []\<rparr>], planned, st2)
                                   else (case InterShardDDLTaskList cat leftRelationId
                                                rightRelationId alterTableCommand st2 of
                                           Inl e \<Rightarrow> Inl e
                                         | Inr (tasks, st3) \<Rightarrow>
                                             Inr ([ddlJob\<lparr>taskList := tasks\<rparr>], planned, st3)))
                                else (case DDLTaskList cat leftRelationId alterTableCommand st2 of
                                        (tasks, st3) \<Rightarrow>
                                          Inr ([ddlJob\<lparr>taskList := tasks\<rparr>], planned, st3)))))))"

section \<open>Constraint validation\<close>





section \<open>Execution of a DDL job\<close>

text \<open>
  A call to the cluster is logged; it ends with an error when the cluster says so.
\<close>

definition clusterCall ::
  "Cluster \<Rightarrow> ClusterEvent \<Rightarrow> BackendState \<Rightarrow> BackendState \<times> Error option" where
  "clusterCall cl event st =
     (st\<lparr>clusterLog := clusterLog st @ [event]\<rparr>,
      if workerCallFails cl event then Some WorkerError else None)"

text \<open>Sequencing of two steps: an error of the first step skips the second.\<close>

definition andThen ::
  "BackendState \<times> Error option \<Rightarrow> (BackendState \<Rightarrow> BackendState \<times> Error option)
    \<Rightarrow> BackendState \<times> Error option" where
  "andThen result next =
     (case result of (st, Some e) \<Rightarrow> (st, Some e) | (st, None) \<Rightarrow> next st)"

definition SendCommandToWorkers ::
  "Cluster \<Rightarrow> TargetWorkerSet \<Rightarrow> string \<Rightarrow> BackendState \<Rightarrow> BackendState \<times> Error option" where
  "SendCommandToWorkers cl targetWorkerSet command st =
     clusterCall cl (SendCommandToWorkersCall targetWorkerSet command) st"

definition SendBareCommandListToWorkers ::
  "Cluster \<Rightarrow> TargetWorkerSet \<Rightarrow> string list \<Rightarrow> BackendState
    \<Rightarrow> BackendState \<times> Error option" where
  "SendBareCommandListToWorkers cl targetWorkerSet commandList st =
     clusterCall cl (SendBareCommandListToWorkersCall targetWorkerSet commandList) st"

definition ExecuteModifyTasksSequentiallyWithoutResults ::
  "Cluster \<Rightarrow> Task list \<Rightarrow> BackendState \<Rightarrow> BackendState \<times> Error option" where
  "ExecuteModifyTasksSequentiallyWithoutResults cl tasks st =
     clusterCall cl (ExecuteModifyTasksSequentiallyWithoutResultsCall tasks) st"

definition ExecuteModifyTasksWithoutResults ::
  "Cluster \<Rightarrow> Task list \<Rightarrow> BackendState \<Rightarrow> BackendState \<times> Error option" where
  "ExecuteModifyTasksWithoutResults cl tasks st =
     clusterCall cl (ExecuteModifyTasksWithoutResultsCall tasks) st"

fun CurrentSearchPath_foreach :: "Catalog \<Rightarrow> Oid list \<Rightarrow> string \<Rightarrow> bool \<Rightarrow> string" where
  "CurrentSearchPath_foreach cat [] currentSearchPath schemaAdded = currentSearchPath"
| "CurrentSearchPath_foreach cat (schemaOid # rest) currentSearchPath schemaAdded =
     (case get_namespace_name cat schemaOid of
        None \<Rightarrow> CurrentSearchPath_foreach cat rest currentSearchPath schemaAdded
      | Some schemaName \<Rightarrow>
          CurrentSearchPath_foreach cat rest
            ((if schemaAdded then currentSearchPath @ '','' else currentSearchPath)
               @ quote_identifier cat schemaName)
            True)"

definition CurrentSearchPath :: "Catalog \<Rightarrow> string option" where
  "CurrentSearchPath cat =
     (let currentSearchPath = CurrentSearchPath_foreach cat (fetch_search_path cat) [] False
      in if length currentSearchPath > 0 then Some currentSearchPath else None)"

definition SetSearchPathToCurrentSearchPathCommand :: "Catalog \<Rightarrow> string option" where
  "SetSearchPathToCurrentSearchPathCommand cat =
     (case CurrentSearchPath cat of
        None \<Rightarrow> None
      | Some currentSearchPath \<Rightarrow> Some (''SET search_path TO '' @ currentSearchPath @ '';''))"

text \<open>
  \<^verbatim>\<open>ExecuteDistributedDDLJob\<close>. \<^verbatim>\<open>EnsureCoordinator\<close> and
  \<^verbatim>\<open>EnsurePartitionTableNotReplicated\<close> raise their errors before any call to the
  cluster. In the branch of a concurrent index command every error raised inside
  \<^verbatim>\<open>PG_TRY\<close> is caught and replaced by the report of \<^verbatim>\<open>PG_CATCH\<close>.
\<close>

definition ExecuteDistributedDDLJob ::
  "Catalog \<Rightarrow> Cluster \<Rightarrow> DDLJob \<Rightarrow> BackendState \<Rightarrow> BackendState \<times> Error option" where
  "ExecuteDistributedDDLJob cat cl ddlJob st =
     (let shouldSyncMetadata = ShouldSyncTableMetadata cl (targetRelationId ddlJob)
      in if \<not> IsCoordinator cl then (st, Some NotCoordinatorError)
         else if PartitionTableIsReplicated cl (targetRelationId ddlJob)
         then (st, Some PartitionTableReplicatedError)
         else if \<not> concurrentIndexCmd ddlJob then
           andThen
             (if shouldSyncMetadata then
                (let setSearchPathCommand = SetSearchPathToCurrentSearchPathCommand cat
                 in andThen
                      (SendCommandToWorkers cl WORKERS_WITH_METADATA
                         (DISABLE_DDL_PROPAGATION cl) st)
                      (\<lambda>st1. andThen
                         (case setSearchPathCommand of
                            None \<Rightarrow> (st1, None)
                          | Some command \<Rightarrow>
                              SendCommandToWorkers cl WORKERS_WITH_METADATA command st1)
                         (\<lambda>st2. SendCommandToWorkers cl WORKERS_WITH_METADATA
                                  (commandString ddlJob) st2)))
              else (st, None))
             (\<lambda>st3. if MultiShardConnectionType st3 = SEQUENTIAL_CONNECTION
                        \<or> executeSequentially ddlJob
                     then ExecuteModifyTasksSequentiallyWithoutResults cl (taskList ddlJob) st3
                     else ExecuteModifyTasksWithoutResults cl (taskList ddlJob) st3)
         else
           (let st1 = st\<lparr>SavedMultiShardCommitProtocol := MultiShardCommitProtocol st,
                         MultiShardCommitProtocol := COMMIT_PROTOCOL_BARE\<rparr>
            in case andThen
                      (ExecuteModifyTasksSequentiallyWithoutResults cl (taskList ddlJob) st1)
                      (\<lambda>st2. if shouldSyncMetadata then
                                (let commandList =
                                       [DISABLE_DDL_PROPAGATION cl]
                                       @ (case SetSearchPathToCurrentSearchPathCommand cat of
                                            None \<Rightarrow> []
                                          | Some command \<Rightarrow> [command])
                                       @ [commandString ddlJob]
                                 in SendBareCommandListToWorkers cl WORKERS_WITH_METADATA
                                      commandList st2)
                              else (st2, None)) of
                 (st3, Some e) \<Rightarrow> (st3, Some ConcurrentIndexCommandFailedError)
               | (st3, None) \<Rightarrow> (st3, None)))"

subsection \<open>The local index of a concurrent index command\<close>

text \<open>
  Modelled from the spec: the transaction commands and catalog updates of PostgreSQL
  that \<^verbatim>\<open>PostProcessUtility\<close> calls, which are not part of these files. A commit
  makes the pending updates of the open transaction durable, an abort discards them;
  \<^verbatim>\<open>index_set_state_flags\<close> with \<^verbatim>\<open>INDEX_DROP_CLEAR_VALID\<close> clears the validity flag
  in place, outside the transaction, and \<^verbatim>\<open>CatalogTupleUpdate\<close> records an update
  that the open transaction can still roll back.
\<close>

definition CommitTransactionCommand :: "BackendState \<Rightarrow> BackendState" where
  "CommitTransactionCommand st =
     st\<lparr>indisvalid := (\<lambda>indexId. case indisvalidPending st indexId of
                                    Some valid \<Rightarrow> valid | None \<Rightarrow> indisvalid st indexId),
        indisvalidPending := Map.empty\<rparr>"

definition StartTransactionCommand :: "BackendState \<Rightarrow> BackendState" where
  "StartTransactionCommand st = st"

definition AbortCurrentTransaction :: "BackendState \<Rightarrow> BackendState" where
  "AbortCurrentTransaction st = st\<lparr>indisvalidPending := Map.empty\<rparr>"

definition index_set_state_flags_INDEX_DROP_CLEAR_VALID ::
  "Oid \<Rightarrow> BackendState \<Rightarrow> BackendState" where
  "index_set_state_flags_INDEX_DROP_CLEAR_VALID indexId st =
     st\<lparr>indisvalid := (indisvalid st)(indexId := False)\<rparr>"

definition CatalogTupleUpdate_indisvalid :: "Oid \<Rightarrow> bool \<Rightarrow> BackendState \<Rightarrow> BackendState" where
  "CatalogTupleUpdate_indisvalid indexId valid st =
     st\<lparr>indisvalidPending := (indisvalidPending st)(indexId \<mapsto> valid)\<rparr>"

text \<open>
  \<^verbatim>\<open>PostProcessUtility\<close>. \<^verbatim>\<open>heap_openrv\<close> raises for a relation that does not
  exist, \<^verbatim>\<open>index_open\<close> for an invalid index identifier.
\<close>

definition PostProcessUtility ::
  "Catalog \<Rightarrow> Cluster \<Rightarrow> ParseTree \<Rightarrow> BackendState \<Rightarrow> Error + BackendState" where
  "PostProcessUtility cat cl parsetree st =
     (case parsetree of
        IndexStmtNode indexStmt \<Rightarrow>
          if \<not> concurrent indexStmt then Inr st
          else if \<not> IsCoordinator cl then Inr st
          else
            (let st1 = StartTransactionCommand (CommitTransactionCommand st)
             in case RangeVarGetRelid cat (idx_relation indexStmt) False of
                  Inl e \<Rightarrow> Inl e
                | Inr relationId \<Rightarrow>
                    (let indexRelationId =
                           get_relname_relid cat (idxname indexStmt)
                             (get_rel_namespace cat relationId)
                     in if \<not> OidIsValid indexRelationId then Inl CouldNotOpenRelation
                        else
                          (let st2 = index_set_state_flags_INDEX_DROP_CLEAR_VALID
                                       indexRelationId st1;
                               st3 = StartTransactionCommand (CommitTransactionCommand st2)
                           in Inr (CatalogTupleUpdate_indisvalid indexRelationId True st3))))
      | _ \<Rightarrow> Inr st)"

section \<open>Distributed locks\<close>

definition LOCK_RELATION_IF_EXISTS :: "string \<Rightarrow> string \<Rightarrow> string" where
  "LOCK_RELATION_IF_EXISTS qualifiedRelationName lockModeText =
     ''SELECT lock_relation_if_exists('' @ [CHR 0x27] @ qualifiedRelationName @ [CHR 0x27]
       @ '', '' @ [CHR 0x27] @ lockModeText @ [CHR 0x27] @ '');''"

text \<open>
  Modelled from the spec: \<^verbatim>\<open>SortList\<close> with the comparators \<^verbatim>\<open>CompareOids\<close> and
  \<^verbatim>\<open>CompareWorkerNodes\<close>, which are not part of these files. The relation ids are
  sorted in ascending order; the order over worker nodes is total, by group id, then by
  address (name and port).
\<close>

definition SortList_CompareOids :: "Oid list \<Rightarrow> Oid list" where
  "SortList_CompareOids relationIdList = sort relationIdList"

definition WorkerNodeOrder :: "WorkerNode \<Rightarrow> int \<times> string \<times> int" where
  "WorkerNodeOrder workerNode =
     (groupId workerNode, workerName workerNode, workerPort workerNode)"

definition SortList_CompareWorkerNodes :: "WorkerNode list \<Rightarrow> WorkerNode list" where
  "SortList_CompareWorkerNodes workerNodeList = sort_key WorkerNodeOrder workerNodeList"

definition LockRelationOid :: "Oid \<Rightarrow> LOCKMODE \<Rightarrow> BackendState \<Rightarrow> BackendState" where
  "LockRelationOid relationId lockMode st =
     st\<lparr>clusterLog := clusterLog st @ [LockRelationOidCall relationId lockMode]\<rparr>"

definition SendCommandToWorker ::
  "Cluster \<Rightarrow> string \<Rightarrow> int \<Rightarrow> string \<Rightarrow> BackendState \<Rightarrow> BackendState \<times> Error option" where
  "SendCommandToWorker cl nodeName' nodePort' command st =
     clusterCall cl (SendCommandToWorkerCall nodeName' nodePort' command) st"

definition BeginOrContinueCoordinatedTransaction :: "BackendState \<Rightarrow> BackendState" where
  "BeginOrContinueCoordinatedTransaction st =
     st\<lparr>clusterLog := clusterLog st @ [BeginOrContinueCoordinatedTransactionCall]\<rparr>"

text \<open>The inner loop of \<^verbatim>\<open>AcquireDistributedLockOnRelations\<close>, over the worker nodes.\<close>

fun AcquireDistributedLockOnRelations_workers ::
  "Cluster \<Rightarrow> Oid \<Rightarrow> LOCKMODE \<Rightarrow> string \<Rightarrow> WorkerNode list \<Rightarrow> BackendState
    \<Rightarrow> BackendState \<times> Error option" where
  "AcquireDistributedLockOnRelations_workers cl relationId lockMode lockRelationCommand []
     st = (st, None)"
| "AcquireDistributedLockOnRelations_workers cl relationId lockMode lockRelationCommand
     (workerNode # rest) st =
     (let nodeName' = workerName workerNode;
          nodePort' = workerPort workerNode
      in if groupId workerNode = GetLocalGroupId cl
         then AcquireDistributedLockOnRelations_workers cl relationId lockMode
                lockRelationCommand rest (LockRelationOid relationId lockMode st)
         else andThen (SendCommandToWorker cl nodeName' nodePort' lockRelationCommand st)
                (AcquireDistributedLockOnRelations_workers cl relationId lockMode
                   lockRelationCommand rest))"

text \<open>The outer loop, over the relation ids.\<close>

fun AcquireDistributedLockOnRelations_relations ::
  "Cluster \<Rightarrow> LOCKMODE \<Rightarrow> string \<Rightarrow> WorkerNode list \<Rightarrow> Oid list \<Rightarrow> BackendState
    \<Rightarrow> BackendState \<times> Error option" where
  "AcquireDistributedLockOnRelations_relations cl lockMode lockModeText workerNodeList []
     st = (st, None)"
| "AcquireDistributedLockOnRelations_relations cl lockMode lockModeText workerNodeList
     (relationId # rest) st =
     (if ShouldSyncTableMetadata cl relationId then
        (let qualifiedRelationName = generate_qualified_relation_name cl relationId;
             lockRelationCommand = LOCK_RELATION_IF_EXISTS qualifiedRelationName lockModeText
         in andThen
              (AcquireDistributedLockOnRelations_workers cl relationId lockMode
                 lockRelationCommand workerNodeList st)
              (AcquireDistributedLockOnRelations_relations cl lockMode lockModeText
                 workerNodeList rest))
      else AcquireDistributedLockOnRelations_relations cl lockMode lockModeText
             workerNodeList rest st)"

definition AcquireDistributedLockOnRelations ::
  "Cluster \<Rightarrow> Oid list \<Rightarrow> LOCKMODE \<Rightarrow> BackendState \<Rightarrow> BackendState \<times> Error option" where
  "AcquireDistributedLockOnRelations cl relationIdList lockMode st =
     (let workerNodeList = ActivePrimaryNodeList cl;
          lockModeText = LockModeToLockModeText cl lockMode;
          sortedRelationIdList = SortList_CompareOids relationIdList;
          sortedWorkerNodeList = SortList_CompareWorkerNodes workerNodeList
      in AcquireDistributedLockOnRelations_relations cl lockMode lockModeText
           sortedWorkerNodeList sortedRelationIdList
           (BeginOrContinueCoordinatedTransaction st))"

section \<open>A sample cluster\<close>

text \<open>
  The catalog of a small cluster, for the concrete runs below: \<open>orders\<close> is
  hash-distributed on its first column \<open>customer_id\<close> and has four shards,
  \<open>warehouses\<close> is a reference table with one shard, \<open>events\<close> is
  append-distributed, \<open>audit\<close> is hash-distributed and colocated with no other table,
  \<open>local_table\<close> and \<open>orders_2020\<close> are not distributed. \<open>orders\<close> has the foreign
  key \<open>fk1\<close> from its column \<open>warehouse_id\<close> to the column \<open>id\<close> of
  \<open>warehouses\<close>.
\<close>

definition sampleRelid :: "RangeVar \<Rightarrow> Oid" where
  "sampleRelid rangeVar =
     (if relname rangeVar = ''orders'' then 16385
      else if relname rangeVar = ''warehouses'' then 16390
      else if relname rangeVar = ''events'' then 16395
      else if relname rangeVar = ''local_table'' then 16400
      else if relname rangeVar = ''orders_2020'' then 16410
      else if relname rangeVar = ''audit'' then 16420
      else 0)"

definition sampleShards :: "Oid \<Rightarrow> ShardInterval list" where
  "sampleShards relationId =
     (if relationId = 16385
      then [\<lparr>si_relationId = 16385, shardId = 102008\<rparr>,
            \<lparr>si_relationId = 16385, shardId = 102009\<rparr>,
            \<lparr>si_relationId = 16385, shardId = 102010\<rparr>,
            \<lparr>si_relationId = 16385, shardId = 102011\<rparr>]
      else if relationId = 16390 then [\<lparr>si_relationId = 16390, shardId = 102012\<rparr>]
      else if relationId = 16420 then [\<lparr>si_relationId = 16420, shardId = 102020\<rparr>]
      else [])"

definition sampleAttribute :: "Oid \<Rightarrow> string option \<Rightarrow> AttrNumber option" where
  "sampleAttribute relationId columnName =
     (if columnName = Some ''customer_id'' then Some 1
      else if columnName = Some ''warehouse_id'' then Some 2
      else if columnName = Some ''id'' then Some 3
      else None)"

text \<open>
  The indexes of the sample relations: 16500 is unique on \<open>(customer_id, id)\<close>,
  16501 is unique on \<open>(id)\<close>, 16502 is not unique, 16503 backs an exclusion
  constraint on \<open>(customer_id)\<close> with the equality operator 96.
\<close>

definition sampleIndexInfo :: "Oid \<Rightarrow> IndexInfo" where
  "sampleIndexInfo indexOid =
     (if indexOid = 16500
      then \<lparr>ii_IndexAttrNumbers = [1, 3], ii_Unique = True, ii_ExclusionOps = None\<rparr>
      else if indexOid = 16501
      then \<lparr>ii_IndexAttrNumbers = [3], ii_Unique = True, ii_ExclusionOps = None\<rparr>
      else if indexOid = 16503
      then \<lparr>ii_IndexAttrNumbers = [1], ii_Unique = False, ii_ExclusionOps = Some [96]\<rparr>
      else \<lparr>ii_IndexAttrNumbers = [2], ii_Unique = False, ii_ExclusionOps = None\<rparr>)"

function decimalDigits :: "nat \<Rightarrow> string" where
  "decimalDigits n =
     (if n < 10 then [char_of (48 + n)]
      else decimalDigits (n div 10) @ [char_of (48 + n mod 10)])"
  by pat_completeness auto
termination
  by (relation "measure (\<lambda>n. n)") auto

declare decimalDigits.simps [simp del]

definition UINT64_FORMAT :: "uint64 \<Rightarrow> string" where
  "UINT64_FORMAT number = decimalDigits (unat number)"

definition sampleQuoteLiteral :: "string option \<Rightarrow> string" where
  "sampleQuoteLiteral text =
     (case text of None \<Rightarrow> [] | Some chars \<Rightarrow> [CHR 0x27] @ chars @ [CHR 0x27])"

definition sampleCatalog :: Catalog where
  "sampleCatalog =
     \<lparr>RangeVarRelid = sampleRelid,
      get_rel_relkind = (\<lambda>relationId. RELKIND_RELATION),
      IndexGetRelation = (\<lambda>indexId. 0),
      get_rel_namespace = (\<lambda>relationId. 2200),
      get_namespace_name = (\<lambda>schemaId. if schemaId = 2200 then Some ''public'' else None),
      get_rel_name = (\<lambda>relationId. if relationId = 16385 then Some ''orders''
                       else if relationId = 16390 then Some ''warehouses'' else None),
      quote_literal_cstr = sampleQuoteLiteral,
      SearchSysCacheAttName = sampleAttribute,
      IsDistributedTable = (\<lambda>relationId. relationId = 16385 \<or> relationId = 16390
                             \<or> relationId = 16395 \<or> relationId = 16420),
      PartitionMethod = (\<lambda>relationId. if relationId = 16390 then DISTRIBUTE_BY_NONE
                          else if relationId = 16395 then DISTRIBUTE_BY_APPEND
                          else DISTRIBUTE_BY_HASH),
      DistPartitionKey = (\<lambda>relationId. if relationId = 16390 then None
                           else Some \<lparr>varattno = 1\<rparr>),
      TablesColocated = (\<lambda>leftId rightId. leftId = rightId),
      LoadShardIntervalList = sampleShards,
      FinalizedShardPlacementList =
        (\<lambda>shard. [\<lparr>placementId = shard, sp_shardId = shard, nodeName = ''worker-1'',
                     nodePort = 5432\<rparr>]),
      ConstraintIsAForeignKey = (\<lambda>constraintName relationId. constraintName = Some ''fk1''),
      ConstraintIsAForeignKeyToReferenceTable =
        (\<lambda>constraintName relationId. constraintName = Some ''fk1'' \<and> relationId = 16385),
      ColumnAppearsInForeignKeyToReferenceTable =
        (\<lambda>columnName relationId.
           (columnName = Some ''warehouse_id'' \<and> relationId = 16385)
           \<or> (columnName = Some ''id'' \<and> relationId = 16390)),
      TableReferenced = (\<lambda>relationId. relationId = 16390),
      IsTransactionBlock = True,
      BuildIndexInfo = sampleIndexInfo,
      OperatorImplementsEquality = (\<lambda>operatorId. operatorId = 96),
      ErrorIfUnsupportedForeignConstraint =
        (\<lambda>relation' distributionMethod distributionColumn colocationId. None),
      get_relname_relid = (\<lambda>indexName schemaId. if indexName = Some ''orders_idx''
                            then 16500 else 0),
      fetch_search_path = [2200],
      quote_identifier = (\<lambda>identifier. identifier),
      WORKER_APPLY_SHARD_DDL_COMMAND =
        (\<lambda>shard schemaLiteral commandLiteral.
           ''SELECT worker_apply_shard_ddl_command ('' @ UINT64_FORMAT shard @ '', ''
             @ schemaLiteral @ '', ''
             @ commandLiteral @ '')''),
      WORKER_APPLY_INTER_SHARD_DDL_COMMAND =
        (\<lambda>leftShard leftSchemaLiteral rightShard rightSchemaLiteral commandLiteral.
           ''SELECT worker_apply_inter_shard_ddl_command ('' @ UINT64_FORMAT leftShard
             @ '', '' @ leftSchemaLiteral @ '', '' @ UINT64_FORMAT rightShard @ '', ''
             @ rightSchemaLiteral @ '', '' @ commandLiteral @ '')'')\<rparr>"

text \<open>
  The sample cluster: the coordinator (group 0) and two workers; the metadata of
  \<open>orders\<close> and \<open>warehouses\<close> is synchronised to the workers.
\<close>

definition sampleCluster :: Cluster where
  "sampleCluster =
     \<lparr>IsCoordinator = True,
      ShouldSyncTableMetadata = (\<lambda>relationId. relationId = 16385 \<or> relationId = 16390),
      PartitionTableIsReplicated = (\<lambda>relationId. False),
      ActivePrimaryNodeList =
        [\<lparr>workerName = ''worker-2'', workerPort = 5432, groupId = 2, hasMetadata = True\<rparr>,
         \<lparr>workerName = ''coordinator'', workerPort = 5432, groupId = 0, hasMetadata = True\<rparr>,
         \<lparr>workerName = ''worker-1'', workerPort = 5432, groupId = 1, hasMetadata = False\<rparr>],
      GetLocalGroupId = 0,
      generate_qualified_relation_name =
        (\<lambda>relationId. if relationId = 16385 then ''public.orders''
           else if relationId = 16390 then ''public.warehouses'' else ''public.other''),
      LockModeToLockModeText = (\<lambda>lockMode. ''ACCESS EXCLUSIVE''),
      DISABLE_DDL_PROPAGATION = ''SET citus.enable_ddl_propagation TO off'',
      workerCallFails = (\<lambda>event. False)\<rparr>"

text \<open>The backend at the start of a transaction, \<open>busyState\<close> after a parallel query.\<close>

definition idleState :: BackendState where
  "idleState =
     \<lparr>MultiShardConnectionType = PARALLEL_CONNECTION,
      ParallelQueryExecutedInTransaction = False,
      shouldInvalidateForeignKeyGraph = False,
      metadataLog = [],
      MultiShardCommitProtocol = COMMIT_PROTOCOL_1PC,
      SavedMultiShardCommitProtocol = COMMIT_PROTOCOL_BARE,
      clusterLog = [],
      indisvalid = (\<lambda>indexId. True),
      indisvalidPending = Map.empty\<rparr>"

definition busyState :: BackendState where
  "busyState = idleState\<lparr>ParallelQueryExecutedInTransaction := True\<rparr>"

text \<open>The sample statements: \<^verbatim>\<open>ALTER TABLE\<close> on a table, with the given sub-commands.\<close>

definition alterTable :: "string \<Rightarrow> AlterTableCmd list \<Rightarrow> AlterTableStmt" where
  "alterTable tableName commandList =
     \<lparr>relation = Some \<lparr>schemaname = None, relname = tableName\<rparr>, cmds = commandList,
      relkind = OBJECT_TABLE, missing_ok = False\<rparr>"

definition columnCommand :: "AlterTableType \<Rightarrow> string \<Rightarrow> AlterTableCmd" where
  "columnCommand alterTableType columnName =
     \<lparr>subtype = alterTableType, name = Some columnName, cmd_def = NullNode\<rparr>"

definition addPrimaryKey :: AlterTableCmd where
  "addPrimaryKey =
     \<lparr>subtype = AT_AddConstraint, name = None,
      cmd_def = ConstraintNode \<lparr>contype = CONSTR_PRIMARY, conname = Some ''orders_pkey'',
                                pktable = None, skip_validation = False\<rparr>\<rparr>"

definition addForeignKey :: "string \<Rightarrow> AlterTableCmd" where
  "addForeignKey referencedName =
     \<lparr>subtype = AT_AddConstraint, name = None,
      cmd_def = ConstraintNode
        \<lparr>contype = CONSTR_FOREIGN, conname = Some ''fk1'',
         pktable = Some \<lparr>schemaname = None, relname = referencedName\<rparr>,
         skip_validation = False\<rparr>\<rparr>"

definition partitionCommand :: "AlterTableType \<Rightarrow> string \<Rightarrow> AlterTableCmd" where
  "partitionCommand alterTableType partitionName =
     \<lparr>subtype = alterTableType, name = None,
      cmd_def = PartitionCmdNode
        \<lparr>pc_name = \<lparr>schemaname = None, relname = partitionName\<rparr>\<rparr>\<rparr>"

text \<open>
  \<^verbatim>\<open>ADD COLUMN w int\<close> with one \<^verbatim>\<open>REFERENCES\<close> clause for each of the given
  tables, in that order.
\<close>

definition addColumn :: "string list \<Rightarrow> AlterTableCmd" where
  "addColumn referencedNames =
     \<lparr>subtype = AT_AddColumn, name = None,
      cmd_def = ColumnDefNode
        \<lparr>colname = ''w'', typeName = Some \<lparr>names = [''int4''], pct_type = False\<rparr>,
         constraints =
           map (\<lambda>referencedName.
                  \<lparr>contype = CONSTR_FOREIGN, conname = None,
                   pktable = Some \<lparr>schemaname = None, relname = referencedName\<rparr>,
                   skip_validation = False\<rparr>)
             referencedNames\<rparr>\<rparr>"

text \<open>
  A cluster where the execution of the shard tasks fails, and the job and the statement
  of \<^verbatim>\<open>CREATE INDEX CONCURRENTLY orders_idx ON orders (id)\<close>.
\<close>

definition brokenCluster :: Cluster where
  "brokenCluster =
     sampleCluster\<lparr>workerCallFails :=
       (\<lambda>event. case event of
                    ExecuteModifyTasksSequentiallyWithoutResultsCall tasks \<Rightarrow> True
                  | _ \<Rightarrow> False)\<rparr>"

definition createIndexConcurrently :: IndexStmt where
  "createIndexConcurrently =
     \<lparr>idxname = Some ''orders_idx'',
      idx_relation = \<lparr>schemaname = None, relname = ''orders''\<rparr>,
      concurrent = True\<rparr>"

definition createIndexJob :: DDLJob where
  "createIndexJob =
     \<lparr>targetRelationId = 16385, concurrentIndexCmd = True, executeSequentially = False,
      commandString = ''CREATE INDEX CONCURRENTLY orders_idx ON orders (id)'',
      taskList = []\<rparr>"

section \<open>Notions of the specification\<close>

text \<open>
  An \<^verbatim>\<open>ATTACH PARTITION\<close> or \<^verbatim>\<open>DETACH PARTITION\<close> sub-command whose partition
  name resolves to a relation.
\<close>

definition resolvesPartition :: "Catalog \<Rightarrow> AlterTableCmd \<Rightarrow> bool" where
  "resolvesPartition cat command =
     (case cmd_def command of
        PartitionCmdNode partitionCmd \<Rightarrow> OidIsValid (RangeVarRelid cat (pc_name partitionCmd))
      | _ \<Rightarrow> False)"

text \<open>
  The node of a sub-command as the parser of PostgreSQL builds it: a column definition
  for \<^verbatim>\<open>ADD COLUMN\<close>, a constraint for \<^verbatim>\<open>ADD CONSTRAINT\<close> and a partition
  command for \<^verbatim>\<open>ATTACH PARTITION\<close> and \<^verbatim>\<open>DETACH PARTITION\<close>.
\<close>

definition wellFormedCommand :: "AlterTableCmd \<Rightarrow> bool" where
  "wellFormedCommand command =
     (if subtype command = AT_AddColumn
      then (case cmd_def command of ColumnDefNode columnDefinition \<Rightarrow> True | _ \<Rightarrow> False)
      else if subtype command = AT_AddConstraint
      then (case cmd_def command of ConstraintNode constraint \<Rightarrow> True | _ \<Rightarrow> False)
      else if subtype command = AT_AttachPartition \<or> subtype command = AT_DetachPartition
      then (case cmd_def command of PartitionCmdNode partitionCmd \<Rightarrow> True | _ \<Rightarrow> False)
      else True)"

text \<open>
  A foreign-key constraint names a referenced relation that exists; a constraint of
  another type names none.
\<close>

definition referencedExists :: "Catalog \<Rightarrow> Constraint \<Rightarrow> bool" where
  "referencedExists cat constraint =
     (if contype constraint = CONSTR_FOREIGN
      then (case pktable constraint of
              None \<Rightarrow> False
            | Some referenced \<Rightarrow> OidIsValid (RangeVarRelid cat referenced))
      else True)"

text \<open>
  A sub-command, built as by the parser, all of whose right-hand relations exist: the
  referenced table of every foreign key it adds and the partition it attaches or
  detaches.
\<close>

definition resolvesRelations :: "Catalog \<Rightarrow> AlterTableCmd \<Rightarrow> bool" where
  "resolvesRelations cat command =
     (if subtype command = AT_AddConstraint
      then (case cmd_def command of
              ConstraintNode constraint \<Rightarrow> referencedExists cat constraint
            | _ \<Rightarrow> False)
      else if subtype command = AT_AddColumn
      then (case cmd_def command of
              ColumnDefNode columnDefinition \<Rightarrow>
                list_all (referencedExists cat) (constraints columnDefinition)
            | _ \<Rightarrow> False)
      else if subtype command = AT_AttachPartition \<or> subtype command = AT_DetachPartition
      then resolvesPartition cat command
      else True)"

text \<open>
  The right-hand relation that a sub-command resolves: the referenced table of the
  foreign key it adds, the first one for an added column, or the partition it attaches
  or detaches.
\<close>

definition rightRelationOf :: "Catalog \<Rightarrow> AlterTableCmd \<Rightarrow> Oid option" where
  "rightRelationOf cat command =
     (if subtype command = AT_AddConstraint
      then (case cmd_def command of
              ConstraintNode constraint \<Rightarrow>
                if contype constraint = CONSTR_FOREIGN
                then map_option (RangeVarRelid cat) (pktable constraint) else None
            | _ \<Rightarrow> None)
      else if subtype command = AT_AddColumn
      then (case cmd_def command of
              ColumnDefNode columnDefinition \<Rightarrow>
                (case find (\<lambda>constraint. contype constraint = CONSTR_FOREIGN)
                        (constraints columnDefinition) of
                   None \<Rightarrow> None
                 | Some constraint \<Rightarrow> map_option (RangeVarRelid cat) (pktable constraint))
            | _ \<Rightarrow> None)
      else if subtype command = AT_AttachPartition \<or> subtype command = AT_DetachPartition
      then (case cmd_def command of
              PartitionCmdNode partitionCmd \<Rightarrow> Some (RangeVarRelid cat (pc_name partitionCmd))
            | _ \<Rightarrow> None)
      else None)"

text \<open>
  The right-hand relation of a list of sub-commands: that of the last sub-command that
  resolves one, the given relation when there is none.
\<close>

fun rightRelation :: "Catalog \<Rightarrow> AlterTableCmd list \<Rightarrow> Oid \<Rightarrow> Oid" where
  "rightRelation cat [] rightRelationId = rightRelationId"
| "rightRelation cat (command # rest) rightRelationId =
     rightRelation cat rest
       (case rightRelationOf cat command of
          None \<Rightarrow> rightRelationId
        | Some resolved \<Rightarrow> resolved)"

text \<open>
  A foreign-key constraint whose referenced side is a reference table: a distributed
  table of distribution method none.
\<close>

definition ReferencesReferenceTable :: "Catalog \<Rightarrow> Constraint \<Rightarrow> bool" where
  "ReferencesReferenceTable cat constraint =
     (contype constraint = CONSTR_FOREIGN \<and>
      (case pktable constraint of
         None \<Rightarrow> False
       | Some referenced \<Rightarrow>
           IsDistributedTable cat (RangeVarRelid cat referenced) \<and>
           PartitionMethod cat (RangeVarRelid cat referenced) = DISTRIBUTE_BY_NONE))"

text \<open>
  The sub-commands that must run sequentially, in the words of the specification: one
  that drops or type-alters a column participating in a foreign key to a reference
  table, one that drops a foreign-key constraint to a reference table, and one that adds
  a foreign-key constraint whose referenced side is a reference table, as a table
  constraint or as a constraint of an added column.
\<close>

definition RequiresSequentialExecution :: "Catalog \<Rightarrow> Oid \<Rightarrow> AlterTableCmd \<Rightarrow> bool" where
  "RequiresSequentialExecution cat relationId command =
     (if subtype command = AT_DropColumn \<or> subtype command = AT_AlterColumnType
      then ColumnAppearsInForeignKeyToReferenceTable cat (name command) relationId
      else if subtype command = AT_DropConstraint
      then ConstraintIsAForeignKeyToReferenceTable cat (name command) relationId
      else if subtype command = AT_AddConstraint
      then (case cmd_def command of
              ConstraintNode constraint \<Rightarrow> ReferencesReferenceTable cat constraint
            | _ \<Rightarrow> False)
      else if subtype command = AT_AddColumn
      then (case cmd_def command of
              ColumnDefNode columnDefinition \<Rightarrow>
                list_ex (ReferencesReferenceTable cat) (constraints columnDefinition)
            | _ \<Rightarrow> False)
      else False)"

text \<open>
  Sub-commands whose need for sequential execution conflicts with a parallel operation
  already executed in the transaction, on a distributed table that is not a reference
  table.
\<close>

definition ConflictsWithParallelOperation ::
  "Catalog \<Rightarrow> Oid \<Rightarrow> AlterTableCmd list \<Rightarrow> BackendState \<Rightarrow> bool" where
  "ConflictsWithParallelOperation cat relationId commandList st =
     (list_ex (RequiresSequentialExecution cat relationId) commandList \<and>
      IsDistributedTable cat relationId \<and>
      PartitionMethod cat relationId \<noteq> DISTRIBUTE_BY_NONE \<and>
      ParallelQueryExecutedInTransaction st)"

text \<open>A \<^verbatim>\<open>TRUNCATE\<close> target that is a reference table referenced by a foreign key.\<close>

definition TruncatesReferencedReferenceTable :: "Catalog \<Rightarrow> RangeVar \<Rightarrow> bool" where
  "TruncatesReferencedReferenceTable cat rangeVar =
     (IsDistributedTable cat (RangeVarRelid cat rangeVar) \<and>
      PartitionMethod cat (RangeVarRelid cat rangeVar) = DISTRIBUTE_BY_NONE \<and>
      TableReferenced cat (RangeVarRelid cat rangeVar))"






text \<open>
  The lock request for one relation on one worker node: taken in-process when the node is
  in the group of the local node, sent to the node otherwise.
\<close>

definition lockRequest :: "Cluster \<Rightarrow> LOCKMODE \<Rightarrow> Oid \<Rightarrow> WorkerNode \<Rightarrow> ClusterEvent" where
  "lockRequest cl lockMode relationId workerNode =
     (if groupId workerNode = GetLocalGroupId cl
      then LockRelationOidCall relationId lockMode
      else SendCommandToWorkerCall (workerName workerNode) (workerPort workerNode)
             (LOCK_RELATION_IF_EXISTS (generate_qualified_relation_name cl relationId)
                (LockModeToLockModeText cl lockMode)))"

text \<open>
  The lock requests in the fixed nested order: relation by relation, and for each
  relation whose metadata is synchronised, worker node by worker node.
\<close>

definition lockRequests ::
  "Cluster \<Rightarrow> LOCKMODE \<Rightarrow> Oid list \<Rightarrow> WorkerNode list \<Rightarrow> ClusterEvent list" where
  "lockRequests cl lockMode relationIdList workerNodeList =
     concat (map (\<lambda>relationId. map (lockRequest cl lockMode relationId) workerNodeList)
               (filter (ShouldSyncTableMetadata cl) relationIdList))"

text \<open>
  Issuing a sequence of requests one after the other: a lock taken in-process is only
  logged, a call to a worker may fail, and a failure ends the sequence.
\<close>

fun issueRequests ::
  "Cluster \<Rightarrow> ClusterEvent list \<Rightarrow> BackendState \<Rightarrow> BackendState \<times> Error option" where
  "issueRequests cl [] st = (st, None)"
| "issueRequests cl (event # rest) st =
     (case event of
        LockRelationOidCall relationId lockMode \<Rightarrow>
          issueRequests cl rest (LockRelationOid relationId lockMode st)
      | _ \<Rightarrow> andThen (clusterCall cl event st) (issueRequests cl rest))"

section \<open>Verification\<close>

subsection \<open>Single-relation task lists\<close>

lemma DDLTaskList_foreach_length:
  "length (fst (DDLTaskList_foreach cat s c shards n tasks st)) = length tasks + length shards"
  by (induction shards arbitrary: n tasks st) (simp_all add: Let_def)

lemma DDLTaskList_foreach_anchor:
  "map anchorShardId (fst (DDLTaskList_foreach cat s c shards n tasks st)) =
     map anchorShardId tasks @ map shardId shards"
  by (induction shards arbitrary: n tasks st) (simp_all add: Let_def)

lemma DDLTaskList_foreach_query:
  "map queryString (fst (DDLTaskList_foreach cat s c shards n tasks st)) =
     map queryString tasks @
     map (\<lambda>shardInterval. WORKER_APPLY_SHARD_DDL_COMMAND cat (shardId shardInterval) s c) shards"
  by (induction shards arbitrary: n tasks st) (simp_all add: Let_def)

lemma DDLTaskList_foreach_placements:
  "map taskPlacementList (fst (DDLTaskList_foreach cat s c shards n tasks st)) =
     map taskPlacementList tasks @
     map (\<lambda>shardInterval. FinalizedShardPlacementList cat (shardId shardInterval)) shards"
  by (induction shards arbitrary: n tasks st) (simp_all add: Let_def)

lemma DDLTaskList_foreach_log:
  "metadataLog (snd (DDLTaskList_foreach cat s c shards n tasks st)) =
     metadataLog st @
     map (\<lambda>shardInterval. FinalizedShardPlacementListCall (shardId shardInterval)) shards"
  by (induction shards arbitrary: n tasks st) (simp_all add: Let_def logMetadataEvent_def)

text \<open>
  C1. For a relation with N shards, \<^verbatim>\<open>DDLTaskList\<close> builds exactly N tasks, one per
  shard interval and in the order of the shard interval list: the anchor shard of each
  task is that shard, its command is the shard-apply wrapper over the shard id, the
  quoted schema name and the quoted command, and its placements are the finalized
  placements of that shard. The calls on the shard metadata are, in this order, one
  shared lock on all the shards and then one placement lookup per shard.
\<close>

theorem DDLTaskList_one_task_per_shard:
  "length (fst (DDLTaskList cat relationId command st)) =
     length (LoadShardIntervalList cat relationId) \<and>
   map anchorShardId (fst (DDLTaskList cat relationId command st)) =
     map shardId (LoadShardIntervalList cat relationId) \<and>
   map queryString (fst (DDLTaskList cat relationId command st)) =
     map (\<lambda>shardInterval. WORKER_APPLY_SHARD_DDL_COMMAND cat (shardId shardInterval)
            (quote_literal_cstr cat (get_namespace_name cat (get_rel_namespace cat relationId)))
            (quote_literal_cstr cat (Some command)))
       (LoadShardIntervalList cat relationId) \<and>
   map taskPlacementList (fst (DDLTaskList cat relationId command st)) =
     map (\<lambda>shardInterval. FinalizedShardPlacementList cat (shardId shardInterval))
       (LoadShardIntervalList cat relationId) \<and>
   metadataLog (snd (DDLTaskList cat relationId command st)) =
     metadataLog st @
     LockShardListMetadataCall (map shardId (LoadShardIntervalList cat relationId)) ShareLock #
     map (\<lambda>shardInterval. FinalizedShardPlacementListCall (shardId shardInterval))
       (LoadShardIntervalList cat relationId)"
  by (simp add: DDLTaskList_def Let_def DDLTaskList_foreach_length DDLTaskList_foreach_anchor
      DDLTaskList_foreach_query DDLTaskList_foreach_placements DDLTaskList_foreach_log
      LockShardListMetadata_def logMetadataEvent_def)

subsection \<open>Inter-shard task lists\<close>

lemma InterShardDDLTaskList_repeat_eq:
  "shardCounter = int (length rightShardList) \<Longrightarrow>
   InterShardDDLTaskList_repeat r shardCounter leftShardCount rightShardList =
     rightShardList @ replicate (nat (leftShardCount - shardCounter)) r"
proof (induction r shardCounter leftShardCount rightShardList
    rule: InterShardDDLTaskList_repeat.induct)
  case (1 r shardCounter leftShardCount rightShardList)
  show ?case
  proof (cases "shardCounter < leftShardCount")
    case True
    then have step: "nat (leftShardCount - shardCounter) =
        Suc (nat (leftShardCount - (shardCounter + 1)))" by simp
    from True "1.prems" have "InterShardDDLTaskList_repeat r (shardCounter + 1) leftShardCount
        (rightShardList @ [r]) =
        (rightShardList @ [r]) @ replicate (nat (leftShardCount - (shardCounter + 1))) r"
      by (intro "1.IH") simp_all
    with True show ?thesis
      by (subst InterShardDDLTaskList_repeat.simps) (simp add: step)
  next
    case False
    then show ?thesis by (subst InterShardDDLTaskList_repeat.simps) simp
  qed
qed

lemma reference_shard_list:
  "InterShardDDLTaskList_repeat ref 1 (int n) [ref] = ref # replicate (n - 1) ref"
  by (subst InterShardDDLTaskList_repeat_eq) (simp_all add: nat_diff_distrib')

lemma InterShardDDLTaskList_forboth_length:
  "length leftShardList \<le> length rightShardList \<Longrightarrow>
   length (fst (InterShardDDLTaskList_forboth cat l r ls rs c leftShardList rightShardList
     n tasks st)) = length tasks + length leftShardList"
proof (induction leftShardList arbitrary: rightShardList n tasks st)
  case Nil
  then show ?case by (cases rightShardList) simp_all
next
  case (Cons a leftShardList)
  then show ?case by (cases rightShardList) (simp_all add: Let_def)
qed

lemma InterShardDDLTaskList_forboth_relationShards:
  "length leftShardList \<le> length rightShardList \<Longrightarrow>
   \<forall>x \<in> set rightShardList. shardId x = refShardId \<Longrightarrow>
   map relationShardList (fst (InterShardDDLTaskList_forboth cat l r ls rs c leftShardList
     rightShardList n tasks st)) =
   map relationShardList tasks @
   map (\<lambda>leftShardInterval.
          [\<lparr>rs_relationId = l, rs_shardId = shardId leftShardInterval\<rparr>,
           \<lparr>rs_relationId = r, rs_shardId = refShardId\<rparr>]) leftShardList"
proof (induction leftShardList arbitrary: rightShardList n tasks st)
  case Nil
  then show ?case by (cases rightShardList) simp_all
next
  case (Cons a leftShardList)
  then show ?case by (cases rightShardList) (simp_all add: Let_def)
qed

lemma InterShardDDLTaskList_forboth_query:
  "length leftShardList \<le> length rightShardList \<Longrightarrow>
   \<forall>x \<in> set rightShardList. shardId x = refShardId \<Longrightarrow>
   map queryString (fst (InterShardDDLTaskList_forboth cat l r ls rs c leftShardList
     rightShardList n tasks st)) =
   map queryString tasks @
   map (\<lambda>leftShardInterval.
          WORKER_APPLY_INTER_SHARD_DDL_COMMAND cat (shardId leftShardInterval) ls refShardId
            rs c) leftShardList"
proof (induction leftShardList arbitrary: rightShardList n tasks st)
  case Nil
  then show ?case by (cases rightShardList) simp_all
next
  case (Cons a leftShardList)
  then show ?case by (cases rightShardList) (simp_all add: Let_def)
qed

text \<open>
  C2. When the right relation is a reference table (distribution method none, exactly
  one shard), \<^verbatim>\<open>InterShardDDLTaskList\<close> returns as many tasks as the left relation has
  shards; each task carries the pair of (relation, shard) descriptors of the left shard
  and of the single shard of the reference table, and its command names the same two
  shards.
\<close>

theorem InterShardDDLTaskList_reference_table:
  assumes "PartitionMethod cat rightRelationId = DISTRIBUTE_BY_NONE"
    and "LoadShardIntervalList cat rightRelationId = [referenceShard]"
  shows "\<exists>tasks st'.
     InterShardDDLTaskList cat leftRelationId rightRelationId command st = Inr (tasks, st') \<and>
     length tasks = length (LoadShardIntervalList cat leftRelationId) \<and>
     map relationShardList tasks =
       map (\<lambda>leftShardInterval.
              [\<lparr>rs_relationId = leftRelationId, rs_shardId = shardId leftShardInterval\<rparr>,
               \<lparr>rs_relationId = rightRelationId, rs_shardId = shardId referenceShard\<rparr>])
         (LoadShardIntervalList cat leftRelationId) \<and>
     map queryString tasks =
       map (\<lambda>leftShardInterval.
              WORKER_APPLY_INTER_SHARD_DDL_COMMAND cat (shardId leftShardInterval)
                (quote_literal_cstr cat
                   (get_namespace_name cat (get_rel_namespace cat leftRelationId)))
                (shardId referenceShard)
                (quote_literal_cstr cat
                   (get_namespace_name cat (get_rel_namespace cat rightRelationId)))
                (quote_literal_cstr cat (Some command)))
         (LoadShardIntervalList cat leftRelationId)"
proof -
  let ?lefts = "LoadShardIntervalList cat leftRelationId"
  let ?rights = "referenceShard # replicate (length ?lefts - 1) referenceShard"
  let ?ls = "quote_literal_cstr cat (get_namespace_name cat (get_rel_namespace cat leftRelationId))"
  let ?rs = "quote_literal_cstr cat (get_namespace_name cat (get_rel_namespace cat rightRelationId))"
  let ?c = "quote_literal_cstr cat (Some command)"
  let ?run = "InterShardDDLTaskList_forboth cat leftRelationId rightRelationId ?ls ?rs ?c
      ?lefts ?rights 1 [] (LockShardListMetadata ?lefts ShareLock st)"
  have len: "length ?lefts \<le> length ?rights" by simp
  have same: "\<forall>x \<in> set ?rights. shardId x = shardId referenceShard" by simp
  have result: "InterShardDDLTaskList cat leftRelationId rightRelationId command st =
      Inr (fst ?run, snd ?run)"
    by (simp add: InterShardDDLTaskList_def Let_def assms reference_shard_list)
  have "length (fst ?run) = length ?lefts"
    using InterShardDDLTaskList_forboth_length [OF len] by simp
  moreover have "map relationShardList (fst ?run) =
       map (\<lambda>leftShardInterval.
              [\<lparr>rs_relationId = leftRelationId, rs_shardId = shardId leftShardInterval\<rparr>,
               \<lparr>rs_relationId = rightRelationId, rs_shardId = shardId referenceShard\<rparr>])
         ?lefts"
    using InterShardDDLTaskList_forboth_relationShards [OF len same] by simp
  moreover have "map queryString (fst ?run) =
       map (\<lambda>leftShardInterval.
              WORKER_APPLY_INTER_SHARD_DDL_COMMAND cat (shardId leftShardInterval) ?ls
                (shardId referenceShard) ?rs ?c) ?lefts"
    using InterShardDDLTaskList_forboth_query [OF len same] by simp
  ultimately show ?thesis using result by blast
qed

theorem InterShardDDLTaskList_reference_table_witness:
  "PartitionMethod sampleCatalog 16390 = DISTRIBUTE_BY_NONE \<and>
   LoadShardIntervalList sampleCatalog 16390 = [\<lparr>si_relationId = 16390, shardId = 102012\<rparr>] \<and>
   length (LoadShardIntervalList sampleCatalog 16385) = 4 \<and>
   (\<exists>tasks st'.
      InterShardDDLTaskList sampleCatalog 16385 16390 ''ALTER TABLE orders VALIDATE''
        idleState = Inr (tasks, st') \<and>
      length tasks = length (LoadShardIntervalList sampleCatalog 16385) \<and>
      map relationShardList tasks =
        map (\<lambda>leftShardInterval.
               [\<lparr>rs_relationId = 16385, rs_shardId = shardId leftShardInterval\<rparr>,
                \<lparr>rs_relationId = 16390,
                   rs_shardId = shardId \<lparr>si_relationId = 16390, shardId = 102012\<rparr>\<rparr>])
          (LoadShardIntervalList sampleCatalog 16385))"
proof -
  have h1: "PartitionMethod sampleCatalog 16390 = DISTRIBUTE_BY_NONE"
    by (simp add: sampleCatalog_def)
  have h2: "LoadShardIntervalList sampleCatalog 16390 =
      [\<lparr>si_relationId = 16390, shardId = 102012\<rparr>]"
    by (simp add: sampleCatalog_def sampleShards_def)
  have h3: "length (LoadShardIntervalList sampleCatalog 16385) = 4"
    by (simp add: sampleCatalog_def sampleShards_def)
  from InterShardDDLTaskList_reference_table [OF h1 h2, of 16385
      "''ALTER TABLE orders VALIDATE''" idleState]
  have "\<exists>tasks st'.
      InterShardDDLTaskList sampleCatalog 16385 16390 ''ALTER TABLE orders VALIDATE''
        idleState = Inr (tasks, st') \<and>
      length tasks = length (LoadShardIntervalList sampleCatalog 16385) \<and>
      map relationShardList tasks =
        map (\<lambda>leftShardInterval.
               [\<lparr>rs_relationId = 16385, rs_shardId = shardId leftShardInterval\<rparr>,
                \<lparr>rs_relationId = 16390,
                   rs_shardId = shardId \<lparr>si_relationId = 16390, shardId = 102012\<rparr>\<rparr>])
          (LoadShardIntervalList sampleCatalog 16385)"
    by blast
  with h1 h2 h3 show ?thesis by blast
qed

subsection \<open>The support validator\<close>

lemma AlterInvolvesPartitionColumn_resolved:
  "AlterTableLookupRelation cat stmt = Inr rel \<Longrightarrow>
   \<exists>b. AlterInvolvesPartitionColumn cat stmt c = Inr b"
  by (auto simp add: AlterInvolvesPartitionColumn_def Let_def split: option.splits)

lemma switch_no_return:
  "AlterTableLookupRelation cat stmt = Inr rel \<Longrightarrow> OidIsValid rel \<Longrightarrow>
   ErrorIfUnsupportedAlterTableStmt_switch cat stmt c st \<noteq> Inr (CheckReturn st')"
  by (cases "subtype c")
    (auto simp add: ErrorIfUnsupportedAlterTableStmt_switch_def Let_def
      split: Node.splits option.splits list.splits sum.splits)

lemma foreach_fails:
  "AlterTableLookupRelation cat stmt = Inr rel \<Longrightarrow> OidIsValid rel \<Longrightarrow>
   c \<in> set rest \<Longrightarrow>
   (\<And>st'. \<exists>e. ErrorIfUnsupportedAlterTableStmt_switch cat stmt c st' = Inl e) \<Longrightarrow>
   \<exists>e. ErrorIfUnsupportedAlterTableStmt_foreach cat stmt rest st = Inl e"
proof (induction rest arbitrary: st)
  case Nil
  then show ?case by simp
next
  case (Cons a rest)
  show ?case
  proof (cases "ErrorIfUnsupportedAlterTableStmt_switch cat stmt a st")
    case (Inl e)
    then show ?thesis by simp
  next
    case (Inr outcome)
    show ?thesis
    proof (cases outcome)
      case (CheckBreak st1)
      have "c \<noteq> a" using Cons.prems(4) [of st] Inr by auto
      with Cons.prems(3) have "c \<in> set rest" by simp
      from Cons.IH [OF Cons.prems(1,2) this Cons.prems(4)] Inr CheckBreak
      show ?thesis by simp
    next
      case (CheckReturn st1)
      with Inr switch_no_return [OF Cons.prems(1,2)] show ?thesis by blast
    qed
  qed
qed

lemma switch_alone_commands_fail:
  "AlterTableLookupRelation cat stmt = Inr rel \<Longrightarrow> 1 < length (cmds stmt) \<Longrightarrow>
   subtype c = AT_AddConstraint \<or> subtype c = AT_AttachPartition
     \<or> subtype c = AT_DetachPartition \<Longrightarrow>
   \<exists>e. ErrorIfUnsupportedAlterTableStmt_switch cat stmt c st = Inl e"
  by (auto simp add: ErrorIfUnsupportedAlterTableStmt_switch_def Let_def
      split: sum.splits)

lemma switch_error_kind:
  "AlterTableLookupRelation cat stmt = Inr rel \<Longrightarrow> 1 < length (cmds stmt) \<Longrightarrow>
   wellFormedCommand c \<Longrightarrow>
   subtype c = AT_AttachPartition \<longrightarrow> resolvesPartition cat c \<Longrightarrow>
   ErrorIfUnsupportedAlterTableStmt_switch cat stmt c st = Inl e \<Longrightarrow>
   UnsupportedCommand e"
  by (cases "subtype c")
    (auto simp add: ErrorIfUnsupportedAlterTableStmt_switch_def Let_def resolvesPartition_def
      wellFormedCommand_def AlterInvolvesPartitionColumn_def RangeVarGetRelid_def
      castPartitionCmd_def
      split: Node.splits option.splits list.splits sum.splits if_splits)

lemma foreach_error_kind:
  "AlterTableLookupRelation cat stmt = Inr rel \<Longrightarrow> 1 < length (cmds stmt) \<Longrightarrow>
   \<forall>c \<in> set rest. wellFormedCommand c \<and>
      (subtype c = AT_AttachPartition \<longrightarrow> resolvesPartition cat c) \<Longrightarrow>
   ErrorIfUnsupportedAlterTableStmt_foreach cat stmt rest st = Inl e \<Longrightarrow>
   UnsupportedCommand e"
proof (induction rest arbitrary: st)
  case Nil
  then show ?case by simp
next
  case (Cons a rest)
  show ?case
  proof (cases "ErrorIfUnsupportedAlterTableStmt_switch cat stmt a st")
    case (Inl e')
    with Cons.prems(4) have "e' = e" by simp
    with Inl switch_error_kind [OF Cons.prems(1,2), of a st e] Cons.prems(3)
    show ?thesis by simp
  next
    case (Inr outcome)
    show ?thesis
    proof (cases outcome)
      case (CheckBreak st1)
      with Inr Cons.prems(4)
      have "ErrorIfUnsupportedAlterTableStmt_foreach cat stmt rest st1 = Inl e" by simp
      from Cons.IH [OF Cons.prems(1,2) _ this] Cons.prems(3) show ?thesis by simp
    next
      case (CheckReturn st1)
      with Inr Cons.prems(4) show ?thesis by simp
    qed
  qed
qed

lemma switch_error_any:
  "AlterTableLookupRelation cat stmt = Inr rel \<Longrightarrow>
   ErrorIfUnsupportedAlterTableStmt_switch cat stmt c st = Inl e \<Longrightarrow>
   UnsupportedCommand e \<or> e = UndefinedTable \<or> e = NullPointerDereference
     \<or> e = InvalidNodeCast"
  by (cases "subtype c")
    (auto simp add: ErrorIfUnsupportedAlterTableStmt_switch_def Let_def
      AlterInvolvesPartitionColumn_def RangeVarGetRelid_def castPartitionCmd_def
      castConstraint_def
      split: Node.splits option.splits list.splits sum.splits if_splits)

lemma foreach_error_any:
  "AlterTableLookupRelation cat stmt = Inr rel \<Longrightarrow>
   ErrorIfUnsupportedAlterTableStmt_foreach cat stmt rest st = Inl e \<Longrightarrow>
   UnsupportedCommand e \<or> e = UndefinedTable \<or> e = NullPointerDereference
     \<or> e = InvalidNodeCast"
proof (induction rest arbitrary: st)
  case Nil
  then show ?case by simp
next
  case (Cons a rest)
  show ?case
  proof (cases "ErrorIfUnsupportedAlterTableStmt_switch cat stmt a st")
    case (Inl e')
    with Cons.prems(2) have "e' = e" by simp
    with Inl switch_error_any [OF Cons.prems(1), of a st e] show ?thesis by simp
  next
    case (Inr outcome)
    show ?thesis
    proof (cases outcome)
      case (CheckBreak st1)
      with Inr Cons.prems(2)
      have "ErrorIfUnsupportedAlterTableStmt_foreach cat stmt rest st1 = Inl e" by simp
      from Cons.IH [OF Cons.prems(1) this] show ?thesis .
    next
      case (CheckReturn st1)
      with Inr Cons.prems(2) show ?thesis by simp
    qed
  qed
qed

lemma switch_partition_column:
  "AlterTableLookupRelation cat stmt = Inr rel \<Longrightarrow> OidIsValid rel \<Longrightarrow>
   subtype c = AT_DropColumn \<or> subtype c = AT_AlterColumnType
     \<or> subtype c = AT_DropNotNull \<or> subtype c = AT_ColumnDefault \<Longrightarrow>
   DistPartitionKey cat rel = Some partitionVar \<Longrightarrow>
   SearchSysCacheAttName cat rel (name c) = Some (varattno partitionVar) \<Longrightarrow>
   ErrorIfUnsupportedAlterTableStmt_switch cat stmt c st = Inl InvolvingPartitionColumnError"
  by (auto simp add: ErrorIfUnsupportedAlterTableStmt_switch_def Let_def
      AlterInvolvesPartitionColumn_def)

lemma switch_reference_table:
  "AlterTableLookupRelation cat stmt = Inr rel \<Longrightarrow>
   subtype c = AT_DropColumn \<or> subtype c = AT_AlterColumnType
     \<or> subtype c = AT_DropNotNull \<or> subtype c = AT_ColumnDefault \<Longrightarrow>
   DistPartitionKey cat rel = None \<Longrightarrow>
   ErrorIfUnsupportedAlterTableStmt_switch cat stmt c st = Inr (CheckBreak st)"
  by (auto simp add: ErrorIfUnsupportedAlterTableStmt_switch_def Let_def
      AlterInvolvesPartitionColumn_def split: option.splits)

text \<open>
  C7. A \<^verbatim>\<open>DROP COLUMN\<close>, \<^verbatim>\<open>ALTER COLUMN TYPE\<close>, \<^verbatim>\<open>DROP NOT NULL\<close> or column
  default sub-command that names the distribution column of the relation is rejected
  by the validator with the error on the partition column, an unsupported-command
  error; a statement that holds such a sub-command fails, with that very error when the
  sub-command comes first. On a relation without a distribution column, a reference
  table, the check lets the sub-command pass.
\<close>

theorem ErrorIfUnsupportedAlterTableStmt_partition_column:
  assumes "AlterTableLookupRelation cat stmt = Inr relationId"
    and "OidIsValid relationId"
    and "subtype command = AT_DropColumn \<or> subtype command = AT_AlterColumnType
          \<or> subtype command = AT_DropNotNull \<or> subtype command = AT_ColumnDefault"
  shows "(\<forall>partitionVar.
            DistPartitionKey cat relationId = Some partitionVar \<and>
            SearchSysCacheAttName cat relationId (name command) = Some (varattno partitionVar)
            \<longrightarrow>
            ErrorIfUnsupportedAlterTableStmt_switch cat stmt command st =
              Inl InvolvingPartitionColumnError \<and>
            UnsupportedCommand InvolvingPartitionColumnError \<and>
            (command \<in> set (cmds stmt) \<longrightarrow>
               (\<exists>e. ErrorIfUnsupportedAlterTableStmt cat stmt st = Inl e)) \<and>
            (\<forall>rest. cmds stmt = command # rest \<longrightarrow>
               ErrorIfUnsupportedAlterTableStmt cat stmt st =
                 Inl InvolvingPartitionColumnError)) \<and>
         (DistPartitionKey cat relationId = None \<longrightarrow>
            ErrorIfUnsupportedAlterTableStmt_switch cat stmt command st = Inr (CheckBreak st) \<and>
            (cmds stmt = [command] \<longrightarrow> ErrorIfUnsupportedAlterTableStmt cat stmt st = Inr st))"
proof (intro conjI allI impI)
  fix partitionVar
  assume key: "DistPartitionKey cat relationId = Some partitionVar \<and>
      SearchSysCacheAttName cat relationId (name command) = Some (varattno partitionVar)"
  then have fails: "ErrorIfUnsupportedAlterTableStmt_switch cat stmt command st' =
      Inl InvolvingPartitionColumnError" for st'
    using switch_partition_column [OF assms] by blast
  show "ErrorIfUnsupportedAlterTableStmt_switch cat stmt command st =
      Inl InvolvingPartitionColumnError" by (rule fails)
  show "UnsupportedCommand InvolvingPartitionColumnError" by simp
  {
    assume "command \<in> set (cmds stmt)"
    from foreach_fails [OF assms(1,2) this] fails
    show "\<exists>e. ErrorIfUnsupportedAlterTableStmt cat stmt st = Inl e"
      by (simp add: ErrorIfUnsupportedAlterTableStmt_def)
  }
  {
    fix rest
    assume "cmds stmt = command # rest"
    with fails show "ErrorIfUnsupportedAlterTableStmt cat stmt st =
        Inl InvolvingPartitionColumnError"
      by (simp add: ErrorIfUnsupportedAlterTableStmt_def)
  }
next
  assume none: "DistPartitionKey cat relationId = None"
  from switch_reference_table [OF assms(1,3) none]
  show break: "ErrorIfUnsupportedAlterTableStmt_switch cat stmt command st = Inr (CheckBreak st)" .
  {
    assume "cmds stmt = [command]"
    with break show "ErrorIfUnsupportedAlterTableStmt cat stmt st = Inr st"
      by (simp add: ErrorIfUnsupportedAlterTableStmt_def)
  }
qed


theorem ErrorIfUnsupportedAlterTableStmt_partition_column_witness:
  "AlterTableLookupRelation sampleCatalog
     (alterTable ''orders'' [columnCommand AT_DropColumn ''customer_id'']) = Inr 16385 \<and>
   OidIsValid 16385 \<and>
   subtype (columnCommand AT_DropColumn ''customer_id'') = AT_DropColumn \<and>
   DistPartitionKey sampleCatalog 16385 = Some \<lparr>varattno = 1\<rparr> \<and>
   SearchSysCacheAttName sampleCatalog 16385 (name (columnCommand AT_DropColumn ''customer_id''))
     = Some (varattno \<lparr>varattno = 1\<rparr>) \<and>
   ErrorIfUnsupportedAlterTableStmt sampleCatalog
     (alterTable ''orders'' [columnCommand AT_DropColumn ''customer_id'']) idleState =
     Inl InvolvingPartitionColumnError \<and>
   AlterTableLookupRelation sampleCatalog
     (alterTable ''warehouses'' [columnCommand AT_DropColumn ''customer_id'']) = Inr 16390 \<and>
   OidIsValid 16390 \<and>
   DistPartitionKey sampleCatalog 16390 = None \<and>
   ErrorIfUnsupportedAlterTableStmt sampleCatalog
     (alterTable ''warehouses'' [columnCommand AT_DropColumn ''customer_id'']) idleState =
     Inr idleState"
proof -
  let ?c = "columnCommand AT_DropColumn ''customer_id''"
  let ?orders = "alterTable ''orders'' [?c]"
  let ?warehouses = "alterTable ''warehouses'' [?c]"
  have l1: "AlterTableLookupRelation sampleCatalog ?orders = Inr 16385"
    by (simp add: AlterTableLookupRelation_def alterTable_def RangeVarGetRelid_def
        sampleCatalog_def sampleRelid_def OidIsValid_def InvalidOid_def)
  have l2: "AlterTableLookupRelation sampleCatalog ?warehouses = Inr 16390"
    by (simp add: AlterTableLookupRelation_def alterTable_def RangeVarGetRelid_def
        sampleCatalog_def sampleRelid_def OidIsValid_def InvalidOid_def)
  have v1: "OidIsValid 16385" and v2: "OidIsValid 16390"
    by (simp_all add: OidIsValid_def InvalidOid_def)
  have sub: "subtype ?c = AT_DropColumn \<or> subtype ?c = AT_AlterColumnType
      \<or> subtype ?c = AT_DropNotNull \<or> subtype ?c = AT_ColumnDefault"
    by (simp add: columnCommand_def)
  have sub': "subtype ?c = AT_DropColumn" by (simp add: columnCommand_def)
  have key: "DistPartitionKey sampleCatalog 16385 = Some \<lparr>varattno = 1\<rparr>"
    by (simp add: sampleCatalog_def)
  have att: "SearchSysCacheAttName sampleCatalog 16385 (name ?c) =
      Some (varattno \<lparr>varattno = 1\<rparr>)"
    by (simp add: sampleCatalog_def sampleAttribute_def columnCommand_def)
  have none: "DistPartitionKey sampleCatalog 16390 = None"
    by (simp add: sampleCatalog_def)
  have c1: "cmds ?orders = ?c # []" and c2: "cmds ?warehouses = [?c]"
    by (simp_all add: alterTable_def)
  from ErrorIfUnsupportedAlterTableStmt_partition_column [OF l1 v1 sub, of idleState] key att c1
  have r1: "ErrorIfUnsupportedAlterTableStmt sampleCatalog ?orders idleState =
      Inl InvolvingPartitionColumnError" by blast
  from ErrorIfUnsupportedAlterTableStmt_partition_column [OF l2 v2 sub, of idleState] none c2
  have r2: "ErrorIfUnsupportedAlterTableStmt sampleCatalog ?warehouses idleState =
      Inr idleState" by blast
  from l1 v1 sub' key att r1 l2 v2 none r2 show ?thesis by blast
qed

lemma alone_AddConstraint_accepted:
  "cmds stmt = [c] \<Longrightarrow> subtype c = AT_AddConstraint \<Longrightarrow>
   cmd_def c = ConstraintNode constraint \<Longrightarrow> conname constraint \<noteq> None \<Longrightarrow>
   ErrorIfUnsupportedAlterTableStmt cat stmt st = Inr st"
  by (simp add: ErrorIfUnsupportedAlterTableStmt_def ErrorIfUnsupportedAlterTableStmt_switch_def
      castConstraint_def)

lemma alone_DetachPartition_accepted:
  "cmds stmt = [c] \<Longrightarrow> subtype c = AT_DetachPartition \<Longrightarrow>
   ErrorIfUnsupportedAlterTableStmt cat stmt st = Inr st"
  by (simp add: ErrorIfUnsupportedAlterTableStmt_def ErrorIfUnsupportedAlterTableStmt_switch_def)

lemma alone_AttachPartition:
  "AlterTableLookupRelation cat stmt = Inr rel \<Longrightarrow>
   cmds stmt = [c] \<Longrightarrow> subtype c = AT_AttachPartition \<Longrightarrow>
   cmd_def c = PartitionCmdNode partitionCmd \<Longrightarrow>
   OidIsValid (RangeVarRelid cat (pc_name partitionCmd)) \<Longrightarrow>
   ErrorIfUnsupportedAlterTableStmt cat stmt st =
     (if IsDistributedTable cat (RangeVarRelid cat (pc_name partitionCmd))
         \<and> \<not> TablesColocated cat rel (RangeVarRelid cat (pc_name partitionCmd))
      then Inl NonColocatedPartitionError else Inr st)"
  by (simp add: ErrorIfUnsupportedAlterTableStmt_def ErrorIfUnsupportedAlterTableStmt_switch_def
      castPartitionCmd_def RangeVarGetRelid_def)

text \<open>
  The parser gives every \<^verbatim>\<open>ADD COLUMN\<close> sub-command a column definition. Without
  one, the test \<^verbatim>\<open>IsA(command->def, ColumnDef)\<close> reads the node tag through the
  \<^verbatim>\<open>NULL\<close> pointer, before any other sub-command is looked at.
\<close>

lemma AddColumn_without_definition:
  "ErrorIfUnsupportedAlterTableStmt sampleCatalog
     (alterTable ''orders''
        [\<lparr>subtype = AT_AddColumn, name = None, cmd_def = NullNode\<rparr>, addPrimaryKey])
     idleState = Inl NullPointerDereference \<and>
   \<not> wellFormedCommand \<lparr>subtype = AT_AddColumn, name = None, cmd_def = NullNode\<rparr>"
  by (simp add: ErrorIfUnsupportedAlterTableStmt_def ErrorIfUnsupportedAlterTableStmt_switch_def
      alterTable_def wellFormedCommand_def)

text \<open>
  C6, as amended. On a distributed table, a statement of more than one sub-command that
  holds an \<^verbatim>\<open>ADD CONSTRAINT\<close>, \<^verbatim>\<open>ATTACH PARTITION\<close> or \<^verbatim>\<open>DETACH PARTITION\<close>
  always fails in the validator: with an unsupported-command error when its sub-commands
  are built as by the parser and the partition of every \<^verbatim>\<open>ATTACH PARTITION\<close>
  resolves, and in any case with an unsupported-command error, the undefined-relation
  error of the partition lookup or the crash on a missing or ill-typed node. As the only
  sub-command, an \<^verbatim>\<open>ADD CONSTRAINT\<close> with a constraint name and a
  \<^verbatim>\<open>DETACH PARTITION\<close> are accepted by the validator, and an \<^verbatim>\<open>ATTACH PARTITION\<close>
  whose partition resolves is accepted unless the partition is a distributed table that
  is not colocated with the parent.
\<close>

theorem ErrorIfUnsupportedAlterTableStmt_alone_commands:
  assumes "AlterTableLookupRelation cat stmt = Inr relationId"
    and "OidIsValid relationId"
  shows "(1 < length (cmds stmt) \<and>
          (\<exists>command \<in> set (cmds stmt). subtype command = AT_AddConstraint
              \<or> subtype command = AT_AttachPartition \<or> subtype command = AT_DetachPartition)
          \<longrightarrow>
          (\<exists>e. ErrorIfUnsupportedAlterTableStmt cat stmt st = Inl e \<and>
               (UnsupportedCommand e \<or> e = UndefinedTable \<or> e = NullPointerDereference
                  \<or> e = InvalidNodeCast) \<and>
               ((\<forall>command \<in> set (cmds stmt).
                   wellFormedCommand command \<and>
                   (subtype command = AT_AttachPartition \<longrightarrow>
                      resolvesPartition cat command))
                \<longrightarrow> UnsupportedCommand e))) \<and>
         (\<forall>command constraint.
            cmds stmt = [command] \<and> subtype command = AT_AddConstraint \<and>
            cmd_def command = ConstraintNode constraint \<and> conname constraint \<noteq> None
            \<longrightarrow> ErrorIfUnsupportedAlterTableStmt cat stmt st = Inr st) \<and>
         (\<forall>command.
            cmds stmt = [command] \<and> subtype command = AT_DetachPartition
            \<longrightarrow> ErrorIfUnsupportedAlterTableStmt cat stmt st = Inr st) \<and>
         (\<forall>command partitionCmd.
            cmds stmt = [command] \<and> subtype command = AT_AttachPartition \<and>
            cmd_def command = PartitionCmdNode partitionCmd \<and>
            OidIsValid (RangeVarRelid cat (pc_name partitionCmd))
            \<longrightarrow> ErrorIfUnsupportedAlterTableStmt cat stmt st =
                  (if IsDistributedTable cat (RangeVarRelid cat (pc_name partitionCmd))
                      \<and> \<not> TablesColocated cat relationId
                            (RangeVarRelid cat (pc_name partitionCmd))
                   then Inl NonColocatedPartitionError else Inr st))"
proof -
  have combined: "\<exists>e. ErrorIfUnsupportedAlterTableStmt cat stmt st = Inl e \<and>
      (UnsupportedCommand e \<or> e = UndefinedTable \<or> e = NullPointerDereference
         \<or> e = InvalidNodeCast) \<and>
      ((\<forall>command \<in> set (cmds stmt).
          wellFormedCommand command \<and>
          (subtype command = AT_AttachPartition \<longrightarrow> resolvesPartition cat command))
       \<longrightarrow> UnsupportedCommand e)"
    if many: "1 < length (cmds stmt)"
      and c: "c \<in> set (cmds stmt)"
      and kind: "subtype c = AT_AddConstraint \<or> subtype c = AT_AttachPartition
          \<or> subtype c = AT_DetachPartition" for c
  proof -
    from foreach_fails [OF assms c] switch_alone_commands_fail [OF assms(1) many kind]
    obtain e where e: "ErrorIfUnsupportedAlterTableStmt cat stmt st = Inl e"
      by (auto simp add: ErrorIfUnsupportedAlterTableStmt_def)
    with foreach_error_kind [OF assms(1) many, of "cmds stmt" st e]
      foreach_error_any [OF assms(1), of "cmds stmt" st e]
    show ?thesis by (auto simp add: ErrorIfUnsupportedAlterTableStmt_def)
  qed
  show ?thesis
    using combined alone_AddConstraint_accepted [of stmt _ _ cat st]
      alone_DetachPartition_accepted [of stmt _ cat st]
      alone_AttachPartition [OF assms(1), of _ _ st]
    by (intro conjI allI impI) blast+
qed


theorem ErrorIfUnsupportedAlterTableStmt_alone_commands_witness:
  "AlterTableLookupRelation sampleCatalog
     (alterTable ''orders'' [columnCommand AT_DropColumn ''note'', addPrimaryKey]) = Inr 16385 \<and>
   OidIsValid 16385 \<and>
   1 < length (cmds (alterTable ''orders'' [columnCommand AT_DropColumn ''note'', addPrimaryKey])) \<and>
   subtype addPrimaryKey = AT_AddConstraint \<and>
   (\<exists>e. ErrorIfUnsupportedAlterTableStmt sampleCatalog
          (alterTable ''orders'' [columnCommand AT_DropColumn ''note'', addPrimaryKey])
          idleState = Inl e \<and> UnsupportedCommand e) \<and>
   ErrorIfUnsupportedAlterTableStmt sampleCatalog (alterTable ''orders'' [addPrimaryKey])
     idleState = Inr idleState \<and>
   ErrorIfUnsupportedAlterTableStmt sampleCatalog
     (alterTable ''orders'' [partitionCommand AT_DetachPartition ''orders_2020'']) idleState =
     Inr idleState \<and>
   ErrorIfUnsupportedAlterTableStmt sampleCatalog
     (alterTable ''orders'' [partitionCommand AT_AttachPartition ''orders_2020'']) idleState =
     Inr idleState"
proof -
  let ?both = "alterTable ''orders'' [columnCommand AT_DropColumn ''note'', addPrimaryKey]"
  let ?add = "alterTable ''orders'' [addPrimaryKey]"
  let ?detach = "alterTable ''orders'' [partitionCommand AT_DetachPartition ''orders_2020'']"
  let ?attach = "alterTable ''orders'' [partitionCommand AT_AttachPartition ''orders_2020'']"
  have lookup: "AlterTableLookupRelation sampleCatalog (alterTable ''orders'' commandList) =
      Inr 16385" for commandList
    by (simp add: AlterTableLookupRelation_def alterTable_def RangeVarGetRelid_def
        sampleCatalog_def sampleRelid_def OidIsValid_def InvalidOid_def)
  have valid: "OidIsValid 16385" by (simp add: OidIsValid_def InvalidOid_def)
  have many: "1 < length (cmds ?both)" by (simp add: alterTable_def)
  have kind: "subtype addPrimaryKey = AT_AddConstraint" by (simp add: addPrimaryKey_def)
  have member: "\<exists>command \<in> set (cmds ?both). subtype command = AT_AddConstraint
      \<or> subtype command = AT_AttachPartition \<or> subtype command = AT_DetachPartition"
    by (simp add: alterTable_def addPrimaryKey_def)
  have resolved: "\<forall>command \<in> set (cmds ?both).
      wellFormedCommand command \<and>
      (subtype command = AT_AttachPartition \<longrightarrow> resolvesPartition sampleCatalog command)"
    by (simp add: alterTable_def addPrimaryKey_def columnCommand_def wellFormedCommand_def)
  from ErrorIfUnsupportedAlterTableStmt_alone_commands [OF lookup valid, where st = idleState]
    many member resolved
  have r1: "\<exists>e. ErrorIfUnsupportedAlterTableStmt sampleCatalog ?both idleState = Inl e \<and>
      UnsupportedCommand e" by blast
  have "cmds ?add = [addPrimaryKey] \<and> subtype addPrimaryKey = AT_AddConstraint \<and>
      cmd_def addPrimaryKey = ConstraintNode \<lparr>contype = CONSTR_PRIMARY,
        conname = Some ''orders_pkey'', pktable = None, skip_validation = False\<rparr> \<and>
      conname \<lparr>contype = CONSTR_PRIMARY, conname = Some ''orders_pkey'', pktable = None,
        skip_validation = False\<rparr> \<noteq> None"
    by (simp add: alterTable_def addPrimaryKey_def)
  with ErrorIfUnsupportedAlterTableStmt_alone_commands [OF lookup valid, where st = idleState]
  have r2: "ErrorIfUnsupportedAlterTableStmt sampleCatalog ?add idleState = Inr idleState"
    by blast
  have "cmds ?detach = [partitionCommand AT_DetachPartition ''orders_2020''] \<and>
      subtype (partitionCommand AT_DetachPartition ''orders_2020'') = AT_DetachPartition"
    by (simp add: alterTable_def partitionCommand_def)
  with ErrorIfUnsupportedAlterTableStmt_alone_commands [OF lookup valid, where st = idleState]
  have r3: "ErrorIfUnsupportedAlterTableStmt sampleCatalog ?detach idleState = Inr idleState"
    by blast
  let ?pc = "\<lparr>pc_name = \<lparr>schemaname = None, relname = ''orders_2020''\<rparr>\<rparr>"
  have a: "cmds ?attach = [partitionCommand AT_AttachPartition ''orders_2020''] \<and>
      subtype (partitionCommand AT_AttachPartition ''orders_2020'') = AT_AttachPartition \<and>
      cmd_def (partitionCommand AT_AttachPartition ''orders_2020'') = PartitionCmdNode ?pc \<and>
      OidIsValid (RangeVarRelid sampleCatalog (pc_name ?pc))"
    by (simp add: alterTable_def partitionCommand_def sampleCatalog_def sampleRelid_def
        OidIsValid_def InvalidOid_def)
  have local: "\<not> IsDistributedTable sampleCatalog (RangeVarRelid sampleCatalog (pc_name ?pc))"
    by (simp add: sampleCatalog_def sampleRelid_def)
  from ErrorIfUnsupportedAlterTableStmt_alone_commands [OF lookup valid, where st = idleState] a
  have "ErrorIfUnsupportedAlterTableStmt sampleCatalog ?attach idleState =
      (if IsDistributedTable sampleCatalog (RangeVarRelid sampleCatalog (pc_name ?pc))
          \<and> \<not> TablesColocated sampleCatalog 16385
                (RangeVarRelid sampleCatalog (pc_name ?pc))
       then Inl NonColocatedPartitionError else Inr idleState)"
    by blast
  with local have r4: "ErrorIfUnsupportedAlterTableStmt sampleCatalog ?attach idleState =
      Inr idleState" by simp
  from lookup valid many kind r1 r2 r3 r4 show ?thesis by blast
qed

text \<open>
  The claim C6 as stated fails, in both halves. \<^verbatim>\<open>ALTER TABLE orders ATTACH PARTITION
  audit\<close>, the only sub-command of its statement, is rejected, since \<open>audit\<close> is
  distributed and not colocated with \<open>orders\<close>. And the statement that drops the
  column \<open>note\<close> of \<open>orders\<close> and attaches the partition \<open>missing\<close>, a relation
  that does not exist, fails with the undefined-relation error of the lookup of the
  partition, which comes before the check of the number of sub-commands and is not an
  unsupported-command error.
\<close>

theorem AttachPartition_counterexample:
  "cmds (alterTable ''orders'' [partitionCommand AT_AttachPartition ''audit'']) =
     [partitionCommand AT_AttachPartition ''audit''] \<and>
   subtype (partitionCommand AT_AttachPartition ''audit'') = AT_AttachPartition \<and>
   ErrorIfUnsupportedAlterTableStmt sampleCatalog
     (alterTable ''orders'' [partitionCommand AT_AttachPartition ''audit'']) idleState =
     Inl NonColocatedPartitionError \<and>
   IsDistributedTable sampleCatalog 16385 \<and>
   length (cmds (alterTable ''orders'' [columnCommand AT_DropColumn ''note'',
     partitionCommand AT_AttachPartition ''missing''])) = 2 \<and>
   ErrorIfUnsupportedAlterTableStmt sampleCatalog
     (alterTable ''orders'' [columnCommand AT_DropColumn ''note'',
        partitionCommand AT_AttachPartition ''missing'']) idleState =
     Inl UndefinedTable \<and>
   \<not> UnsupportedCommand UndefinedTable"
  by (simp add: columnCommand_def sampleAttribute_def AlterInvolvesPartitionColumn_def ErrorIfUnsupportedAlterTableStmt_def ErrorIfUnsupportedAlterTableStmt_switch_def
      AlterTableLookupRelation_def alterTable_def partitionCommand_def RangeVarGetRelid_def
      castPartitionCmd_def sampleCatalog_def sampleRelid_def OidIsValid_def InvalidOid_def)

subsection \<open>Execution mode\<close>

lemma RangeVarGetRelid_Inr:
  "RangeVarGetRelid cat rangeVar missingOk = Inr relationId \<Longrightarrow>
   relationId = RangeVarRelid cat rangeVar"
  by (simp add: RangeVarGetRelid_def Let_def split: if_splits)

lemma Setup_columnConstraints_flag:
  "SetupExecutionModeForAlterTable_columnConstraints cat columnConstraints flag = Inr result
   \<Longrightarrow> result = (flag \<or> list_ex (ReferencesReferenceTable cat) columnConstraints)"
proof (induction columnConstraints arbitrary: flag)
  case Nil
  then show ?case by simp
next
  case (Cons constraint rest)
  show ?case
  proof (cases "contype constraint = CONSTR_FOREIGN")
    case False
    with Cons show ?thesis by (simp add: ReferencesReferenceTable_def)
  next
    case True
    with Cons.prems obtain referenced relationId where
      pk: "pktable constraint = Some referenced" and
      rel: "RangeVarGetRelid cat referenced False = Inr relationId" and
      rest: "SetupExecutionModeForAlterTable_columnConstraints cat rest
          (if IsDistributedTable cat relationId
              \<and> PartitionMethod cat relationId = DISTRIBUTE_BY_NONE
           then True else flag) = Inr result"
      by (auto split: option.splits sum.splits)
    from RangeVarGetRelid_Inr [OF rel] have "relationId = RangeVarRelid cat referenced" .
    with Cons.IH [OF rest] True pk show ?thesis
      by (auto simp add: ReferencesReferenceTable_def)
  qed
qed

lemma Setup_decide_flag:
  "SetupExecutionModeForAlterTable_decide cat relationId command st = Inr (flag, st') \<Longrightarrow>
   flag = RequiresSequentialExecution cat relationId command"
  by (cases "subtype command")
    (auto simp add: SetupExecutionModeForAlterTable_decide_def RequiresSequentialExecution_def
      ReferencesReferenceTable_def castConstraint_def castColumnDef_def Let_def
      dest!: Setup_columnConstraints_flag RangeVarGetRelid_Inr
      split: Node.splits option.splits sum.splits if_splits)

lemma Setup_decide_parallel:
  "SetupExecutionModeForAlterTable_decide cat relationId command st = Inr (flag, st') \<Longrightarrow>
   ParallelQueryExecutedInTransaction st' = ParallelQueryExecutedInTransaction st"
  by (cases "subtype command")
    (auto simp add: SetupExecutionModeForAlterTable_decide_def Let_def
      SetLocalMultiShardModifyModeToSequential_def
      split: Node.splits option.splits sum.splits if_splits)

lemma Setup_flag:
  "SetupExecutionModeForAlterTable cat relationId command st = Inr (flag, st') \<Longrightarrow>
   flag = RequiresSequentialExecution cat relationId command"
  by (auto simp add: SetupExecutionModeForAlterTable_def dest: Setup_decide_flag
      split: sum.splits if_splits)

lemma ReferencesReferenceTable_skip_validation:
  "ReferencesReferenceTable cat (constraint\<lparr>skip_validation := flag\<rparr>) =
     ReferencesReferenceTable cat constraint"
  by (simp add: ReferencesReferenceTable_def)

lemma Plan_columnConstraints_same:
  "PlanAlterTableStmt_columnConstraints cat stmt columnConstraints right = Inr (result, right')
   \<Longrightarrow> list_ex (ReferencesReferenceTable cat) result =
       list_ex (ReferencesReferenceTable cat) columnConstraints"
proof (induction columnConstraints arbitrary: result right')
  case Nil
  then show ?case by simp
next
  case (Cons constraint rest)
  show ?case
  proof (cases "contype constraint = CONSTR_FOREIGN")
    case True
    with Cons.prems have "result = constraint\<lparr>skip_validation := True\<rparr> # rest"
      by (auto split: option.splits sum.splits)
    then show ?thesis by (simp add: ReferencesReferenceTable_skip_validation)
  next
    case False
    with Cons.prems obtain rest' where
      "PlanAlterTableStmt_columnConstraints cat stmt rest right = Inr (rest', right')"
      and "result = constraint # rest'"
      by (auto split: sum.splits)
    with Cons.IH show ?thesis by simp
  qed
qed

lemma Plan_resolve_same:
  assumes "PlanAlterTableStmt_resolve cat stmt command right =
      Inr (PlanContinue command' right')"
  shows "RequiresSequentialExecution cat relationId command' =
     RequiresSequentialExecution cat relationId command"
proof (cases "subtype command = AT_AddColumn")
  case True
  with assms obtain columnDefinition columnConstraints where
    node: "cmd_def command = ColumnDefNode columnDefinition" and
    run: "PlanAlterTableStmt_columnConstraints cat stmt (constraints columnDefinition) right =
        Inr (columnConstraints, right')" and
    result: "command' = command\<lparr>cmd_def :=
        ColumnDefNode (columnDefinition\<lparr>constraints := columnConstraints\<rparr>)\<rparr>"
    by (auto simp add: PlanAlterTableStmt_resolve_def castColumnDef_def Let_def
        split: Node.splits sum.splits)
  from Plan_columnConstraints_same [OF run] True node result show ?thesis
    by (simp add: RequiresSequentialExecution_def)
next
  case False
  with assms show ?thesis
    by (cases "subtype command")
      (auto simp add: PlanAlterTableStmt_resolve_def RequiresSequentialExecution_def
        ReferencesReferenceTable_skip_validation castConstraint_def castPartitionCmd_def
        Let_def split: Node.splits option.splits sum.splits if_splits)
qed

lemma Plan_foreach_flag:
  "PlanAlterTableStmt_foreach cat stmt leftRelationId commandList processed right flag st =
     Inr (LoopDone commandList' right' flag' st') \<Longrightarrow>
   flag' = (flag \<or> list_ex (RequiresSequentialExecution cat leftRelationId) commandList)"
proof (induction commandList arbitrary: processed right flag st)
  case Nil
  then show ?case by simp
next
  case (Cons command rest)
  from Cons.prems obtain command1 right1 needed st1 where
    step1: "PlanAlterTableStmt_resolve cat stmt command right =
        Inr (PlanContinue command1 right1)" and
    step2: "SetupExecutionModeForAlterTable cat leftRelationId command1 st =
        Inr (needed, st1)" and
    step3: "PlanAlterTableStmt_foreach cat stmt leftRelationId rest (processed @ [command1])
        right1 (flag \<or> needed) st1 = Inr (LoopDone commandList' right' flag' st')"
    by (auto split: sum.splits PlanStep.splits)
  from Setup_flag [OF step2] Plan_resolve_same [OF step1]
  have "needed = RequiresSequentialExecution cat leftRelationId command" by simp
  with Cons.IH [OF step3] show ?case by auto
qed


lemma Plan_flag:
  assumes "PlanAlterTableStmt cat stmt alterTableCommand st = Inr (jobs, stmt', st')"
    and "job \<in> set jobs"
  shows "executeSequentially job =
     list_ex (RequiresSequentialExecution cat (targetRelationId job)) (cmds stmt)"
proof -
  from assms obtain lookedUp where lookedUp: "AlterTableLookupRelation cat stmt = Inr lookedUp"
    by (auto simp add: PlanAlterTableStmt_def split: if_splits sum.splits)
  let ?left = "if get_rel_relkind cat lookedUp = RELKIND_INDEX
      then IndexGetRelation cat lookedUp else lookedUp"
  from assms lookedUp obtain st1 commandList right flag st2 where
    loop: "PlanAlterTableStmt_foreach cat stmt ?left (cmds stmt) [] InvalidOid False st1 =
        Inr (LoopDone commandList right flag st2)" and
    job: "executeSequentially job = flag" "targetRelationId job = ?left"
    by (auto simp add: PlanAlterTableStmt_def Let_def
        split: if_splits sum.splits PlanLoop.splits prod.splits)
  from Plan_foreach_flag [OF loop] job show ?thesis by simp
qed

lemma Truncate_foreach_mode:
  "ExecuteTruncateStmtSequentialIfNecessary_foreach cat rangeVars st = Inr st' \<Longrightarrow>
   st' = (if list_ex (TruncatesReferencedReferenceTable cat) rangeVars
          then SetLocalMultiShardModifyModeToSequential st else st)"
proof (induction rangeVars)
  case Nil
  then show ?case by simp
next
  case (Cons rangeVar rest)
  from Cons.prems obtain relationId where
    rel: "RangeVarGetRelid cat rangeVar False = Inr relationId"
    by (auto split: sum.splits)
  from RangeVarGetRelid_Inr [OF rel] have same: "relationId = RangeVarRelid cat rangeVar" .
  show ?case
  proof (cases "TruncatesReferencedReferenceTable cat rangeVar")
    case True
    with Cons.prems rel same show ?thesis
      by (simp add: TruncatesReferencedReferenceTable_def)
  next
    case False
    with Cons.prems rel same
    have "ExecuteTruncateStmtSequentialIfNecessary_foreach cat rest st = Inr st'"
      by (auto simp add: TruncatesReferencedReferenceTable_def split: if_splits)
    from Cons.IH [OF this] False show ?thesis by simp
  qed
qed

lemma Setup_columnConstraints_error:
  "SetupExecutionModeForAlterTable_columnConstraints cat columnConstraints flag = Inl e \<Longrightarrow>
   e = UndefinedTable \<or> e = NullPointerDereference"
proof (induction columnConstraints arbitrary: flag)
  case Nil
  then show ?case by simp
next
  case (Cons constraint rest)
  then show ?case
    by (auto simp add: RangeVarGetRelid_def Let_def split: if_splits option.splits sum.splits)
qed

lemma Setup_decide_error:
  "SetupExecutionModeForAlterTable_decide cat relationId command st = Inl e \<Longrightarrow>
   e = UndefinedTable \<or> e = NullPointerDereference \<or> e = InvalidNodeCast"
  by (cases "subtype command")
    (auto simp add: SetupExecutionModeForAlterTable_decide_def castConstraint_def
      castColumnDef_def RangeVarGetRelid_def Let_def
      dest: Setup_columnConstraints_error
      split: Node.splits option.splits sum.splits if_splits)

lemma Setup_error:
  assumes "SetupExecutionModeForAlterTable cat relationId command st = Inl e"
  shows "e = UndefinedTable \<or> e = NullPointerDereference \<or> e = InvalidNodeCast \<or>
     (RequiresSequentialExecution cat relationId command \<and> ConflictingExecutionMode e)"
proof (cases "SetupExecutionModeForAlterTable_decide cat relationId command st")
  case (Inl e')
  with assms have "e' = e" by (simp add: SetupExecutionModeForAlterTable_def)
  with Setup_decide_error Inl show ?thesis by blast
next
  case (Inr result)
  obtain flag st' where result: "result = (flag, st')" by (cases result)
  from Setup_decide_flag Inr result
  have "flag = RequiresSequentialExecution cat relationId command" by blast
  with assms Inr result show ?thesis
    by (auto simp add: SetupExecutionModeForAlterTable_def split: if_splits)
qed

text \<open>
  C3. The flag \<^verbatim>\<open>executeSequentially\<close> that \<^verbatim>\<open>SetupExecutionModeForAlterTable\<close>
  returns for a sub-command is set exactly when the sub-command drops or type-alters a
  column participating in a foreign key to a reference table, or adds or drops a
  foreign-key constraint whose referenced side is a reference table; when the function
  raises instead, the error is a failed lookup or cast, or the conflicting-execution-mode
  error of a sub-command that needs sequential execution. The flag of the job that
  \<^verbatim>\<open>PlanAlterTableStmt\<close> returns is set exactly when one of the sub-commands of the
  statement needs it. \<^verbatim>\<open>ExecuteTruncateStmtSequentialIfNecessary\<close> switches the
  transaction to sequential mode exactly when one of the truncated relations is a
  reference table referenced by a foreign key, and leaves the state as it is otherwise.
\<close>

theorem sequential_flag_exactly_when:
  "(SetupExecutionModeForAlterTable cat relationId command st = Inr (flag, st1) \<longrightarrow>
      flag = RequiresSequentialExecution cat relationId command) \<and>
   (SetupExecutionModeForAlterTable cat relationId command st = Inl e \<longrightarrow>
      e = UndefinedTable \<or> e = NullPointerDereference \<or> e = InvalidNodeCast \<or>
      (RequiresSequentialExecution cat relationId command \<and> ConflictingExecutionMode e)) \<and>
   (PlanAlterTableStmt cat stmt alterTableCommand st = Inr (jobs, stmt', st2) \<longrightarrow>
      (\<forall>job \<in> set jobs.
         executeSequentially job =
           list_ex (RequiresSequentialExecution cat (targetRelationId job)) (cmds stmt))) \<and>
   (ExecuteTruncateStmtSequentialIfNecessary cat truncateStmt st = Inr st3 \<longrightarrow>
      st3 = (if list_ex (TruncatesReferencedReferenceTable cat) (relations truncateStmt)
             then SetLocalMultiShardModifyModeToSequential st else st))"
  using Setup_flag [of cat relationId command st flag st1]
    Setup_error [of cat relationId command st e]
    Plan_flag [of cat stmt alterTableCommand st jobs stmt' st2]
    Truncate_foreach_mode [of cat "relations truncateStmt" st st3]
  by (simp add: ExecuteTruncateStmtSequentialIfNecessary_def)

lemmas sample_defs = sampleCatalog_def sampleRelid_def sampleShards_def sampleAttribute_def
  alterTable_def columnCommand_def addPrimaryKey_def addForeignKey_def partitionCommand_def
  OidIsValid_def InvalidOid_def idleState_def busyState_def

lemmas planner_defs = PlanAlterTableStmt_def AlterTableLookupRelation_def RangeVarGetRelid_def
  ErrorIfUnsupportedAlterTableStmt_def ErrorIfUnsupportedAlterTableStmt_switch_def
  AlterInvolvesPartitionColumn_def PlanAlterTableStmt_resolve_def
  SetupExecutionModeForAlterTable_def SetupExecutionModeForAlterTable_decide_def
  SetLocalMultiShardModifyModeToSequential_def
  InterShardDDLTaskList_def InterShardDDLTaskList_repeat.simps DDLTaskList_def
  LockShardListMetadata_def logMetadataEvent_def
  castConstraint_def castColumnDef_def castPartitionCmd_def Let_def

theorem sequential_flag_exactly_when_witness:
  "SetupExecutionModeForAlterTable sampleCatalog 16385 (addForeignKey ''warehouses'')
     idleState = Inr (True, idleState) \<and>
   RequiresSequentialExecution sampleCatalog 16385 (addForeignKey ''warehouses'') \<and>
   SetupExecutionModeForAlterTable sampleCatalog 16385 addPrimaryKey idleState =
     Inr (False, idleState) \<and>
   \<not> RequiresSequentialExecution sampleCatalog 16385 addPrimaryKey \<and>
   (\<exists>jobs stmt' st2.
      PlanAlterTableStmt sampleCatalog (alterTable ''orders'' [addForeignKey ''warehouses''])
        ''ALTER TABLE orders ADD CONSTRAINT fk1 FOREIGN KEY (warehouse_id) REFERENCES warehouses''
        idleState = Inr (jobs, stmt', st2) \<and>
      length jobs = 1 \<and>
      list_all (\<lambda>job. executeSequentially job =
        list_ex (RequiresSequentialExecution sampleCatalog (targetRelationId job))
          (cmds (alterTable ''orders'' [addForeignKey ''warehouses'']))) jobs) \<and>
   ExecuteTruncateStmtSequentialIfNecessary sampleCatalog
     \<lparr>relations = [\<lparr>schemaname = None, relname = ''warehouses''\<rparr>]\<rparr> idleState =
     Inr (SetLocalMultiShardModifyModeToSequential idleState) \<and>
   list_ex (TruncatesReferencedReferenceTable sampleCatalog)
     (relations \<lparr>relations = [\<lparr>schemaname = None, relname = ''warehouses''\<rparr>]\<rparr>)"
proof -
  let ?fk = "addForeignKey ''warehouses''"
  let ?stmt = "alterTable ''orders'' [?fk]"
  let ?text = "''ALTER TABLE orders ADD CONSTRAINT fk1 FOREIGN KEY (warehouse_id) REFERENCES warehouses''"
  let ?truncate = "\<lparr>relations = [\<lparr>schemaname = None, relname = ''warehouses''\<rparr>]\<rparr>"
  have run1: "SetupExecutionModeForAlterTable sampleCatalog 16385 ?fk idleState =
      Inr (True, idleState)"
    by (simp add: planner_defs sample_defs)
  have run2: "SetupExecutionModeForAlterTable sampleCatalog 16385 addPrimaryKey idleState =
      Inr (False, idleState)"
    by (simp add: planner_defs sample_defs)
  have run3: "\<exists>jobs stmt' st2. PlanAlterTableStmt sampleCatalog ?stmt ?text idleState =
      Inr (jobs, stmt', st2) \<and> length jobs = 1"
    by (simp add: planner_defs sample_defs)
  have run4: "ExecuteTruncateStmtSequentialIfNecessary sampleCatalog ?truncate idleState =
      Inr (SetLocalMultiShardModifyModeToSequential idleState)"
    by (simp add: ExecuteTruncateStmtSequentialIfNecessary_def RangeVarGetRelid_def
        sample_defs)
  from run1 sequential_flag_exactly_when [of sampleCatalog 16385 ?fk idleState True idleState]
  have c1: "RequiresSequentialExecution sampleCatalog 16385 ?fk" by blast
  from run2 sequential_flag_exactly_when [of sampleCatalog 16385 addPrimaryKey idleState
      False idleState]
  have c2: "\<not> RequiresSequentialExecution sampleCatalog 16385 addPrimaryKey" by blast
  from run3 obtain jobs stmt' st2 where
    plan: "PlanAlterTableStmt sampleCatalog ?stmt ?text idleState = Inr (jobs, stmt', st2)"
    and one: "length jobs = 1" by blast
  from plan sequential_flag_exactly_when [of sampleCatalog _ _ idleState _ _ _ ?stmt ?text
      jobs stmt' st2]
  have "\<forall>job \<in> set jobs. executeSequentially job =
      list_ex (RequiresSequentialExecution sampleCatalog (targetRelationId job)) (cmds ?stmt)"
    by blast
  then have c3: "list_all (\<lambda>job. executeSequentially job =
      list_ex (RequiresSequentialExecution sampleCatalog (targetRelationId job))
        (cmds ?stmt)) jobs"
    by (simp add: list_all_iff)
  from run4 sequential_flag_exactly_when [of sampleCatalog _ _ idleState _ _ _ _ _ _ _ _
      ?truncate "SetLocalMultiShardModifyModeToSequential idleState"]
  have "SetLocalMultiShardModifyModeToSequential idleState =
      (if list_ex (TruncatesReferencedReferenceTable sampleCatalog) (relations ?truncate)
       then SetLocalMultiShardModifyModeToSequential idleState else idleState)"
    by blast
  moreover have "SetLocalMultiShardModifyModeToSequential idleState \<noteq> idleState"
  proof
    assume "SetLocalMultiShardModifyModeToSequential idleState = idleState"
    then have "MultiShardConnectionType (SetLocalMultiShardModifyModeToSequential idleState) =
        MultiShardConnectionType idleState" by simp
    then show False
      by (simp add: SetLocalMultiShardModifyModeToSequential_def idleState_def)
  qed
  ultimately have c4: "list_ex (TruncatesReferencedReferenceTable sampleCatalog)
      (relations ?truncate)"
    by (cases "list_ex (TruncatesReferencedReferenceTable sampleCatalog) (relations ?truncate)")
      simp_all
  from run1 c1 run2 c2 plan one c3 run4 c4 show ?thesis by blast
qed

lemma Setup_conflict:
  assumes "SetupExecutionModeForAlterTable_decide cat relationId command st = Inr (True, st')"
    and "ParallelQueryExecutedInTransaction st"
  shows "SetupExecutionModeForAlterTable cat relationId command st =
     (if IsDistributedTable cat relationId
         \<and> PartitionMethod cat relationId \<noteq> DISTRIBUTE_BY_NONE
      then Inl (ParallelOperationInTransactionError (get_rel_name cat relationId))
      else Inr (True, st'))"
  using assms Setup_decide_parallel [OF assms(1)]
  by (simp add: SetupExecutionModeForAlterTable_def)

lemma Plan_foreach_error:
  "PlanAlterTableStmt_resolve cat stmt command right = Inr (PlanContinue command' right') \<Longrightarrow>
   SetupExecutionModeForAlterTable cat leftRelationId command' st = Inl e \<Longrightarrow>
   PlanAlterTableStmt_foreach cat stmt leftRelationId (command # rest) processed right flag st
     = Inl e"
  by simp

text \<open>
  C4, as amended. When a sub-command needs sequential execution and a parallel operation
  has been executed in the transaction, \<^verbatim>\<open>SetupExecutionModeForAlterTable\<close> on a
  distributed relation whose distribution method is not none raises the
  conflicting-execution-mode error, whose hint tells to set the sequential mode, and the
  planning loop that reaches the sub-command fails with it; on a reference table
  (distribution method none) no error is raised and the flag is returned.
\<close>

theorem conflicting_execution_mode:
  assumes "SetupExecutionModeForAlterTable_decide cat relationId command st = Inr (True, st')"
    and "ParallelQueryExecutedInTransaction st"
  shows "(IsDistributedTable cat relationId \<and>
          PartitionMethod cat relationId \<noteq> DISTRIBUTE_BY_NONE \<longrightarrow>
            SetupExecutionModeForAlterTable cat relationId command st =
              Inl (ParallelOperationInTransactionError (get_rel_name cat relationId)) \<and>
            ConflictingExecutionMode
              (ParallelOperationInTransactionError (get_rel_name cat relationId)) \<and>
            errhint (ParallelOperationInTransactionError (get_rel_name cat relationId)) =
              Some (''Try re-running the transaction with '' @ [CHR 0x22]
                @ ''SET LOCAL citus.multi_shard_modify_mode TO ''
                @ [CHR 0x27] @ ''sequential'' @ [CHR 0x27] @ '';'' @ [CHR 0x22]) \<and>
            (\<forall>command0 right right' rest processed flag.
               PlanAlterTableStmt_resolve cat stmt command0 right =
                 Inr (PlanContinue command right') \<longrightarrow>
               PlanAlterTableStmt_foreach cat stmt relationId (command0 # rest) processed
                 right flag st =
                 Inl (ParallelOperationInTransactionError (get_rel_name cat relationId)))) \<and>
         (PartitionMethod cat relationId = DISTRIBUTE_BY_NONE \<longrightarrow>
            SetupExecutionModeForAlterTable cat relationId command st = Inr (True, st'))"
  using Setup_conflict [OF assms] Plan_foreach_error [of cat stmt _ _ command _ relationId st]
  by auto

theorem conflicting_execution_mode_witness:
  "SetupExecutionModeForAlterTable_decide sampleCatalog 16385
     (columnCommand AT_DropColumn ''warehouse_id'') busyState = Inr (True, busyState) \<and>
   ParallelQueryExecutedInTransaction busyState \<and>
   IsDistributedTable sampleCatalog 16385 \<and>
   PartitionMethod sampleCatalog 16385 = DISTRIBUTE_BY_HASH \<and>
   SetupExecutionModeForAlterTable sampleCatalog 16385
     (columnCommand AT_DropColumn ''warehouse_id'') busyState =
     Inl (ParallelOperationInTransactionError (get_rel_name sampleCatalog 16385)) \<and>
   get_rel_name sampleCatalog 16385 = Some ''orders''"
proof -
  let ?c = "columnCommand AT_DropColumn ''warehouse_id''"
  have h1: "SetupExecutionModeForAlterTable_decide sampleCatalog 16385 ?c busyState =
      Inr (True, busyState)"
    by (simp add: SetupExecutionModeForAlterTable_decide_def sample_defs)
  have h2: "ParallelQueryExecutedInTransaction busyState"
    by (simp add: sample_defs)
  have h3: "IsDistributedTable sampleCatalog 16385" by (simp add: sample_defs)
  have h4: "PartitionMethod sampleCatalog 16385 = DISTRIBUTE_BY_HASH" by (simp add: sample_defs)
  have h5: "get_rel_name sampleCatalog 16385 = Some ''orders''" by (simp add: sample_defs)
  from h4 have h6: "PartitionMethod sampleCatalog 16385 \<noteq> DISTRIBUTE_BY_NONE" by simp
  from conflicting_execution_mode [OF h1 h2] h3 h6
  have "SetupExecutionModeForAlterTable sampleCatalog 16385 ?c busyState =
      Inl (ParallelOperationInTransactionError (get_rel_name sampleCatalog 16385))"
    by blast
  with h1 h2 h3 h4 h5 show ?thesis by blast
qed

text \<open>
  The claim C4 as stated fails: after a parallel operation in the transaction,
  \<^verbatim>\<open>ALTER TABLE warehouses ALTER COLUMN id TYPE bigint\<close> on the reference table
  \<open>warehouses\<close>, whose column \<open>id\<close> is referenced by a foreign key, needs sequential
  execution and is planned without any error.
\<close>

theorem reference_table_no_conflict_counterexample:
  "ParallelQueryExecutedInTransaction busyState \<and>
   RequiresSequentialExecution sampleCatalog 16390 (columnCommand AT_AlterColumnType ''id'') \<and>
   SetupExecutionModeForAlterTable sampleCatalog 16390
     (columnCommand AT_AlterColumnType ''id'') busyState =
     Inr (True, SetLocalMultiShardModifyModeToSequential busyState) \<and>
   (\<exists>jobs stmt' st'.
      PlanAlterTableStmt sampleCatalog
        (alterTable ''warehouses'' [columnCommand AT_AlterColumnType ''id''])
        ''ALTER TABLE warehouses ALTER COLUMN id TYPE bigint'' busyState =
        Inr (jobs, stmt', st') \<and>
      map executeSequentially jobs = [True])"
  by (simp add: planner_defs RequiresSequentialExecution_def sample_defs)

subsection \<open>Planning with a right relation that is not distributed\<close>

lemma Plan_after_validation:
  assumes "AlterTableLookupRelation cat stmt = Inr leftRelationId"
    and "OidIsValid leftRelationId"
    and "get_rel_relkind cat leftRelationId \<noteq> RELKIND_INDEX"
    and "IsDistributedTable cat leftRelationId"
    and "ErrorIfUnsupportedAlterTableStmt cat stmt st = Inr st1"
  shows "PlanAlterTableStmt cat stmt alterTableCommand st =
     (case PlanAlterTableStmt_foreach cat stmt leftRelationId (cmds stmt) [] InvalidOid False
             st1 of
        Inl e \<Rightarrow> Inl e
      | Inr (LoopReturnNIL commandList st2) \<Rightarrow> Inr ([], stmt\<lparr>cmds := commandList\<rparr>, st2)
      | Inr (LoopDone commandList rightRelationId flag st2) \<Rightarrow>
          (let ddlJob = \<lparr>targetRelationId = leftRelationId, concurrentIndexCmd = False,
                          executeSequentially = flag, commandString = alterTableCommand,
                          taskList = []\<rparr>
           in if rightRelationId \<noteq> 0 then
                (if \<not> IsDistributedTable cat rightRelationId
                 then Inr ([ddlJob], stmt\<lparr>cmds := commandList\<rparr>, st2)
                 else (case InterShardDDLTaskList cat leftRelationId rightRelationId
                              alterTableCommand st2 of
                         Inl e \<Rightarrow> Inl e
                       | Inr (tasks, st3) \<Rightarrow>
                           Inr ([ddlJob\<lparr>taskList := tasks\<rparr>], stmt\<lparr>cmds := commandList\<rparr>,
                                st3)))
              else (case DDLTaskList cat leftRelationId alterTableCommand st2 of
                      (tasks, st3) \<Rightarrow>
                        Inr ([ddlJob\<lparr>taskList := tasks\<rparr>], stmt\<lparr>cmds := commandList\<rparr>,
                             st3))))"
proof -
  from assms(1) obtain rangeVar where "relation stmt = Some rangeVar"
    by (auto simp add: AlterTableLookupRelation_def split: option.splits)
  with assms show ?thesis
    by (simp add: PlanAlterTableStmt_def Let_def split: sum.splits PlanLoop.splits prod.splits)
qed

lemma Setup_no_reference:
  "subtype command = AT_DetachPartition \<or> subtype command = AT_AttachPartition \<Longrightarrow>
   SetupExecutionModeForAlterTable cat leftRelationId command st = Inr (False, st)"
  by (auto simp add: SetupExecutionModeForAlterTable_def
      SetupExecutionModeForAlterTable_decide_def)

lemma Setup_foreign_key_to_local:
  "subtype command = AT_AddConstraint \<Longrightarrow> cmd_def command = ConstraintNode constraint \<Longrightarrow>
   contype constraint = CONSTR_FOREIGN \<Longrightarrow> pktable constraint = Some referenced \<Longrightarrow>
   OidIsValid (RangeVarRelid cat referenced) \<Longrightarrow>
   \<not> IsDistributedTable cat (RangeVarRelid cat referenced) \<Longrightarrow>
   SetupExecutionModeForAlterTable cat leftRelationId command st = Inr (False, st)"
  by (simp add: SetupExecutionModeForAlterTable_def SetupExecutionModeForAlterTable_decide_def
      castConstraint_def RangeVarGetRelid_def)

lemma switch_parallel:
  "ErrorIfUnsupportedAlterTableStmt_switch cat stmt c st = Inr outcome \<Longrightarrow>
   outcome = CheckBreak st' \<or> outcome = CheckReturn st' \<Longrightarrow>
   ParallelQueryExecutedInTransaction st' = ParallelQueryExecutedInTransaction st"
  by (cases "subtype c")
    (auto simp add: ErrorIfUnsupportedAlterTableStmt_switch_def Let_def
      MarkInvalidateForeignKeyGraph_def
      split: Node.splits option.splits list.splits sum.splits if_splits)

lemma foreach_parallel:
  "ErrorIfUnsupportedAlterTableStmt_foreach cat stmt rest st = Inr st' \<Longrightarrow>
   ParallelQueryExecutedInTransaction st' = ParallelQueryExecutedInTransaction st"
proof (induction rest arbitrary: st)
  case Nil
  then show ?case by simp
next
  case (Cons a rest)
  show ?case
  proof (cases "ErrorIfUnsupportedAlterTableStmt_switch cat stmt a st")
    case (Inl e)
    with Cons.prems show ?thesis by simp
  next
    case (Inr outcome)
    show ?thesis
    proof (cases outcome)
      case (CheckBreak st1)
      with Inr Cons.prems
      have "ErrorIfUnsupportedAlterTableStmt_foreach cat stmt rest st1 = Inr st'" by simp
      from Cons.IH [OF this] switch_parallel [OF Inr, of st1] CheckBreak
      show ?thesis by simp
    next
      case (CheckReturn st1)
      with Inr Cons.prems have "st' = st1" by simp
      with switch_parallel [OF Inr, of st1] CheckReturn show ?thesis by simp
    qed
  qed
qed

lemma referencedExists_skip_validation:
  "referencedExists cat (constraint\<lparr>skip_validation := flag\<rparr>) =
     referencedExists cat constraint"
  by (simp add: referencedExists_def)

lemma referencedExists_foreign_key:
  "referencedExists cat constraint \<Longrightarrow> contype constraint = CONSTR_FOREIGN \<Longrightarrow>
   \<exists>referenced. pktable constraint = Some referenced \<and>
     RangeVarGetRelid cat referenced missingOk = Inr (RangeVarRelid cat referenced)"
  by (auto simp add: referencedExists_def RangeVarGetRelid_def split: option.splits)

lemma Plan_columnConstraints_total:
  "list_all (referencedExists cat) columnConstraints \<Longrightarrow>
   \<exists>result.
     PlanAlterTableStmt_columnConstraints cat stmt columnConstraints right =
       Inr (result,
            case (case find (\<lambda>constraint. contype constraint = CONSTR_FOREIGN)
                         columnConstraints of
                    None \<Rightarrow> None
                  | Some constraint \<Rightarrow> map_option (RangeVarRelid cat) (pktable constraint)) of
              None \<Rightarrow> right
            | Some resolved \<Rightarrow> resolved) \<and>
     list_all (referencedExists cat) result"
proof (induction columnConstraints)
  case Nil
  then show ?case by simp
next
  case (Cons constraint rest)
  show ?case
  proof (cases "contype constraint = CONSTR_FOREIGN")
    case True
    from Cons.prems have "referencedExists cat constraint" by simp
    from referencedExists_foreign_key [OF this True, of "missing_ok stmt"]
    obtain referenced where "pktable constraint = Some referenced"
      and "RangeVarGetRelid cat referenced (missing_ok stmt) =
        Inr (RangeVarRelid cat referenced)" by blast
    with True Cons.prems show ?thesis
      by (simp add: referencedExists_skip_validation)
  next
    case False
    from Cons.prems have "list_all (referencedExists cat) rest" by simp
    from Cons.IH [OF this] obtain result where
      "PlanAlterTableStmt_columnConstraints cat stmt rest right =
         Inr (result,
              case (case find (\<lambda>constraint. contype constraint = CONSTR_FOREIGN) rest of
                      None \<Rightarrow> None
                    | Some constraint \<Rightarrow> map_option (RangeVarRelid cat) (pktable constraint)) of
                None \<Rightarrow> right
              | Some resolved \<Rightarrow> resolved)"
      and "list_all (referencedExists cat) result" by blast
    with False Cons.prems show ?thesis by simp
  qed
qed

lemma Plan_resolve_total:
  assumes "resolvesRelations cat c"
    and "subtype c \<noteq> AT_AttachPartition"
  shows "\<exists>c'. PlanAlterTableStmt_resolve cat stmt c right =
           Inr (PlanContinue c'
                  (case rightRelationOf cat c of None \<Rightarrow> right | Some resolved \<Rightarrow> resolved)) \<and>
         resolvesRelations cat c'"
proof (cases "subtype c = AT_AddColumn")
  case True
  with assms(1) obtain columnDefinition where
    node: "cmd_def c = ColumnDefNode columnDefinition" and
    all: "list_all (referencedExists cat) (constraints columnDefinition)"
    by (auto simp add: resolvesRelations_def split: Node.splits)
  from Plan_columnConstraints_total [OF all, of stmt right] obtain result where
    run: "PlanAlterTableStmt_columnConstraints cat stmt (constraints columnDefinition) right =
       Inr (result,
            case (case find (\<lambda>constraint. contype constraint = CONSTR_FOREIGN)
                         (constraints columnDefinition) of
                    None \<Rightarrow> None
                  | Some constraint \<Rightarrow> map_option (RangeVarRelid cat) (pktable constraint)) of
              None \<Rightarrow> right
            | Some resolved \<Rightarrow> resolved)"
    and result: "list_all (referencedExists cat) result" by blast
  from True node run result show ?thesis
    by (simp add: PlanAlterTableStmt_resolve_def castColumnDef_def rightRelationOf_def
        resolvesRelations_def)
next
  case False
  show ?thesis
  proof (cases "subtype c = AT_AddConstraint")
    case True
    with assms(1) obtain constraint where
      node: "cmd_def c = ConstraintNode constraint" and
      exists: "referencedExists cat constraint"
      by (auto simp add: resolvesRelations_def split: Node.splits)
    show ?thesis
    proof (cases "contype constraint = CONSTR_FOREIGN")
      case foreign: True
      from referencedExists_foreign_key [OF exists foreign, of "missing_ok stmt"]
      obtain referenced where "pktable constraint = Some referenced"
        and "RangeVarGetRelid cat referenced (missing_ok stmt) =
          Inr (RangeVarRelid cat referenced)" by blast
      with True node exists foreign show ?thesis
        by (simp add: PlanAlterTableStmt_resolve_def castConstraint_def rightRelationOf_def
            resolvesRelations_def referencedExists_skip_validation)
    next
      case other: False
      with True node assms(1) show ?thesis
        by (simp add: PlanAlterTableStmt_resolve_def castConstraint_def rightRelationOf_def)
    qed
  next
    case other: False
    show ?thesis
    proof (cases "subtype c = AT_DetachPartition")
      case True
      with assms(1) obtain partitionCmd where
        "cmd_def c = PartitionCmdNode partitionCmd" and
        "OidIsValid (RangeVarRelid cat (pc_name partitionCmd))"
        by (auto simp add: resolvesRelations_def resolvesPartition_def split: Node.splits)
      with True assms(1) show ?thesis
        by (simp add: PlanAlterTableStmt_resolve_def castPartitionCmd_def rightRelationOf_def
            RangeVarGetRelid_def)
    next
      case False
      with \<open>subtype c \<noteq> AT_AddColumn\<close> other assms show ?thesis
        by (simp add: PlanAlterTableStmt_resolve_def rightRelationOf_def)
    qed
  qed
qed

lemma Setup_columnConstraints_total:
  "list_all (referencedExists cat) columnConstraints \<Longrightarrow>
   \<exists>result. SetupExecutionModeForAlterTable_columnConstraints cat columnConstraints flag =
     Inr result"
proof (induction columnConstraints arbitrary: flag)
  case Nil
  then show ?case by simp
next
  case (Cons constraint rest)
  from Cons.prems have rest: "list_all (referencedExists cat) rest" by simp
  show ?case
  proof (cases "contype constraint = CONSTR_FOREIGN")
    case True
    from Cons.prems have "referencedExists cat constraint" by simp
    from referencedExists_foreign_key [OF this True, of False]
    obtain referenced where "pktable constraint = Some referenced"
      and "RangeVarGetRelid cat referenced False = Inr (RangeVarRelid cat referenced)"
      by blast
    with True Cons.IH [OF rest] show ?thesis by simp
  next
    case False
    with Cons.IH [OF rest] show ?thesis by simp
  qed
qed

lemma Setup_decide_total:
  assumes "resolvesRelations cat c"
  shows "\<exists>flag st'. SetupExecutionModeForAlterTable_decide cat leftRelationId c st =
     Inr (flag, st')"
proof (cases "subtype c = AT_AddColumn")
  case True
  with assms obtain columnDefinition where
    node: "cmd_def c = ColumnDefNode columnDefinition" and
    all: "list_all (referencedExists cat) (constraints columnDefinition)"
    by (auto simp add: resolvesRelations_def split: Node.splits)
  from Setup_columnConstraints_total [OF all, of False] True node show ?thesis
    by (auto simp add: SetupExecutionModeForAlterTable_decide_def castColumnDef_def)
next
  case False
  show ?thesis
  proof (cases "subtype c = AT_AddConstraint")
    case True
    with assms obtain constraint where
      node: "cmd_def c = ConstraintNode constraint" and
      exists: "referencedExists cat constraint"
      by (auto simp add: resolvesRelations_def split: Node.splits)
    show ?thesis
    proof (cases "contype constraint = CONSTR_FOREIGN")
      case foreign: True
      from referencedExists_foreign_key [OF exists foreign, of False]
      obtain referenced where "pktable constraint = Some referenced"
        and "RangeVarGetRelid cat referenced False = Inr (RangeVarRelid cat referenced)"
        by blast
      with True node foreign show ?thesis
        by (auto simp add: SetupExecutionModeForAlterTable_decide_def castConstraint_def)
    next
      case other: False
      with True node show ?thesis
        by (auto simp add: SetupExecutionModeForAlterTable_decide_def castConstraint_def)
    qed
  next
    case other: False
    with \<open>subtype c \<noteq> AT_AddColumn\<close> show ?thesis
      by (auto simp add: SetupExecutionModeForAlterTable_decide_def Let_def)
  qed
qed

lemma Setup_total:
  assumes "resolvesRelations cat c"
  shows "\<exists>st'. ParallelQueryExecutedInTransaction st' = ParallelQueryExecutedInTransaction st \<and>
     SetupExecutionModeForAlterTable cat leftRelationId c st =
       (if ConflictsWithParallelOperation cat leftRelationId [c] st
        then Inl (ParallelOperationInTransactionError (get_rel_name cat leftRelationId))
        else Inr (RequiresSequentialExecution cat leftRelationId c, st'))"
proof -
  from Setup_decide_total [OF assms] obtain flag st' where
    decide: "SetupExecutionModeForAlterTable_decide cat leftRelationId c st = Inr (flag, st')"
    by blast
  from Setup_decide_flag [OF decide]
  have flag: "flag = RequiresSequentialExecution cat leftRelationId c" .
  from Setup_decide_parallel [OF decide]
  have same: "ParallelQueryExecutedInTransaction st' = ParallelQueryExecutedInTransaction st" .
  from decide flag same
  have "SetupExecutionModeForAlterTable cat leftRelationId c st =
       (if ConflictsWithParallelOperation cat leftRelationId [c] st
        then Inl (ParallelOperationInTransactionError (get_rel_name cat leftRelationId))
        else Inr (RequiresSequentialExecution cat leftRelationId c, st'))"
    by (simp add: SetupExecutionModeForAlterTable_def ConflictsWithParallelOperation_def)
  with same show ?thesis by blast
qed

lemma ConflictsWithParallelOperation_Cons:
  "ParallelQueryExecutedInTransaction st' = ParallelQueryExecutedInTransaction st \<Longrightarrow>
   ConflictsWithParallelOperation cat leftRelationId (c # rest) st =
     (ConflictsWithParallelOperation cat leftRelationId [c] st \<or>
      ConflictsWithParallelOperation cat leftRelationId rest st')"
  by (auto simp add: ConflictsWithParallelOperation_def)

lemma Plan_foreach_total:
  assumes "\<forall>c \<in> set commandList. resolvesRelations cat c \<and> subtype c \<noteq> AT_AttachPartition"
  shows "if ConflictsWithParallelOperation cat leftRelationId commandList st
         then PlanAlterTableStmt_foreach cat stmt leftRelationId commandList processed right
                flag st =
                Inl (ParallelOperationInTransactionError (get_rel_name cat leftRelationId))
         else (\<exists>processed' st'.
                 PlanAlterTableStmt_foreach cat stmt leftRelationId commandList processed right
                   flag st =
                   Inr (LoopDone processed' (rightRelation cat commandList right)
                          (flag \<or> list_ex (RequiresSequentialExecution cat leftRelationId)
                                    commandList) st'))"
  using assms
proof (induction commandList arbitrary: processed right flag st)
  case Nil
  then show ?case by (simp add: ConflictsWithParallelOperation_def)
next
  case (Cons c rest)
  from Cons.prems have c: "resolvesRelations cat c" "subtype c \<noteq> AT_AttachPartition"
    and rest: "\<forall>c \<in> set rest. resolvesRelations cat c \<and> subtype c \<noteq> AT_AttachPartition"
    by simp_all
  let ?right = "case rightRelationOf cat c of None \<Rightarrow> right | Some resolved \<Rightarrow> resolved"
  from Plan_resolve_total [OF c, of stmt right] obtain c' where
    resolve: "PlanAlterTableStmt_resolve cat stmt c right = Inr (PlanContinue c' ?right)" and
    c': "resolvesRelations cat c'" by blast
  from Plan_resolve_same [OF resolve]
  have same: "RequiresSequentialExecution cat leftRelationId c' =
      RequiresSequentialExecution cat leftRelationId c" .
  then have conflict: "ConflictsWithParallelOperation cat leftRelationId [c'] st =
      ConflictsWithParallelOperation cat leftRelationId [c] st"
    by (simp add: ConflictsWithParallelOperation_def)
  from Setup_total [OF c', of st leftRelationId] same conflict obtain st1 where
    parallel: "ParallelQueryExecutedInTransaction st1 = ParallelQueryExecutedInTransaction st"
    and mode: "SetupExecutionModeForAlterTable cat leftRelationId c' st =
       (if ConflictsWithParallelOperation cat leftRelationId [c] st
        then Inl (ParallelOperationInTransactionError (get_rel_name cat leftRelationId))
        else Inr (RequiresSequentialExecution cat leftRelationId c, st1))"
    by auto
  note parts = ConflictsWithParallelOperation_Cons [OF parallel, of cat leftRelationId c rest]
  show ?case
  proof (cases "ConflictsWithParallelOperation cat leftRelationId [c] st")
    case True
    with resolve mode parts show ?thesis by simp
  next
    case False
    with resolve mode
    have step: "PlanAlterTableStmt_foreach cat stmt leftRelationId (c # rest) processed right
        flag st =
        PlanAlterTableStmt_foreach cat stmt leftRelationId rest (processed @ [c']) ?right
          (flag \<or> RequiresSequentialExecution cat leftRelationId c) st1"
      by simp
    from Cons.IH [OF rest, of st1 "processed @ [c']" ?right
        "flag \<or> RequiresSequentialExecution cat leftRelationId c"]
    show ?thesis unfolding step using False parts by auto
  qed
qed

text \<open>
  C10, as amended. For an \<^verbatim>\<open>ALTER TABLE\<close> on a distributed table that passes the
  validator, whose sub-commands name relations that exist and whose right-hand relation
  exists and is not distributed: without an \<^verbatim>\<open>ATTACH PARTITION\<close>,
  \<^verbatim>\<open>PlanAlterTableStmt\<close> either raises the conflicting-execution-mode error, exactly
  when a sub-command needs sequential execution on a table that is not a reference table
  after a parallel operation in the transaction, or returns exactly one job, whose task
  list is empty. A foreign key to such a relation and the \<^verbatim>\<open>DETACH PARTITION\<close> of such
  a partition, as the only sub-command, are always planned to that one job, without any
  error. For the \<^verbatim>\<open>ATTACH PARTITION\<close> of a partition that exists and is not
  distributed the function returns no job at all.
\<close>

theorem PlanAlterTableStmt_right_relation_not_distributed:
  assumes "AlterTableLookupRelation cat stmt = Inr leftRelationId"
    and "OidIsValid leftRelationId"
    and "get_rel_relkind cat leftRelationId \<noteq> RELKIND_INDEX"
    and "IsDistributedTable cat leftRelationId"
    and "ErrorIfUnsupportedAlterTableStmt cat stmt st = Inr st1"
  shows "((\<forall>command \<in> set (cmds stmt).
             resolvesRelations cat command \<and> subtype command \<noteq> AT_AttachPartition) \<and>
          OidIsValid (rightRelation cat (cmds stmt) InvalidOid) \<and>
          \<not> IsDistributedTable cat (rightRelation cat (cmds stmt) InvalidOid) \<longrightarrow>
          (if ConflictsWithParallelOperation cat leftRelationId (cmds stmt) st
           then PlanAlterTableStmt cat stmt alterTableCommand st =
                  Inl (ParallelOperationInTransactionError (get_rel_name cat leftRelationId)) \<and>
                ConflictingExecutionMode
                  (ParallelOperationInTransactionError (get_rel_name cat leftRelationId))
           else (\<exists>stmt' st2.
                   PlanAlterTableStmt cat stmt alterTableCommand st =
                     Inr ([\<lparr>targetRelationId = leftRelationId, concurrentIndexCmd = False,
                             executeSequentially =
                               list_ex (RequiresSequentialExecution cat leftRelationId)
                                 (cmds stmt),
                             commandString = alterTableCommand, taskList = []\<rparr>],
                          stmt', st2)))) \<and>
         (\<forall>command constraint referenced.
            cmds stmt = [command] \<and> subtype command = AT_AddConstraint \<and>
            cmd_def command = ConstraintNode constraint \<and>
            contype constraint = CONSTR_FOREIGN \<and> pktable constraint = Some referenced \<and>
            OidIsValid (RangeVarRelid cat referenced) \<and>
            \<not> IsDistributedTable cat (RangeVarRelid cat referenced) \<longrightarrow>
            PlanAlterTableStmt cat stmt alterTableCommand st =
              Inr ([\<lparr>targetRelationId = leftRelationId, concurrentIndexCmd = False,
                      executeSequentially = False, commandString = alterTableCommand,
                      taskList = []\<rparr>],
                   stmt\<lparr>cmds := [command\<lparr>cmd_def :=
                     ConstraintNode (constraint\<lparr>skip_validation := True\<rparr>)\<rparr>]\<rparr>, st1)) \<and>
         (\<forall>command partitionCmd.
            cmds stmt = [command] \<and> subtype command = AT_DetachPartition \<and>
            cmd_def command = PartitionCmdNode partitionCmd \<and>
            OidIsValid (RangeVarRelid cat (pc_name partitionCmd)) \<and>
            \<not> IsDistributedTable cat (RangeVarRelid cat (pc_name partitionCmd)) \<longrightarrow>
            PlanAlterTableStmt cat stmt alterTableCommand st =
              Inr ([\<lparr>targetRelationId = leftRelationId, concurrentIndexCmd = False,
                      executeSequentially = False, commandString = alterTableCommand,
                      taskList = []\<rparr>], stmt\<lparr>cmds := [command]\<rparr>, st1)) \<and>
         (\<forall>command partitionCmd rest.
            cmds stmt = command # rest \<and> subtype command = AT_AttachPartition \<and>
            cmd_def command = PartitionCmdNode partitionCmd \<and>
            OidIsValid (RangeVarRelid cat (pc_name partitionCmd)) \<and>
            \<not> IsDistributedTable cat (RangeVarRelid cat (pc_name partitionCmd)) \<longrightarrow>
            PlanAlterTableStmt cat stmt alterTableCommand st =
              Inr ([], stmt\<lparr>cmds := command # rest\<rparr>, st1))"
proof (intro conjI allI impI)
  let ?err = "ParallelOperationInTransactionError (get_rel_name cat leftRelationId)"
  let ?right = "rightRelation cat (cmds stmt) InvalidOid"
  let ?flag = "list_ex (RequiresSequentialExecution cat leftRelationId) (cmds stmt)"
  assume a: "(\<forall>command \<in> set (cmds stmt).
        resolvesRelations cat command \<and> subtype command \<noteq> AT_AttachPartition) \<and>
      OidIsValid ?right \<and> \<not> IsDistributedTable cat ?right"
  then have all: "\<forall>command \<in> set (cmds stmt).
      resolvesRelations cat command \<and> subtype command \<noteq> AT_AttachPartition"
    and right: "?right \<noteq> 0" "\<not> IsDistributedTable cat ?right"
    by (simp_all add: OidIsValid_def InvalidOid_def)
  from foreach_parallel [of cat stmt "cmds stmt" st st1] assms(5)
  have "ParallelQueryExecutedInTransaction st1 = ParallelQueryExecutedInTransaction st"
    by (simp add: ErrorIfUnsupportedAlterTableStmt_def)
  then have same: "ConflictsWithParallelOperation cat leftRelationId (cmds stmt) st1 =
      ConflictsWithParallelOperation cat leftRelationId (cmds stmt) st"
    by (simp add: ConflictsWithParallelOperation_def)
  note loop = Plan_foreach_total [OF all, of leftRelationId st1 stmt "[]" InvalidOid False]
  show "if ConflictsWithParallelOperation cat leftRelationId (cmds stmt) st
      then PlanAlterTableStmt cat stmt alterTableCommand st = Inl ?err \<and>
           ConflictingExecutionMode ?err
      else (\<exists>stmt' st2.
              PlanAlterTableStmt cat stmt alterTableCommand st =
                Inr ([\<lparr>targetRelationId = leftRelationId, concurrentIndexCmd = False,
                        executeSequentially = ?flag,
                        commandString = alterTableCommand, taskList = []\<rparr>],
                     stmt', st2))"
  proof (cases "ConflictsWithParallelOperation cat leftRelationId (cmds stmt) st")
    case True
    with loop same
    have "PlanAlterTableStmt_foreach cat stmt leftRelationId (cmds stmt) [] InvalidOid False
        st1 = Inl ?err" by simp
    with True show ?thesis by (simp add: Plan_after_validation [OF assms])
  next
    case False
    with loop same obtain processed' st2 where
      "PlanAlterTableStmt_foreach cat stmt leftRelationId (cmds stmt) [] InvalidOid False
         st1 = Inr (LoopDone processed' ?right ?flag st2)" by auto
    with False right show ?thesis by (simp add: Plan_after_validation [OF assms])
  qed
next
  fix command constraint referenced
  assume a: "cmds stmt = [command] \<and> subtype command = AT_AddConstraint \<and>
      cmd_def command = ConstraintNode constraint \<and>
      contype constraint = CONSTR_FOREIGN \<and> pktable constraint = Some referenced \<and>
      OidIsValid (RangeVarRelid cat referenced) \<and>
      \<not> IsDistributedTable cat (RangeVarRelid cat referenced)"
  let ?command = "command\<lparr>cmd_def := ConstraintNode (constraint\<lparr>skip_validation := True\<rparr>)\<rparr>"
  from a have "PlanAlterTableStmt_resolve cat stmt command InvalidOid =
      Inr (PlanContinue ?command (RangeVarRelid cat referenced))"
    by (simp add: PlanAlterTableStmt_resolve_def castConstraint_def RangeVarGetRelid_def)
  moreover from a
  have "SetupExecutionModeForAlterTable cat leftRelationId ?command st1 = Inr (False, st1)"
    using Setup_foreign_key_to_local [of ?command "constraint\<lparr>skip_validation := True\<rparr>"
        referenced cat leftRelationId st1] by simp
  ultimately show "PlanAlterTableStmt cat stmt alterTableCommand st =
      Inr ([\<lparr>targetRelationId = leftRelationId, concurrentIndexCmd = False,
              executeSequentially = False, commandString = alterTableCommand,
              taskList = []\<rparr>], stmt\<lparr>cmds := [?command]\<rparr>, st1)"
    using a by (simp add: Plan_after_validation [OF assms] OidIsValid_def InvalidOid_def)
next
  fix command partitionCmd
  assume a: "cmds stmt = [command] \<and> subtype command = AT_DetachPartition \<and>
      cmd_def command = PartitionCmdNode partitionCmd \<and>
      OidIsValid (RangeVarRelid cat (pc_name partitionCmd)) \<and>
      \<not> IsDistributedTable cat (RangeVarRelid cat (pc_name partitionCmd))"
  then have "PlanAlterTableStmt_resolve cat stmt command InvalidOid =
      Inr (PlanContinue command (RangeVarRelid cat (pc_name partitionCmd)))"
    by (simp add: PlanAlterTableStmt_resolve_def castPartitionCmd_def RangeVarGetRelid_def)
  moreover from a
  have "SetupExecutionModeForAlterTable cat leftRelationId command st1 = Inr (False, st1)"
    by (simp add: Setup_no_reference)
  ultimately show "PlanAlterTableStmt cat stmt alterTableCommand st =
      Inr ([\<lparr>targetRelationId = leftRelationId, concurrentIndexCmd = False,
              executeSequentially = False, commandString = alterTableCommand,
              taskList = []\<rparr>], stmt\<lparr>cmds := [command]\<rparr>, st1)"
    using a by (simp add: Plan_after_validation [OF assms] OidIsValid_def InvalidOid_def)
next
  fix command partitionCmd rest
  assume a: "cmds stmt = command # rest \<and> subtype command = AT_AttachPartition \<and>
      cmd_def command = PartitionCmdNode partitionCmd \<and>
      OidIsValid (RangeVarRelid cat (pc_name partitionCmd)) \<and>
      \<not> IsDistributedTable cat (RangeVarRelid cat (pc_name partitionCmd))"
  then have "PlanAlterTableStmt_resolve cat stmt command InvalidOid = Inr PlanReturnNIL"
    by (simp add: PlanAlterTableStmt_resolve_def castPartitionCmd_def RangeVarGetRelid_def)
  with a show "PlanAlterTableStmt cat stmt alterTableCommand st =
      Inr ([], stmt\<lparr>cmds := command # rest\<rparr>, st1)"
    by (simp add: Plan_after_validation [OF assms])
qed


theorem PlanAlterTableStmt_right_relation_not_distributed_witness:
  "AlterTableLookupRelation sampleCatalog
     (alterTable ''orders'' [addForeignKey ''local_table'']) = Inr 16385 \<and>
   OidIsValid 16385 \<and>
   get_rel_relkind sampleCatalog 16385 \<noteq> RELKIND_INDEX \<and>
   IsDistributedTable sampleCatalog 16385 \<and>
   ErrorIfUnsupportedAlterTableStmt sampleCatalog
     (alterTable ''orders'' [addForeignKey ''local_table'']) idleState = Inr idleState \<and>
   OidIsValid (RangeVarRelid sampleCatalog \<lparr>schemaname = None, relname = ''local_table''\<rparr>) \<and>
   \<not> IsDistributedTable sampleCatalog
       (RangeVarRelid sampleCatalog \<lparr>schemaname = None, relname = ''local_table''\<rparr>) \<and>
   (\<exists>stmt'. PlanAlterTableStmt sampleCatalog
        (alterTable ''orders'' [addForeignKey ''local_table''])
        ''ALTER TABLE orders ADD CONSTRAINT fk1 FOREIGN KEY (id) REFERENCES local_table''
        idleState =
      Inr ([\<lparr>targetRelationId = 16385, concurrentIndexCmd = False,
              executeSequentially = False,
              commandString =
                ''ALTER TABLE orders ADD CONSTRAINT fk1 FOREIGN KEY (id) REFERENCES local_table'',
              taskList = []\<rparr>], stmt', idleState)) \<and>
   (\<exists>stmt'. PlanAlterTableStmt sampleCatalog
        (alterTable ''orders'' [partitionCommand AT_DetachPartition ''orders_2020''])
        ''ALTER TABLE orders DETACH PARTITION orders_2020'' idleState =
      Inr ([\<lparr>targetRelationId = 16385, concurrentIndexCmd = False,
              executeSequentially = False,
              commandString = ''ALTER TABLE orders DETACH PARTITION orders_2020'',
              taskList = []\<rparr>], stmt', idleState)) \<and>
   resolvesRelations sampleCatalog (addColumn [''local_table'', ''warehouses'']) \<and>
   rightRelation sampleCatalog [addColumn [''local_table'', ''warehouses'']] InvalidOid =
     16400 \<and>
   OidIsValid 16400 \<and>
   \<not> IsDistributedTable sampleCatalog 16400 \<and>
   ErrorIfUnsupportedAlterTableStmt sampleCatalog
     (alterTable ''orders'' [addColumn [''local_table'', ''warehouses'']]) idleState =
     Inr idleState \<and>
   (\<exists>stmt' st2. PlanAlterTableStmt sampleCatalog
        (alterTable ''orders'' [addColumn [''local_table'', ''warehouses'']])
        ''ALTER TABLE orders ADD COLUMN w int REFERENCES local_table REFERENCES warehouses''
        idleState =
      Inr ([\<lparr>targetRelationId = 16385, concurrentIndexCmd = False,
              executeSequentially = True,
              commandString =
                ''ALTER TABLE orders ADD COLUMN w int REFERENCES local_table REFERENCES warehouses'',
              taskList = []\<rparr>], stmt', st2)) \<and>
   ErrorIfUnsupportedAlterTableStmt sampleCatalog
     (alterTable ''orders'' [addColumn [''local_table'', ''warehouses'']]) busyState =
     Inr busyState \<and>
   PlanAlterTableStmt sampleCatalog
     (alterTable ''orders'' [addColumn [''local_table'', ''warehouses'']])
     ''ALTER TABLE orders ADD COLUMN w int REFERENCES local_table REFERENCES warehouses''
     busyState =
     Inl (ParallelOperationInTransactionError (Some ''orders''))"
proof -
  let ?fk = "alterTable ''orders'' [addForeignKey ''local_table'']"
  let ?detach = "alterTable ''orders'' [partitionCommand AT_DetachPartition ''orders_2020'']"
  let ?local = "\<lparr>schemaname = None, relname = ''local_table''\<rparr>"
  let ?partition = "\<lparr>schemaname = None, relname = ''orders_2020''\<rparr>"
  let ?constraint = "\<lparr>contype = CONSTR_FOREIGN, conname = Some ''fk1'',
      pktable = Some ?local, skip_validation = False\<rparr>"
  have lookup: "AlterTableLookupRelation sampleCatalog (alterTable ''orders'' commandList) =
      Inr 16385" for commandList
    by (simp add: AlterTableLookupRelation_def RangeVarGetRelid_def sample_defs)
  have valid: "OidIsValid 16385" by (simp add: sample_defs)
  have kind: "get_rel_relkind sampleCatalog 16385 \<noteq> RELKIND_INDEX" by (simp add: sample_defs)
  have dist: "IsDistributedTable sampleCatalog 16385" by (simp add: sample_defs)
  have ok1: "ErrorIfUnsupportedAlterTableStmt sampleCatalog ?fk idleState = Inr idleState"
    by (simp add: ErrorIfUnsupportedAlterTableStmt_def
        ErrorIfUnsupportedAlterTableStmt_switch_def castConstraint_def alterTable_def
        addForeignKey_def)
  have ok2: "ErrorIfUnsupportedAlterTableStmt sampleCatalog ?detach idleState = Inr idleState"
    by (simp add: ErrorIfUnsupportedAlterTableStmt_def
        ErrorIfUnsupportedAlterTableStmt_switch_def alterTable_def partitionCommand_def)
  have right1: "OidIsValid (RangeVarRelid sampleCatalog ?local)"
    and right2: "\<not> IsDistributedTable sampleCatalog (RangeVarRelid sampleCatalog ?local)"
    by (simp_all add: sample_defs)
  have fk: "cmds ?fk = [addForeignKey ''local_table''] \<and>
      subtype (addForeignKey ''local_table'') = AT_AddConstraint \<and>
      cmd_def (addForeignKey ''local_table'') = ConstraintNode ?constraint \<and>
      contype ?constraint = CONSTR_FOREIGN \<and> pktable ?constraint = Some ?local"
    by (simp add: alterTable_def addForeignKey_def)
  from PlanAlterTableStmt_right_relation_not_distributed [OF lookup valid kind dist ok1]
    fk right1 right2
  have r1: "\<exists>stmt'. PlanAlterTableStmt sampleCatalog ?fk
      ''ALTER TABLE orders ADD CONSTRAINT fk1 FOREIGN KEY (id) REFERENCES local_table''
      idleState =
      Inr ([\<lparr>targetRelationId = 16385, concurrentIndexCmd = False,
              executeSequentially = False,
              commandString =
                ''ALTER TABLE orders ADD CONSTRAINT fk1 FOREIGN KEY (id) REFERENCES local_table'',
              taskList = []\<rparr>], stmt', idleState)"
    by blast
  have detach: "cmds ?detach = [partitionCommand AT_DetachPartition ''orders_2020''] \<and>
      subtype (partitionCommand AT_DetachPartition ''orders_2020'') = AT_DetachPartition \<and>
      cmd_def (partitionCommand AT_DetachPartition ''orders_2020'') =
        PartitionCmdNode \<lparr>pc_name = ?partition\<rparr> \<and>
      OidIsValid (RangeVarRelid sampleCatalog (pc_name \<lparr>pc_name = ?partition\<rparr>)) \<and>
      \<not> IsDistributedTable sampleCatalog
          (RangeVarRelid sampleCatalog (pc_name \<lparr>pc_name = ?partition\<rparr>))"
    by (simp add: sample_defs)
  from PlanAlterTableStmt_right_relation_not_distributed [OF lookup valid kind dist ok2]
    detach
  have r2: "\<exists>stmt'. PlanAlterTableStmt sampleCatalog ?detach
      ''ALTER TABLE orders DETACH PARTITION orders_2020'' idleState =
      Inr ([\<lparr>targetRelationId = 16385, concurrentIndexCmd = False,
              executeSequentially = False,
              commandString = ''ALTER TABLE orders DETACH PARTITION orders_2020'',
              taskList = []\<rparr>], stmt', idleState)"
    by blast
  let ?column = "addColumn [''local_table'', ''warehouses'']"
  let ?add = "alterTable ''orders'' [?column]"
  let ?text =
    "''ALTER TABLE orders ADD COLUMN w int REFERENCES local_table REFERENCES warehouses''"
  have ok3: "ErrorIfUnsupportedAlterTableStmt sampleCatalog ?add idleState = Inr idleState"
    and ok4: "ErrorIfUnsupportedAlterTableStmt sampleCatalog ?add busyState = Inr busyState"
    by (simp_all add: ErrorIfUnsupportedAlterTableStmt_def
        ErrorIfUnsupportedAlterTableStmt_switch_def alterTable_def addColumn_def
        IsSerialPseudotype_def)
  have resolves: "resolvesRelations sampleCatalog ?column"
    by (simp add: resolvesRelations_def referencedExists_def addColumn_def sample_defs)
  have kind3: "subtype ?column \<noteq> AT_AttachPartition" by (simp add: addColumn_def)
  have commands: "cmds ?add = [?column]" by (simp add: alterTable_def)
  from resolves kind3 commands
  have all: "\<forall>command \<in> set (cmds ?add).
      resolvesRelations sampleCatalog command \<and> subtype command \<noteq> AT_AttachPartition"
    by simp
  have right3: "rightRelation sampleCatalog [?column] InvalidOid = 16400"
    by (simp add: rightRelationOf_def addColumn_def sample_defs)
  have valid3: "OidIsValid 16400" by (simp add: sample_defs)
  have local3: "\<not> IsDistributedTable sampleCatalog 16400" by (simp add: sample_defs)
  have needed: "list_ex (RequiresSequentialExecution sampleCatalog 16385) (cmds ?add)"
    by (simp add: RequiresSequentialExecution_def ReferencesReferenceTable_def addColumn_def
        sample_defs)
  from needed have free: "\<not> ConflictsWithParallelOperation sampleCatalog 16385 (cmds ?add)
      idleState"
    and busy: "ConflictsWithParallelOperation sampleCatalog 16385 (cmds ?add) busyState"
    by (simp_all add: ConflictsWithParallelOperation_def sample_defs)
  have orders: "get_rel_name sampleCatalog 16385 = Some ''orders''" by (simp add: sample_defs)
  from all right3 valid3 local3 commands
  have premise: "(\<forall>command \<in> set (cmds ?add).
        resolvesRelations sampleCatalog command \<and> subtype command \<noteq> AT_AttachPartition) \<and>
      OidIsValid (rightRelation sampleCatalog (cmds ?add) InvalidOid) \<and>
      \<not> IsDistributedTable sampleCatalog (rightRelation sampleCatalog (cmds ?add) InvalidOid)"
    by simp
  from PlanAlterTableStmt_right_relation_not_distributed [OF lookup valid kind dist ok3,
      where alterTableCommand = ?text] premise
  have "if ConflictsWithParallelOperation sampleCatalog 16385 (cmds ?add) idleState
      then PlanAlterTableStmt sampleCatalog ?add ?text idleState =
             Inl (ParallelOperationInTransactionError (get_rel_name sampleCatalog 16385)) \<and>
           ConflictingExecutionMode
             (ParallelOperationInTransactionError (get_rel_name sampleCatalog 16385))
      else (\<exists>stmt' st2.
              PlanAlterTableStmt sampleCatalog ?add ?text idleState =
                Inr ([\<lparr>targetRelationId = 16385, concurrentIndexCmd = False,
                        executeSequentially =
                          list_ex (RequiresSequentialExecution sampleCatalog 16385)
                            (cmds ?add),
                        commandString = ?text, taskList = []\<rparr>],
                     stmt', st2))"
    by blast
  with free needed
  have r3: "\<exists>stmt' st2. PlanAlterTableStmt sampleCatalog ?add ?text idleState =
      Inr ([\<lparr>targetRelationId = 16385, concurrentIndexCmd = False,
              executeSequentially = True, commandString = ?text, taskList = []\<rparr>],
           stmt', st2)"
    by simp
  from PlanAlterTableStmt_right_relation_not_distributed [OF lookup valid kind dist ok4,
      where alterTableCommand = ?text] premise
  have "if ConflictsWithParallelOperation sampleCatalog 16385 (cmds ?add) busyState
      then PlanAlterTableStmt sampleCatalog ?add ?text busyState =
             Inl (ParallelOperationInTransactionError (get_rel_name sampleCatalog 16385)) \<and>
           ConflictingExecutionMode
             (ParallelOperationInTransactionError (get_rel_name sampleCatalog 16385))
      else (\<exists>stmt' st2.
              PlanAlterTableStmt sampleCatalog ?add ?text busyState =
                Inr ([\<lparr>targetRelationId = 16385, concurrentIndexCmd = False,
                        executeSequentially =
                          list_ex (RequiresSequentialExecution sampleCatalog 16385)
                            (cmds ?add),
                        commandString = ?text, taskList = []\<rparr>],
                     stmt', st2))"
    by blast
  with busy orders
  have r4: "PlanAlterTableStmt sampleCatalog ?add ?text busyState =
      Inl (ParallelOperationInTransactionError (Some ''orders''))"
    by simp
  from lookup valid kind dist ok1 right1 right2 r1 r2 resolves right3 valid3 local3 ok3 r3
    ok4 r4
  show ?thesis by blast
qed

text \<open>
  The claim C10 as stated fails, in three ways. \<^verbatim>\<open>ALTER TABLE orders ATTACH PARTITION
  orders_2020\<close>, where \<open>orders_2020\<close> exists and is not distributed, is planned to the
  empty list of jobs, not to one job with an empty task list. After a parallel operation
  in the transaction, \<^verbatim>\<open>ALTER TABLE orders ADD COLUMN w int REFERENCES local_table
  REFERENCES warehouses\<close>, whose right-hand relation \<open>local_table\<close> exists and is not
  distributed, passes the validator and then raises the conflicting-execution-mode error
  at planning time, for its foreign key to the reference table \<open>warehouses\<close>. And
  \<^verbatim>\<open>ALTER TABLE orders ADD COLUMN w int REFERENCES local_table REFERENCES missing\<close>,
  with the same right-hand relation, raises the undefined-relation error at planning
  time, when \<^verbatim>\<open>SetupExecutionModeForAlterTable\<close> looks up the second referenced
  table, which does not exist.
\<close>

theorem no_job_or_planning_error_counterexample:
  "IsDistributedTable sampleCatalog
     (RangeVarRelid sampleCatalog \<lparr>schemaname = None, relname = ''orders''\<rparr>) \<and>
   OidIsValid (RangeVarRelid sampleCatalog \<lparr>schemaname = None, relname = ''orders_2020''\<rparr>) \<and>
   \<not> IsDistributedTable sampleCatalog
       (RangeVarRelid sampleCatalog \<lparr>schemaname = None, relname = ''orders_2020''\<rparr>) \<and>
   (\<exists>stmt' st'.
      PlanAlterTableStmt sampleCatalog
        (alterTable ''orders'' [partitionCommand AT_AttachPartition ''orders_2020''])
        ''ALTER TABLE orders ATTACH PARTITION orders_2020 DEFAULT'' idleState =
      Inr ([], stmt', st')) \<and>
   OidIsValid (RangeVarRelid sampleCatalog \<lparr>schemaname = None, relname = ''local_table''\<rparr>) \<and>
   \<not> IsDistributedTable sampleCatalog
       (RangeVarRelid sampleCatalog \<lparr>schemaname = None, relname = ''local_table''\<rparr>) \<and>
   rightRelation sampleCatalog [addColumn [''local_table'', ''warehouses'']] InvalidOid =
     RangeVarRelid sampleCatalog \<lparr>schemaname = None, relname = ''local_table''\<rparr> \<and>
   ParallelQueryExecutedInTransaction busyState \<and>
   ErrorIfUnsupportedAlterTableStmt sampleCatalog
     (alterTable ''orders'' [addColumn [''local_table'', ''warehouses'']]) busyState =
     Inr busyState \<and>
   PlanAlterTableStmt sampleCatalog
     (alterTable ''orders'' [addColumn [''local_table'', ''warehouses'']])
     ''ALTER TABLE orders ADD COLUMN w int REFERENCES local_table REFERENCES warehouses''
     busyState =
     Inl (ParallelOperationInTransactionError (Some ''orders'')) \<and>
   rightRelation sampleCatalog [addColumn [''local_table'', ''missing'']] InvalidOid =
     RangeVarRelid sampleCatalog \<lparr>schemaname = None, relname = ''local_table''\<rparr> \<and>
   ErrorIfUnsupportedAlterTableStmt sampleCatalog
     (alterTable ''orders'' [addColumn [''local_table'', ''missing'']]) idleState =
     Inr idleState \<and>
   PlanAlterTableStmt sampleCatalog
     (alterTable ''orders'' [addColumn [''local_table'', ''missing'']])
     ''ALTER TABLE orders ADD COLUMN w int REFERENCES local_table REFERENCES missing''
     idleState =
     Inl UndefinedTable"
  by (simp add: planner_defs sample_defs addColumn_def IsSerialPseudotype_def
      rightRelationOf_def)

subsection \<open>Constraint validation\<close>









subsection \<open>Concurrent index commands\<close>

lemma clusterCall_fst:
  "fst (clusterCall cl event st) = st\<lparr>clusterLog := clusterLog st @ [event]\<rparr>"
  by (simp add: clusterCall_def)

lemma Execute_concurrent:
  assumes "concurrentIndexCmd ddlJob" and "IsCoordinator cl"
    and "\<not> PartitionTableIsReplicated cl (targetRelationId ddlJob)"
  shows "ExecuteDistributedDDLJob cat cl ddlJob st =
     (let tasksCall = ExecuteModifyTasksSequentiallyWithoutResultsCall (taskList ddlJob);
          metadataCall = SendBareCommandListToWorkersCall WORKERS_WITH_METADATA
            ([DISABLE_DDL_PROPAGATION cl]
             @ (case SetSearchPathToCurrentSearchPathCommand cat of
                  None \<Rightarrow> [] | Some command \<Rightarrow> [command])
             @ [commandString ddlJob]);
          bare = st\<lparr>SavedMultiShardCommitProtocol := MultiShardCommitProtocol st,
                    MultiShardCommitProtocol := COMMIT_PROTOCOL_BARE\<rparr>
      in if workerCallFails cl tasksCall
         then (bare\<lparr>clusterLog := clusterLog st @ [tasksCall]\<rparr>,
               Some ConcurrentIndexCommandFailedError)
         else if ShouldSyncTableMetadata cl (targetRelationId ddlJob)
         then (bare\<lparr>clusterLog := clusterLog st @ [tasksCall, metadataCall]\<rparr>,
               if workerCallFails cl metadataCall
               then Some ConcurrentIndexCommandFailedError else None)
         else (bare\<lparr>clusterLog := clusterLog st @ [tasksCall]\<rparr>, None))"
  using assms
  by (simp add: ExecuteDistributedDDLJob_def Let_def andThen_def clusterCall_def
      ExecuteModifyTasksSequentiallyWithoutResults_def SendBareCommandListToWorkers_def)

lemma PostProcessUtility_concurrent:
  assumes "PostProcessUtility cat cl (IndexStmtNode indexStmt) st0 = Inr st"
    and "concurrent indexStmt" and "IsCoordinator cl"
  shows "indisvalid st (get_relname_relid cat (idxname indexStmt)
           (get_rel_namespace cat (RangeVarRelid cat (idx_relation indexStmt)))) = False \<and>
         indisvalidPending st (get_relname_relid cat (idxname indexStmt)
           (get_rel_namespace cat (RangeVarRelid cat (idx_relation indexStmt)))) = Some True"
proof -
  from assms obtain relationId where
    rel: "RangeVarGetRelid cat (idx_relation indexStmt) False = Inr relationId"
    by (auto simp add: PostProcessUtility_def Let_def split: sum.splits)
  then have same: "relationId = RangeVarRelid cat (idx_relation indexStmt)"
    by (simp add: RangeVarGetRelid_def Let_def split: if_splits)
  from assms rel same show ?thesis
    by (auto simp add: PostProcessUtility_def Let_def CommitTransactionCommand_def
        StartTransactionCommand_def index_set_state_flags_INDEX_DROP_CLEAR_VALID_def
        CatalogTupleUpdate_indisvalid_def split: if_splits)
qed


text \<open>
  C8. For a job flagged as a concurrent index command, run on the coordinator,
  \<^verbatim>\<open>ExecuteDistributedDDLJob\<close> ends with the error of the concurrent index command
  exactly when the execution of the shard tasks fails or the broadcast to the metadata
  workers fails; its hint tells to drop the invalid index and to retry the command. The
  tasks are executed once and the broadcast is sent at most once: nothing is retried.
  \<^verbatim>\<open>PostProcessUtility\<close>, which runs before, has cleared the validity flag of the
  local index in place and has set it again only inside the open transaction, so that
  after the failure and the abort of that transaction the index is invalid.
\<close>

theorem concurrent_index_failure:
  assumes "concurrentIndexCmd ddlJob" and "IsCoordinator cl"
    and "\<not> PartitionTableIsReplicated cl (targetRelationId ddlJob)"
  shows "snd (ExecuteDistributedDDLJob cat cl ddlJob st) =
           (if workerCallFails cl
                 (ExecuteModifyTasksSequentiallyWithoutResultsCall (taskList ddlJob))
               \<or> (ShouldSyncTableMetadata cl (targetRelationId ddlJob) \<and>
                   workerCallFails cl
                     (SendBareCommandListToWorkersCall WORKERS_WITH_METADATA
                        ([DISABLE_DDL_PROPAGATION cl]
                         @ (case SetSearchPathToCurrentSearchPathCommand cat of
                              None \<Rightarrow> [] | Some command \<Rightarrow> [command])
                         @ [commandString ddlJob])))
            then Some ConcurrentIndexCommandFailedError else None) \<and>
         errhint ConcurrentIndexCommandFailedError =
           Some (''Use DROP INDEX CONCURRENTLY IF EXISTS to remove the ''
             @ ''invalid index, then retry the original command.'') \<and>
         clusterLog (fst (ExecuteDistributedDDLJob cat cl ddlJob st)) =
           clusterLog st
           @ [ExecuteModifyTasksSequentiallyWithoutResultsCall (taskList ddlJob)]
           @ (if \<not> workerCallFails cl
                     (ExecuteModifyTasksSequentiallyWithoutResultsCall (taskList ddlJob))
                 \<and> ShouldSyncTableMetadata cl (targetRelationId ddlJob)
              then [SendBareCommandListToWorkersCall WORKERS_WITH_METADATA
                      ([DISABLE_DDL_PROPAGATION cl]
                       @ (case SetSearchPathToCurrentSearchPathCommand cat of
                            None \<Rightarrow> [] | Some command \<Rightarrow> [command])
                       @ [commandString ddlJob])]
              else []) \<and>
         indisvalid (fst (ExecuteDistributedDDLJob cat cl ddlJob st)) = indisvalid st \<and>
         indisvalidPending (fst (ExecuteDistributedDDLJob cat cl ddlJob st)) =
           indisvalidPending st \<and>
         (\<forall>indexStmt st0.
            PostProcessUtility cat cl (IndexStmtNode indexStmt) st0 = Inr st \<and>
            concurrent indexStmt \<longrightarrow>
            indisvalid st (get_relname_relid cat (idxname indexStmt)
              (get_rel_namespace cat (RangeVarRelid cat (idx_relation indexStmt)))) = False \<and>
            indisvalidPending st (get_relname_relid cat (idxname indexStmt)
              (get_rel_namespace cat (RangeVarRelid cat (idx_relation indexStmt)))) =
              Some True \<and>
            indisvalid (AbortCurrentTransaction (fst (ExecuteDistributedDDLJob cat cl ddlJob st)))
              (get_relname_relid cat (idxname indexStmt)
                 (get_rel_namespace cat (RangeVarRelid cat (idx_relation indexStmt)))) = False \<and>
            indisvalidPending
              (AbortCurrentTransaction (fst (ExecuteDistributedDDLJob cat cl ddlJob st)))
              (get_relname_relid cat (idxname indexStmt)
                 (get_rel_namespace cat (RangeVarRelid cat (idx_relation indexStmt)))) = None)"
proof -
  note run = Execute_concurrent [OF assms, of cat st]
  have error: "snd (ExecuteDistributedDDLJob cat cl ddlJob st) =
           (if workerCallFails cl
                 (ExecuteModifyTasksSequentiallyWithoutResultsCall (taskList ddlJob))
               \<or> (ShouldSyncTableMetadata cl (targetRelationId ddlJob) \<and>
                   workerCallFails cl
                     (SendBareCommandListToWorkersCall WORKERS_WITH_METADATA
                        ([DISABLE_DDL_PROPAGATION cl]
                         @ (case SetSearchPathToCurrentSearchPathCommand cat of
                              None \<Rightarrow> [] | Some command \<Rightarrow> [command])
                         @ [commandString ddlJob])))
            then Some ConcurrentIndexCommandFailedError else None)"
    by (simp add: run Let_def)
  have log: "clusterLog (fst (ExecuteDistributedDDLJob cat cl ddlJob st)) =
           clusterLog st
           @ [ExecuteModifyTasksSequentiallyWithoutResultsCall (taskList ddlJob)]
           @ (if \<not> workerCallFails cl
                     (ExecuteModifyTasksSequentiallyWithoutResultsCall (taskList ddlJob))
                 \<and> ShouldSyncTableMetadata cl (targetRelationId ddlJob)
              then [SendBareCommandListToWorkersCall WORKERS_WITH_METADATA
                      ([DISABLE_DDL_PROPAGATION cl]
                       @ (case SetSearchPathToCurrentSearchPathCommand cat of
                            None \<Rightarrow> [] | Some command \<Rightarrow> [command])
                       @ [commandString ddlJob])]
              else [])"
    by (simp add: run Let_def)
  have valid: "indisvalid (fst (ExecuteDistributedDDLJob cat cl ddlJob st)) = indisvalid st"
    and pending: "indisvalidPending (fst (ExecuteDistributedDDLJob cat cl ddlJob st)) =
        indisvalidPending st"
    by (simp_all add: run Let_def)
  have index: "indisvalid st (get_relname_relid cat (idxname indexStmt)
        (get_rel_namespace cat (RangeVarRelid cat (idx_relation indexStmt)))) = False \<and>
      indisvalidPending st (get_relname_relid cat (idxname indexStmt)
        (get_rel_namespace cat (RangeVarRelid cat (idx_relation indexStmt)))) = Some True \<and>
      indisvalid (AbortCurrentTransaction (fst (ExecuteDistributedDDLJob cat cl ddlJob st)))
        (get_relname_relid cat (idxname indexStmt)
           (get_rel_namespace cat (RangeVarRelid cat (idx_relation indexStmt)))) = False \<and>
      indisvalidPending
        (AbortCurrentTransaction (fst (ExecuteDistributedDDLJob cat cl ddlJob st)))
        (get_relname_relid cat (idxname indexStmt)
           (get_rel_namespace cat (RangeVarRelid cat (idx_relation indexStmt)))) = None"
    if "PostProcessUtility cat cl (IndexStmtNode indexStmt) st0 = Inr st \<and>
        concurrent indexStmt" for indexStmt st0
    using PostProcessUtility_concurrent [of cat cl indexStmt st0 st] that assms(2) valid
    by (simp add: AbortCurrentTransaction_def)
  have hint: "errhint ConcurrentIndexCommandFailedError =
      Some (''Use DROP INDEX CONCURRENTLY IF EXISTS to remove the ''
        @ ''invalid index, then retry the original command.'')"
    by simp
  from index have index': "\<forall>indexStmt st0.
      PostProcessUtility cat cl (IndexStmtNode indexStmt) st0 = Inr st \<and>
      concurrent indexStmt \<longrightarrow>
      indisvalid st (get_relname_relid cat (idxname indexStmt)
        (get_rel_namespace cat (RangeVarRelid cat (idx_relation indexStmt)))) = False \<and>
      indisvalidPending st (get_relname_relid cat (idxname indexStmt)
        (get_rel_namespace cat (RangeVarRelid cat (idx_relation indexStmt)))) = Some True \<and>
      indisvalid (AbortCurrentTransaction (fst (ExecuteDistributedDDLJob cat cl ddlJob st)))
        (get_relname_relid cat (idxname indexStmt)
           (get_rel_namespace cat (RangeVarRelid cat (idx_relation indexStmt)))) = False \<and>
      indisvalidPending
        (AbortCurrentTransaction (fst (ExecuteDistributedDDLJob cat cl ddlJob st)))
        (get_relname_relid cat (idxname indexStmt)
           (get_rel_namespace cat (RangeVarRelid cat (idx_relation indexStmt)))) = None"
    by blast
  show ?thesis
    by (intro conjI) (rule error hint log valid pending index')+
qed

theorem concurrent_index_failure_witness:
  "concurrentIndexCmd createIndexJob \<and> IsCoordinator brokenCluster \<and>
   \<not> PartitionTableIsReplicated brokenCluster (targetRelationId createIndexJob) \<and>
   workerCallFails brokenCluster
     (ExecuteModifyTasksSequentiallyWithoutResultsCall (taskList createIndexJob)) \<and>
   concurrent createIndexConcurrently \<and>
   PostProcessUtility sampleCatalog brokenCluster (IndexStmtNode createIndexConcurrently)
     idleState =
     Inr (CatalogTupleUpdate_indisvalid 16500 True
            (StartTransactionCommand (CommitTransactionCommand
               (index_set_state_flags_INDEX_DROP_CLEAR_VALID 16500
                  (StartTransactionCommand (CommitTransactionCommand idleState)))))) \<and>
   get_relname_relid sampleCatalog (idxname createIndexConcurrently)
     (get_rel_namespace sampleCatalog
        (RangeVarRelid sampleCatalog (idx_relation createIndexConcurrently))) = 16500 \<and>
   snd (ExecuteDistributedDDLJob sampleCatalog brokenCluster createIndexJob
          (CatalogTupleUpdate_indisvalid 16500 True
            (StartTransactionCommand (CommitTransactionCommand
               (index_set_state_flags_INDEX_DROP_CLEAR_VALID 16500
                  (StartTransactionCommand (CommitTransactionCommand idleState))))))) =
     Some ConcurrentIndexCommandFailedError \<and>
   indisvalid
     (AbortCurrentTransaction
        (fst (ExecuteDistributedDDLJob sampleCatalog brokenCluster createIndexJob
          (CatalogTupleUpdate_indisvalid 16500 True
            (StartTransactionCommand (CommitTransactionCommand
               (index_set_state_flags_INDEX_DROP_CLEAR_VALID 16500
                  (StartTransactionCommand (CommitTransactionCommand idleState)))))))))
     16500 = False"
proof -
  let ?st = "CatalogTupleUpdate_indisvalid 16500 True
      (StartTransactionCommand (CommitTransactionCommand
         (index_set_state_flags_INDEX_DROP_CLEAR_VALID 16500
            (StartTransactionCommand (CommitTransactionCommand idleState)))))"
  let ?index = "get_relname_relid sampleCatalog (idxname createIndexConcurrently)
      (get_rel_namespace sampleCatalog
         (RangeVarRelid sampleCatalog (idx_relation createIndexConcurrently)))"
  have h1: "concurrentIndexCmd createIndexJob" by (simp add: createIndexJob_def)
  have h2: "IsCoordinator brokenCluster" by (simp add: brokenCluster_def sampleCluster_def)
  have h3: "\<not> PartitionTableIsReplicated brokenCluster (targetRelationId createIndexJob)"
    by (simp add: brokenCluster_def sampleCluster_def)
  have h4: "workerCallFails brokenCluster
      (ExecuteModifyTasksSequentiallyWithoutResultsCall (taskList createIndexJob))"
    by (simp add: brokenCluster_def)
  have h5: "concurrent createIndexConcurrently" by (simp add: createIndexConcurrently_def)
  have h6: "?index = 16500"
    by (simp add: createIndexConcurrently_def sampleCatalog_def)
  have h7: "PostProcessUtility sampleCatalog brokenCluster
      (IndexStmtNode createIndexConcurrently) idleState = Inr ?st"
    by (simp add: PostProcessUtility_def createIndexConcurrently_def brokenCluster_def
        sampleCluster_def RangeVarGetRelid_def sampleCatalog_def sampleRelid_def
        OidIsValid_def InvalidOid_def Let_def)
  note main = concurrent_index_failure [OF h1 h2 h3, of sampleCatalog ?st]
  from main h4 have r1: "snd (ExecuteDistributedDDLJob sampleCatalog brokenCluster
      createIndexJob ?st) = Some ConcurrentIndexCommandFailedError"
    by simp
  from main h5 h7 have "indisvalid (AbortCurrentTransaction
      (fst (ExecuteDistributedDDLJob sampleCatalog brokenCluster createIndexJob ?st)))
      ?index = False"
    by blast
  with h6 have r2: "indisvalid (AbortCurrentTransaction
      (fst (ExecuteDistributedDDLJob sampleCatalog brokenCluster createIndexJob ?st)))
      16500 = False"
    by simp
  from h1 h2 h3 h4 h5 h6 h7 r1 r2 show ?thesis by blast
qed

subsection \<open>Distributed locks\<close>

lemma andThen_None: "andThen (st, None) next = next st"
  by (simp add: andThen_def)

lemma andThen_assoc:
  "andThen (andThen result f) g = andThen result (\<lambda>st. andThen (f st) g)"
  by (cases result) (auto simp add: andThen_def split: option.splits)

lemma issueRequests_append:
  "issueRequests cl (first @ second) st =
     andThen (issueRequests cl first st) (issueRequests cl second)"
proof (induction first arbitrary: st)
  case Nil
  show ?case by (simp add: andThen_def)
next
  case (Cons event rest)
  have step: "issueRequests cl (rest @ second) =
      (\<lambda>st. andThen (issueRequests cl rest st) (issueRequests cl second))"
    using Cons.IH by (intro ext)
  show ?case
    by (cases event) (simp_all add: step andThen_assoc Cons.IH)
qed

lemma lockRequest_local:
  "groupId workerNode = GetLocalGroupId cl \<Longrightarrow>
   lockRequest cl lockMode relationId workerNode = LockRelationOidCall relationId lockMode"
  by (simp add: lockRequest_def)

lemma lockRequest_remote:
  "groupId workerNode \<noteq> GetLocalGroupId cl \<Longrightarrow>
   lockRequest cl lockMode relationId workerNode =
     SendCommandToWorkerCall (workerName workerNode) (workerPort workerNode)
       (LOCK_RELATION_IF_EXISTS (generate_qualified_relation_name cl relationId)
          (LockModeToLockModeText cl lockMode))"
  by (simp add: lockRequest_def)

lemma workers_loop:
  "AcquireDistributedLockOnRelations_workers cl relationId lockMode
     (LOCK_RELATION_IF_EXISTS (generate_qualified_relation_name cl relationId)
        (LockModeToLockModeText cl lockMode)) workerNodeList st =
   issueRequests cl (map (lockRequest cl lockMode relationId) workerNodeList) st"
proof (induction workerNodeList arbitrary: st)
  case Nil
  show ?case by simp
next
  case (Cons workerNode rest)
  have step: "AcquireDistributedLockOnRelations_workers cl relationId lockMode
      (LOCK_RELATION_IF_EXISTS (generate_qualified_relation_name cl relationId)
        (LockModeToLockModeText cl lockMode)) rest =
      issueRequests cl (map (lockRequest cl lockMode relationId) rest)"
    using Cons.IH by (intro ext)
  show ?case
  proof (cases "groupId workerNode = GetLocalGroupId cl")
    case True
    then show ?thesis by (simp add: step lockRequest_local)
  next
    case False
    then show ?thesis
      by (simp add: step lockRequest_remote SendCommandToWorker_def Let_def)
  qed
qed

lemma relations_loop:
  "AcquireDistributedLockOnRelations_relations cl lockMode (LockModeToLockModeText cl lockMode)
     workerNodeList relationIdList st =
   issueRequests cl (lockRequests cl lockMode relationIdList workerNodeList) st"
proof (induction relationIdList arbitrary: st)
  case Nil
  show ?case by (simp add: lockRequests_def)
next
  case (Cons relationId rest)
  have "AcquireDistributedLockOnRelations_relations cl lockMode
      (LockModeToLockModeText cl lockMode) workerNodeList rest =
      issueRequests cl (lockRequests cl lockMode rest workerNodeList)"
    using Cons.IH by (intro ext)
  then show ?case
    using issueRequests_append [of cl "map (lockRequest cl lockMode relationId) workerNodeList"
        "lockRequests cl lockMode rest workerNodeList" st]
    by (simp add: lockRequests_def workers_loop Let_def)
qed

lemma Acquire_issues:
  "AcquireDistributedLockOnRelations cl relationIdList lockMode st =
   issueRequests cl
     (lockRequests cl lockMode (sort relationIdList)
        (sort_key WorkerNodeOrder (ActivePrimaryNodeList cl)))
     (BeginOrContinueCoordinatedTransaction st)"
  by (simp add: AcquireDistributedLockOnRelations_def Let_def relations_loop
      SortList_CompareOids_def SortList_CompareWorkerNodes_def)

lemma issueRequests_no_failure:
  "\<forall>event \<in> set requests. \<not> workerCallFails cl event \<Longrightarrow>
   issueRequests cl requests st = (st\<lparr>clusterLog := clusterLog st @ requests\<rparr>, None)"
proof (induction requests arbitrary: st)
  case Nil
  show ?case by simp
next
  case (Cons event rest)
  then show ?case
    by (cases event) (simp_all add: LockRelationOid_def clusterCall_def andThen_def)
qed

lemma map_sort_key: "map f (sort_key f xs) = sort (map f xs)"
  by (rule properties_for_sort [symmetric]) simp_all

lemma lockRequest_order:
  "WorkerNodeOrder first = WorkerNodeOrder second \<Longrightarrow>
   lockRequest cl lockMode relationId first = lockRequest cl lockMode relationId second"
  by (simp add: lockRequest_def WorkerNodeOrder_def)


lemma lockRequest_map_order:
  "map WorkerNodeOrder first = map WorkerNodeOrder second \<Longrightarrow>
   map (lockRequest cl lockMode relationId) first =
     map (lockRequest cl lockMode relationId) second"
proof (induction first arbitrary: second)
  case Nil
  then show ?case by simp
next
  case (Cons workerNode rest)
  then obtain workerNode' rest' where second: "second = workerNode' # rest'"
    by (cases second) simp_all
  with Cons.prems have same: "WorkerNodeOrder workerNode = WorkerNodeOrder workerNode'"
    and others: "map WorkerNodeOrder rest = map WorkerNodeOrder rest'" by simp_all
  from lockRequest_order [OF same] Cons.IH [OF others] second show ?case by simp
qed

lemma sort_permutation: "mset xs = mset ys \<Longrightarrow> sort xs = sort ys"
  by (rule properties_for_sort) simp_all

lemma lockRequests_permutation:
  assumes "mset relationIdList' = mset relationIdList"
    and "mset workerNodeList' = mset workerNodeList"
  shows "lockRequests cl lockMode (sort relationIdList')
           (sort_key WorkerNodeOrder workerNodeList') =
         lockRequests cl lockMode (sort relationIdList)
           (sort_key WorkerNodeOrder workerNodeList)"
proof -
  from assms(1) have relations: "sort relationIdList' = sort relationIdList"
    by (rule sort_permutation)
  from assms(2) have "mset (map WorkerNodeOrder workerNodeList') =
      mset (map WorkerNodeOrder workerNodeList)" by simp
  then have "sort (map WorkerNodeOrder workerNodeList') =
      sort (map WorkerNodeOrder workerNodeList)"
    by (rule sort_permutation)
  then have "map WorkerNodeOrder (sort_key WorkerNodeOrder workerNodeList') =
      map WorkerNodeOrder (sort_key WorkerNodeOrder workerNodeList)"
    by (simp add: map_sort_key)
  then have "map (lockRequest cl lockMode relationId)
        (sort_key WorkerNodeOrder workerNodeList') =
      map (lockRequest cl lockMode relationId) (sort_key WorkerNodeOrder workerNodeList)"
    for relationId
    by (rule lockRequest_map_order)
  with relations show ?thesis by (simp add: lockRequests_def)
qed

lemma issueRequests_other_nodes:
  "issueRequests (cl\<lparr>ActivePrimaryNodeList := workerNodeList\<rparr>) requests st =
   issueRequests cl requests st"
proof (induction requests arbitrary: st)
  case Nil
  show ?case by simp
next
  case (Cons event rest)
  have step: "issueRequests (cl\<lparr>ActivePrimaryNodeList := workerNodeList\<rparr>) rest =
      issueRequests cl rest"
    using Cons.IH by (intro ext)
  show ?case by (cases event) (simp_all add: step clusterCall_def)
qed

lemma lockRequest_other_nodes:
  "lockRequest (cl\<lparr>ActivePrimaryNodeList := workerNodeList\<rparr>) lockMode relationId =
     lockRequest cl lockMode relationId"
  by (rule ext) (simp add: lockRequest_def)

lemma lockRequests_other_nodes:
  "lockRequests (cl\<lparr>ActivePrimaryNodeList := workerNodeList\<rparr>) lockMode relationIdList
     requested = lockRequests cl lockMode relationIdList requested"
  by (simp add: lockRequests_def lockRequest_other_nodes)

text \<open>
  C9. \<^verbatim>\<open>AcquireDistributedLockOnRelations\<close> issues the lock requests in the fixed
  nested order over the sorted relation ids and, for each relation whose metadata is
  synchronised, the sorted worker nodes, up to the first call that fails; when no call
  fails the log of the calls is this whole sequence. The outcome is the same for every
  reordering of the relation id list and of the worker node list. For a worker node in
  the group of the local node the request is the lock taken in-process, for every other
  node it is the command sent to that node.
\<close>

theorem AcquireDistributedLockOnRelations_fixed_order:
  "AcquireDistributedLockOnRelations cl relationIdList lockMode st =
     issueRequests cl
       (lockRequests cl lockMode (sort relationIdList)
          (sort_key WorkerNodeOrder (ActivePrimaryNodeList cl)))
       (BeginOrContinueCoordinatedTransaction st) \<and>
   sorted (sort relationIdList) \<and>
   sorted (map WorkerNodeOrder (sort_key WorkerNodeOrder (ActivePrimaryNodeList cl))) \<and>
   ((\<forall>event. \<not> workerCallFails cl event) \<longrightarrow>
      AcquireDistributedLockOnRelations cl relationIdList lockMode st =
        (st\<lparr>clusterLog := clusterLog st @
              BeginOrContinueCoordinatedTransactionCall #
              lockRequests cl lockMode (sort relationIdList)
                (sort_key WorkerNodeOrder (ActivePrimaryNodeList cl))\<rparr>, None)) \<and>
   (mset relationIdList' = mset relationIdList \<and>
    mset workerNodeList' = mset (ActivePrimaryNodeList cl) \<longrightarrow>
      AcquireDistributedLockOnRelations (cl\<lparr>ActivePrimaryNodeList := workerNodeList'\<rparr>)
        relationIdList' lockMode st =
      AcquireDistributedLockOnRelations cl relationIdList lockMode st) \<and>
   (\<forall>workerNode relationId.
      groupId workerNode = GetLocalGroupId cl \<longrightarrow>
      lockRequest cl lockMode relationId workerNode =
        LockRelationOidCall relationId lockMode) \<and>
   (\<forall>workerNode relationId.
      groupId workerNode \<noteq> GetLocalGroupId cl \<longrightarrow>
      lockRequest cl lockMode relationId workerNode =
        SendCommandToWorkerCall (workerName workerNode) (workerPort workerNode)
          (LOCK_RELATION_IF_EXISTS (generate_qualified_relation_name cl relationId)
             (LockModeToLockModeText cl lockMode)))"
proof (intro conjI allI impI)
  show "AcquireDistributedLockOnRelations cl relationIdList lockMode st =
     issueRequests cl
       (lockRequests cl lockMode (sort relationIdList)
          (sort_key WorkerNodeOrder (ActivePrimaryNodeList cl)))
       (BeginOrContinueCoordinatedTransaction st)"
    by (rule Acquire_issues)
  show "sorted (sort relationIdList)" by simp
  show "sorted (map WorkerNodeOrder (sort_key WorkerNodeOrder (ActivePrimaryNodeList cl)))"
    by simp
next
  assume "\<forall>event. \<not> workerCallFails cl event"
  then have "\<forall>event \<in> set (lockRequests cl lockMode (sort relationIdList)
      (sort_key WorkerNodeOrder (ActivePrimaryNodeList cl))). \<not> workerCallFails cl event"
    by blast
  from issueRequests_no_failure [OF this, of "BeginOrContinueCoordinatedTransaction st"]
  show "AcquireDistributedLockOnRelations cl relationIdList lockMode st =
      (st\<lparr>clusterLog := clusterLog st @
            BeginOrContinueCoordinatedTransactionCall #
            lockRequests cl lockMode (sort relationIdList)
              (sort_key WorkerNodeOrder (ActivePrimaryNodeList cl))\<rparr>, None)"
    by (simp add: Acquire_issues BeginOrContinueCoordinatedTransaction_def)
next
  assume "mset relationIdList' = mset relationIdList \<and>
      mset workerNodeList' = mset (ActivePrimaryNodeList cl)"
  then have "lockRequests cl lockMode (sort relationIdList')
        (sort_key WorkerNodeOrder workerNodeList') =
      lockRequests cl lockMode (sort relationIdList)
        (sort_key WorkerNodeOrder (ActivePrimaryNodeList cl))"
    by (intro lockRequests_permutation) simp_all
  then show "AcquireDistributedLockOnRelations (cl\<lparr>ActivePrimaryNodeList := workerNodeList'\<rparr>)
      relationIdList' lockMode st =
      AcquireDistributedLockOnRelations cl relationIdList lockMode st"
    by (simp add: Acquire_issues issueRequests_other_nodes lockRequests_other_nodes)
next
  fix workerNode :: WorkerNode and relationId :: Oid
  assume "groupId workerNode = GetLocalGroupId cl"
  then show "lockRequest cl lockMode relationId workerNode =
      LockRelationOidCall relationId lockMode"
    by (rule lockRequest_local)
next
  fix workerNode :: WorkerNode and relationId :: Oid
  assume "groupId workerNode \<noteq> GetLocalGroupId cl"
  then show "lockRequest cl lockMode relationId workerNode =
      SendCommandToWorkerCall (workerName workerNode) (workerPort workerNode)
        (LOCK_RELATION_IF_EXISTS (generate_qualified_relation_name cl relationId)
           (LockModeToLockModeText cl lockMode))"
    by (rule lockRequest_remote)
qed

lemma sample_sorted_relations: "sort [16390, 16385, 16400 :: Oid] = [16385, 16390, 16400]"
  by simp

lemma sample_sorted_workers:
  "sort_key WorkerNodeOrder (ActivePrimaryNodeList sampleCluster) =
     [\<lparr>workerName = ''coordinator'', workerPort = 5432, groupId = 0, hasMetadata = True\<rparr>,
      \<lparr>workerName = ''worker-1'', workerPort = 5432, groupId = 1, hasMetadata = False\<rparr>,
      \<lparr>workerName = ''worker-2'', workerPort = 5432, groupId = 2, hasMetadata = True\<rparr>]"
  by (simp add: sampleCluster_def WorkerNodeOrder_def)


theorem AcquireDistributedLockOnRelations_fixed_order_witness:
  "mset [16385, 16400, 16390] = mset [16390, 16385, 16400 :: Oid] \<and>
   mset (rev (ActivePrimaryNodeList sampleCluster)) = mset (ActivePrimaryNodeList sampleCluster) \<and>
   AcquireDistributedLockOnRelations
     (sampleCluster\<lparr>ActivePrimaryNodeList := rev (ActivePrimaryNodeList sampleCluster)\<rparr>)
     [16385, 16400, 16390] AccessExclusiveLock idleState =
   AcquireDistributedLockOnRelations sampleCluster [16390, 16385, 16400] AccessExclusiveLock
     idleState \<and>
   clusterLog (fst (AcquireDistributedLockOnRelations sampleCluster [16390, 16385, 16400]
     AccessExclusiveLock idleState)) =
     [BeginOrContinueCoordinatedTransactionCall,
      LockRelationOidCall 16385 AccessExclusiveLock,
      SendCommandToWorkerCall ''worker-1'' 5432
        (LOCK_RELATION_IF_EXISTS ''public.orders'' ''ACCESS EXCLUSIVE''),
      SendCommandToWorkerCall ''worker-2'' 5432
        (LOCK_RELATION_IF_EXISTS ''public.orders'' ''ACCESS EXCLUSIVE''),
      LockRelationOidCall 16390 AccessExclusiveLock,
      SendCommandToWorkerCall ''worker-1'' 5432
        (LOCK_RELATION_IF_EXISTS ''public.warehouses'' ''ACCESS EXCLUSIVE''),
      SendCommandToWorkerCall ''worker-2'' 5432
        (LOCK_RELATION_IF_EXISTS ''public.warehouses'' ''ACCESS EXCLUSIVE'')]"
proof -
  let ?relations = "[16390, 16385, 16400 :: Oid]"
  have p1: "mset [16385, 16400, 16390] = mset ?relations" by simp
  have p2: "mset (rev (ActivePrimaryNodeList sampleCluster)) =
      mset (ActivePrimaryNodeList sampleCluster)" by simp
  have reliable: "\<forall>event. \<not> workerCallFails sampleCluster event"
    by (simp add: sampleCluster_def)
  note fixed = AcquireDistributedLockOnRelations_fixed_order [of sampleCluster ?relations
      AccessExclusiveLock idleState "[16385, 16400, 16390]"
      "rev (ActivePrimaryNodeList sampleCluster)"]
  from fixed p1 p2 have same: "AcquireDistributedLockOnRelations
      (sampleCluster\<lparr>ActivePrimaryNodeList := rev (ActivePrimaryNodeList sampleCluster)\<rparr>)
      [16385, 16400, 16390] AccessExclusiveLock idleState =
      AcquireDistributedLockOnRelations sampleCluster ?relations AccessExclusiveLock idleState"
    by blast
  have requests: "lockRequests sampleCluster AccessExclusiveLock (sort ?relations)
      (sort_key WorkerNodeOrder (ActivePrimaryNodeList sampleCluster)) =
     [LockRelationOidCall 16385 AccessExclusiveLock,
      SendCommandToWorkerCall ''worker-1'' 5432
        (LOCK_RELATION_IF_EXISTS ''public.orders'' ''ACCESS EXCLUSIVE''),
      SendCommandToWorkerCall ''worker-2'' 5432
        (LOCK_RELATION_IF_EXISTS ''public.orders'' ''ACCESS EXCLUSIVE''),
      LockRelationOidCall 16390 AccessExclusiveLock,
      SendCommandToWorkerCall ''worker-1'' 5432
        (LOCK_RELATION_IF_EXISTS ''public.warehouses'' ''ACCESS EXCLUSIVE''),
      SendCommandToWorkerCall ''worker-2'' 5432
        (LOCK_RELATION_IF_EXISTS ''public.warehouses'' ''ACCESS EXCLUSIVE'')]"
    unfolding sample_sorted_relations sample_sorted_workers
    by (simp add: lockRequests_def lockRequest_def sampleCluster_def)
  from fixed reliable have "AcquireDistributedLockOnRelations sampleCluster ?relations
      AccessExclusiveLock idleState =
      (idleState\<lparr>clusterLog := clusterLog idleState @
         BeginOrContinueCoordinatedTransactionCall #
         lockRequests sampleCluster AccessExclusiveLock (sort ?relations)
           (sort_key WorkerNodeOrder (ActivePrimaryNodeList sampleCluster))\<rparr>, None)"
    by blast
  then have log: "clusterLog (fst (AcquireDistributedLockOnRelations sampleCluster ?relations
      AccessExclusiveLock idleState)) =
      BeginOrContinueCoordinatedTransactionCall #
      lockRequests sampleCluster AccessExclusiveLock (sort ?relations)
        (sort_key WorkerNodeOrder (ActivePrimaryNodeList sampleCluster))"
    by (simp add: idleState_def)
  from p1 p2 same log requests show ?thesis by simp
qed

end
